theory Spec2Isabelle
  imports Main "HOL-Library.Word" "HOL-Library.Monad_Syntax"
begin

unbundle bit_operations_syntax

text \<open>
  A verification of the attribute codecs of the netem queueing discipline and of the u32
  filter. The embedding follows three files of the package: \<open>q_netem.go\<close>, \<open>f_u32.go\<close> and
  \<open>qdisc_test.go\<close>. Functions of the package that these files call and do not define
  are modelled from the specification; each such definition says so.
\<close>

section \<open>Machine integers and byte order\<close>

text \<open>
  Go's \<open>uint8\<close>, \<open>uint16\<close>, \<open>uint32\<close>, \<open>uint64\<close> are words of that width; \<open>int32\<close> and
  \<open>int64\<close> are words of the same width read in two's complement, so they share the
  carrier of the unsigned types.
\<close>

type_synonym byte = "8 word"
type_synonym u8 = "8 word"
type_synonym u16 = "16 word"
type_synonym u32 = "32 word"
type_synonym u64 = "64 word"
type_synonym i32 = "32 word"
type_synonym i64 = "64 word"

text \<open>
  \<open>nativeEndian\<close> is a package variable that the three files read and never set; its
  declaration is not among them, so the byte order is a parameter of every codec function.
\<close>

datatype byteorder = LittleEndian | BigEndian

fun leBytes :: "nat \<Rightarrow> 'a::len word \<Rightarrow> byte list" where
  "leBytes 0 v = []"
| "leBytes (Suc n) v = ucast v # leBytes n (drop_bit 8 v)"

fun leWord :: "byte list \<Rightarrow> 'a::len word" where
  "leWord [] = 0"
| "leWord (b # bs) = ucast b OR push_bit 8 (leWord bs)"

definition orderBytes :: "byteorder \<Rightarrow> byte list \<Rightarrow> byte list" where
  "orderBytes bo bs = (case bo of LittleEndian \<Rightarrow> bs | BigEndian \<Rightarrow> rev bs)"

text \<open>\<open>ByteOrder.PutUint16/32/64\<close> and \<open>ByteOrder.Uint16/32/64\<close> of \<open>encoding/binary\<close>.
  The readers look at the first 2, 4 or 8 bytes of the slice they are given; every call
  in the model hands them a slice of exactly that length.\<close>

definition putUint16 :: "byteorder \<Rightarrow> u16 \<Rightarrow> byte list" where
  "putUint16 bo v = orderBytes bo (leBytes 2 v)"

definition putUint32 :: "byteorder \<Rightarrow> u32 \<Rightarrow> byte list" where
  "putUint32 bo v = orderBytes bo (leBytes 4 v)"

definition putUint64 :: "byteorder \<Rightarrow> u64 \<Rightarrow> byte list" where
  "putUint64 bo v = orderBytes bo (leBytes 8 v)"

definition Uint16 :: "byteorder \<Rightarrow> byte list \<Rightarrow> u16" where
  "Uint16 bo bs = leWord (orderBytes bo (take 2 bs))"

definition Uint32 :: "byteorder \<Rightarrow> byte list \<Rightarrow> u32" where
  "Uint32 bo bs = leWord (orderBytes bo (take 4 bs))"

definition Uint64 :: "byteorder \<Rightarrow> byte list \<Rightarrow> u64" where
  "Uint64 bo bs = leWord (orderBytes bo (take 8 bs))"

text \<open>A slice expression \<open>data[i:j]\<close> and an index expression \<open>data[i]\<close>. Go panics when
  the bounds are outside the slice; the panic is the value \<open>None\<close>.\<close>

definition goSlice :: "'a list \<Rightarrow> nat \<Rightarrow> nat \<Rightarrow> 'a list option" where
  "goSlice xs i j = (if i \<le> j \<and> j \<le> length xs then Some (take (j - i) (drop i xs)) else None)"

definition goIndex :: "'a list \<Rightarrow> nat \<Rightarrow> 'a option" where
  "goIndex xs i = (if i < length xs then Some (xs ! i) else None)"

text \<open>The unchecked part of a buffer between two offsets, for code that has already
  compared the buffer's length with the size it needs.\<close>

definition bytesAt :: "byte list \<Rightarrow> nat \<Rightarrow> nat \<Rightarrow> byte list" where
  "bytesAt bs off n = take n (drop off bs)"

section \<open>Errors\<close>

text \<open>
  One constructor for each place where the source, or a collaborator it calls,
  makes an error value. \<open>ErrUnknownAttr\<close> carries the function name, the type code and
  the payload that the source formats into the message; \<open>ErrConcat\<close> is the
  combination of two errors; \<open>PanicOutOfRange\<close> is a run-time panic of an index or slice
  expression.
\<close>

datatype error =
    ErrNoArg string
  | ErrSizeMismatch
  | ErrNotEnoughBytesU32Sel
  | ErrNotEnoughBytesU32Keys
  | ErrUnknownAttr string u16 "byte list"
  | ErrInvalidAttribute
  | ErrAttributeSize u16 nat
  | ErrAttributeTooLarge
  | ErrInterpretation
  | ErrConcat error error
  | PanicOutOfRange

text \<open>Modelled from the spec: \<open>concatError\<close>, whose source is not in the three files.
  "A stateful accumulator collects sub-errors [...] and, at the end of the sequence, is
  itself non-absent if and only if at least one sub-error occurred; it formats as the
  concatenation of all sub-errors' messages." It is a Go function of two \<open>error\<close> values
  returning an \<open>error\<close>: whatever it computes reaches the caller through its result only.\<close>

fun concatError :: "error option \<Rightarrow> error option \<Rightarrow> error option" where
  "concatError None None = None"
| "concatError None (Some b) = Some b"
| "concatError (Some a) None = Some a"
| "concatError (Some a) (Some b) = Some (ErrConcat a b)"

section \<open>Fixed-layout struct codec\<close>

text \<open>
  The source packs and unpacks every fixed record through two generic functions,
  \<open>marshalStruct\<close> and \<open>unmarshalStruct\<close>, that inspect the record's type at run time.
  The model describes a record type by its layout: packed size, packing and unpacking
  of the fields in declared order.
\<close>

record 'r layout =
  packedSize :: nat
  pack :: "byteorder \<Rightarrow> 'r \<Rightarrow> byte list"
  unpack :: "byteorder \<Rightarrow> byte list \<Rightarrow> 'r"

text \<open>Modelled from the spec: \<open>marshalStruct\<close>, whose source is not in the three files.
  "\<open>marshal(record) -> bytes\<close> always succeeds and produces exactly that many bytes, in
  native byte order, fields in declared order, no implicit padding beyond what the
  kernel layout specifies."\<close>

definition marshalStruct :: "'r layout \<Rightarrow> byteorder \<Rightarrow> 'r \<Rightarrow> byte list \<times> error option" where
  "marshalStruct l bo s = (pack l bo s, None)"

text \<open>Modelled from the spec: \<open>unmarshalStruct\<close>, whose source is not in the three
  files. The spec names the failure: "\<open>unmarshal(bytes) -> record\<close> fails with a
  size-mismatch error" on a buffer that does not have the record's packed size. What the
  helper does with a buffer longer than the record is fixed by its call in
  \<open>unmarshalNetem\<close>, which hands it the whole message and then decodes the attributes
  from \<open>data[24:]\<close>: the record is read from the first \<open>packedSize\<close> bytes and the bytes
  after them are left alone. So the failure is that of a buffer too short for the
  record. The destination is passed by pointer: the result is the error and the
  destination's value afterwards, untouched on failure.\<close>

definition unmarshalStruct :: "'r layout \<Rightarrow> byteorder \<Rightarrow> byte list \<Rightarrow> 'r \<Rightarrow> error option \<times> 'r" where
  "unmarshalStruct l bo data s =
     (if length data < packedSize l then (Some ErrSizeMismatch, s)
      else (None, unpack l bo (take (packedSize l) data)))"

text \<open>Modelled from the spec: \<open>unmarshalNetlinkAttribute\<close>, whose source is not in the
  three files; the source calls it on the payload of a 64-bit signed attribute. It is the
  fixed-layout decoder at a single 8-byte field.\<close>

definition int64Layout :: "i64 layout" where
  "int64Layout = \<lparr> packedSize = 8, pack = putUint64, unpack = (\<lambda>bo bs. Uint64 bo (bytesAt bs 0 8)) \<rparr>"

definition unmarshalNetlinkAttribute :: "byteorder \<Rightarrow> byte list \<Rightarrow> i64 \<Rightarrow> error option \<times> i64" where
  "unmarshalNetlinkAttribute bo data s = unmarshalStruct int64Layout bo data s"

section \<open>Handles and the message header\<close>

text \<open>Modelled from the spec: \<open>BuildHandle\<close>, which the test calls and whose source
  is not in the three files. "Handle: a 32-bit value logically split into a 16-bit
  major and 16-bit minor component (\<open>major<<16 | minor\<close>)."\<close>

definition BuildHandle :: "u32 \<Rightarrow> u32 \<Rightarrow> u32" where
  "BuildHandle maj mn = push_bit 16 maj OR mn"

text \<open>Modelled from the spec: the decomposition of a handle into its major (upper 16
  bits) and minor (lower 16 bits) components; its source is not in the three files.\<close>

definition SplitHandle :: "u32 \<Rightarrow> u32 \<times> u32" where
  "SplitHandle h = (drop_bit 16 h, h AND 0xFFFF)"

text \<open>Modelled from the spec: the message header \<open>Msg\<close>, whose declaration is not in
  the three files. "Message header: fixed record -- address family, interface index,
  composite handle, parent handle, info flags." The test fills the five fields and
  skips a 20-byte header (\<open>msg.Data[20:]\<close>): five 32-bit fields.\<close>

record Msg =
  msg_Family :: u32
  msg_Ifindex :: u32
  msg_Handle :: u32
  msg_Parent :: u32
  msg_Info :: u32

definition MsgLayout :: "Msg layout" where
  "MsgLayout = \<lparr> packedSize = 20,
     pack = (\<lambda>bo m. putUint32 bo (msg_Family m) @ putUint32 bo (msg_Ifindex m)
        @ putUint32 bo (msg_Handle m) @ putUint32 bo (msg_Parent m) @ putUint32 bo (msg_Info m)),
     unpack = (\<lambda>bo bs. \<lparr> msg_Family = Uint32 bo (bytesAt bs 0 4),
        msg_Ifindex = Uint32 bo (bytesAt bs 4 4), msg_Handle = Uint32 bo (bytesAt bs 8 4),
        msg_Parent = Uint32 bo (bytesAt bs 12 4), msg_Info = Uint32 bo (bytesAt bs 16 4) \<rparr>) \<rparr>"

section \<open>The netlink attribute stream\<close>

text \<open>
  The attribute encoder and decoder belong to the netlink library the source imports, an
  external collaborator. The spec states the contract used here: a stream is a
  concatenation of records "\<open>{length:16, type:16, payload}\<close>, payload padded to the next
  4-byte boundary with zero bytes (pad bytes are not counted in \<open>length\<close>)", and decoding
  gives "an ordered sequence of (type, raw bytes) pairs honoring 4-byte alignment". The
  length field counts the four header bytes, as the kernel's attribute header does.
\<close>

record Attribute =
  attr_Type :: u16
  attr_Data :: "byte list"

definition nlaAlign :: "nat \<Rightarrow> nat" where
  "nlaAlign n = ((n + 3) div 4) * 4"

definition marshalAttribute :: "byteorder \<Rightarrow> Attribute \<Rightarrow> byte list" where
  "marshalAttribute bo a =
     putUint16 bo (of_nat (4 + length (attr_Data a))) @ putUint16 bo (attr_Type a)
     @ attr_Data a @ replicate (nlaAlign (length (attr_Data a)) - length (attr_Data a)) 0"

text \<open>\<open>netlink.NewAttributeDecoder\<close>: the records of the buffer in order, or an error when
  a header is cut short, a length is 1, 2 or 3, or a length reaches past the end of the
  buffer. A header whose length field is 0 is stepped over and gives no record. A record
  keeps the type field as it is on the wire, flag bits included.\<close>

function NewAttributeDecoder :: "byteorder \<Rightarrow> byte list \<Rightarrow> error + Attribute list" where
  "NewAttributeDecoder bo b =
     (if b = [] then Inr []
      else if length b < 4 then Inl ErrInvalidAttribute
      else
        (let l = unat (Uint16 bo (bytesAt b 0 2)); t = Uint16 bo (bytesAt b 2 2) in
         if l = 0 then NewAttributeDecoder bo (drop 4 b)
         else if l < 4 \<or> length b < l then Inl ErrInvalidAttribute
         else
           (case NewAttributeDecoder bo (drop (nlaAlign l) b) of
              Inl err \<Rightarrow> Inl err
            | Inr attrs \<Rightarrow> Inr (\<lparr> attr_Type = t, attr_Data = bytesAt b 4 (l - 4) \<rparr> # attrs))))"
  by pat_completeness auto
termination
  by (relation "measure (\<lambda>(bo, b). length b)") (auto simp: nlaAlign_def)

declare NewAttributeDecoder.simps [simp del]

text \<open>
  The accessors of the decoder. \<open>ad.Type()\<close> gives the type code: the type field with
  the two flag bits (nested, network byte order) masked off. \<open>ad.Uint32()\<close> and
  \<open>ad.Uint64()\<close> give the value of a payload of exactly 4 or 8 bytes; on any other
  payload they give 0 and record an error in the decoder, after which \<open>ad.Next()\<close>
  reports false and \<open>ad.Err()\<close> gives that error. \<open>ad.String()\<close> gives the payload
  without its trailing zero bytes; \<open>ad.Bytes()\<close> gives the payload. The result of
  \<open>ad_Uint32\<close> and \<open>ad_Uint64\<close> is the value and the error recorded.
\<close>

definition ad_Type :: "Attribute \<Rightarrow> u16" where
  "ad_Type a = attr_Type a AND 0x3FFF"

definition ad_Uint32 :: "byteorder \<Rightarrow> Attribute \<Rightarrow> u32 \<times> error option" where
  "ad_Uint32 bo a =
     (if length (attr_Data a) \<noteq> 4 then (0, Some (ErrAttributeSize (ad_Type a) (length (attr_Data a))))
      else (Uint32 bo (attr_Data a), None))"

definition ad_Uint64 :: "byteorder \<Rightarrow> Attribute \<Rightarrow> u64 \<times> error option" where
  "ad_Uint64 bo a =
     (if length (attr_Data a) \<noteq> 8 then (0, Some (ErrAttributeSize (ad_Type a) (length (attr_Data a))))
      else (Uint64 bo (attr_Data a), None))"

definition ad_String :: "Attribute \<Rightarrow> byte list" where
  "ad_String a = rev (dropWhile (\<lambda>c. c = 0) (rev (attr_Data a)))"

definition ad_Bytes :: "Attribute \<Rightarrow> byte list" where
  "ad_Bytes a = attr_Data a"

text \<open>
  The loop \<open>for ad.Next() { switch ad.Type() { ... } }\<close>. One pass of the body either
  goes on to the next record (\<open>Continue\<close>), leaves the decoder with a recorded accessor
  error so that \<open>ad.Next()\<close> ends the loop (\<open>AccessorFailed\<close>), or executes a \<open>return\<close>
  with an error (\<open>Return\<close>). Each carries the object under construction as the pass
  left it: the source fills it through a pointer, so the caller sees it also when an
  error is returned.
\<close>

datatype 'i flow = Continue 'i | AccessorFailed error 'i | Return error 'i

fun forNext :: "(Attribute \<Rightarrow> 'i \<Rightarrow> 'i flow) \<Rightarrow> Attribute list \<Rightarrow> 'i \<Rightarrow> 'i flow" where
  "forNext body [] info = Continue info"
| "forNext body (a # as) info =
     (case body a info of
        Continue info' \<Rightarrow> forNext body as info'
      | AccessorFailed err info' \<Rightarrow> AccessorFailed err info'
      | Return err info' \<Rightarrow> Return err info')"

definition afterAccessor :: "error option \<Rightarrow> 'i \<Rightarrow> 'i flow" where
  "afterAccessor aderr info = (case aderr of None \<Rightarrow> Continue info | Some err \<Rightarrow> AccessorFailed err info)"

text \<open>The object as a pass, or the whole loop, left it.\<close>

fun flowInfo :: "'i flow \<Rightarrow> 'i" where
  "flowInfo (Continue info) = info"
| "flowInfo (AccessorFailed err info) = info"
| "flowInfo (Return err info) = info"

text \<open>Modelled from the spec: \<open>tcOption\<close> and \<open>marshalAttributes\<close>, whose sources are not
  in the three files. "Input: an ordered list of (type code, encoding kind, value)
  tuples, where encoding kind is one of {raw bytes, 8/16/32/64-bit unsigned integer,
  signed 64-bit integer, null-terminated string}. Output: concatenated TLV records [...]
  Order of emission is the order given." A value that does not have the shape its
  encoding kind names, or a payload that does not fit the 16-bit length, is an error.\<close>

datatype valueType = vtUint8 | vtUint16 | vtUint32 | vtUint64 | vtString | vtBytes | vtInt64

datatype optionData =
    DataUint8 u8 | DataUint16 u16 | DataUint32 u32 | DataUint64 u64
  | DataString "byte list" | DataBytes "byte list" | DataInt64 i64

record tcOption =
  opt_Interpretation :: valueType
  opt_Type :: u16
  opt_Data :: optionData

fun optionPayload :: "byteorder \<Rightarrow> valueType \<Rightarrow> optionData \<Rightarrow> error + byte list" where
  "optionPayload bo vtUint8 (DataUint8 v) = Inr [v]"
| "optionPayload bo vtUint16 (DataUint16 v) = Inr (putUint16 bo v)"
| "optionPayload bo vtUint32 (DataUint32 v) = Inr (putUint32 bo v)"
| "optionPayload bo vtUint64 (DataUint64 v) = Inr (putUint64 bo v)"
| "optionPayload bo vtString (DataString s) = Inr (s @ [0])"
| "optionPayload bo vtBytes (DataBytes bs) = Inr bs"
| "optionPayload bo vtInt64 (DataInt64 v) = Inr (putUint64 bo v)"
| "optionPayload bo _ _ = Inl ErrInterpretation"

fun marshalAttributes :: "byteorder \<Rightarrow> tcOption list \<Rightarrow> byte list \<times> error option" where
  "marshalAttributes bo [] = ([], None)"
| "marshalAttributes bo (opt # opts) =
     (case optionPayload bo (opt_Interpretation opt) (opt_Data opt) of
        Inl err \<Rightarrow> ([], Some err)
      | Inr payload \<Rightarrow>
          if 65535 < 4 + length payload then ([], Some ErrAttributeTooLarge)
          else
            (case marshalAttributes bo opts of
               (data, Some err) \<Rightarrow> ([], Some err)
             | (data, None) \<Rightarrow>
                 (marshalAttribute bo \<lparr> attr_Type = opt_Type opt, attr_Data = payload \<rparr> @ data, None)))"

section \<open>The netem discipline (file q_netem.go)\<close>

definition tcaNetemUnspec :: u16 where "tcaNetemUnspec = 0"
definition tcaNetemCorr :: u16 where "tcaNetemCorr = 1"
definition tcaNetemDelayDist :: u16 where "tcaNetemDelayDist = 2"
definition tcaNetemReorder :: u16 where "tcaNetemReorder = 3"
definition tcaNetemCorrupt :: u16 where "tcaNetemCorrupt = 4"
definition tcaNetemLoss :: u16 where "tcaNetemLoss = 5"
definition tcaNetemRate :: u16 where "tcaNetemRate = 6"
definition tcaNetemEcn :: u16 where "tcaNetemEcn = 7"
definition tcaNetemRate64 :: u16 where "tcaNetemRate64 = 8"
definition tcaNetemPad :: u16 where "tcaNetemPad = 9"
definition tcaNetemLatency64 :: u16 where "tcaNetemLatency64 = 10"
definition tcaNetemJitter64 :: u16 where "tcaNetemJitter64 = 11"
definition tcaNetemSlot :: u16 where "tcaNetemSlot = 12"
definition tcaNetemSlotDist :: u16 where "tcaNetemSlotDist = 13"

record NetemQopt =
  qopt_Latency :: u32
  qopt_Limit :: u32
  qopt_Loss :: u32
  qopt_Gap :: u32
  qopt_Duplicate :: u32
  qopt_Jitter :: u32

record NetemCorr =
  corr_Delay :: u32
  corr_Loss :: u32
  corr_Dup :: u32

record NetemReorder =
  reorder_Probability :: u32
  reorder_Correlation :: u32

record NetemCorrupt =
  corrupt_Probability :: u32
  corrupt_Correlation :: u32

record NetemRate =
  rate_Rate :: u32
  rate_PacketOverhead :: i32
  rate_CellSize :: i32
  rate_CellOverhead :: i32

record NetemSlot =
  slot_MinDelay :: i64
  slot_MaxDelay :: i64
  slot_MaxPackets :: i32
  slot_MaxBytes :: i32
  slot_DistDelay :: i64
  slot_DistJitter :: i64

text \<open>A nil pointer field is \<open>None\<close>.\<close>

record Netem =
  Qopt :: NetemQopt
  Corr :: "NetemCorr option"
  Reorder :: "NetemReorder option"
  Corrupt :: "NetemCorrupt option"
  Rate :: "NetemRate option"
  Ecn :: "u32 option"
  Rate64 :: "u64 option"
  Latency64 :: "i64 option"
  Jitter64 :: "i64 option"
  Slot :: "NetemSlot option"

text \<open>The layouts of the fixed records, fields in declared order.\<close>

definition NetemQoptLayout :: "NetemQopt layout" where
  "NetemQoptLayout = \<lparr> packedSize = 24,
     pack = (\<lambda>bo q. putUint32 bo (qopt_Latency q) @ putUint32 bo (qopt_Limit q)
        @ putUint32 bo (qopt_Loss q) @ putUint32 bo (qopt_Gap q)
        @ putUint32 bo (qopt_Duplicate q) @ putUint32 bo (qopt_Jitter q)),
     unpack = (\<lambda>bo bs. \<lparr> qopt_Latency = Uint32 bo (bytesAt bs 0 4),
        qopt_Limit = Uint32 bo (bytesAt bs 4 4), qopt_Loss = Uint32 bo (bytesAt bs 8 4),
        qopt_Gap = Uint32 bo (bytesAt bs 12 4), qopt_Duplicate = Uint32 bo (bytesAt bs 16 4),
        qopt_Jitter = Uint32 bo (bytesAt bs 20 4) \<rparr>) \<rparr>"

definition NetemCorrLayout :: "NetemCorr layout" where
  "NetemCorrLayout = \<lparr> packedSize = 12,
     pack = (\<lambda>bo c. putUint32 bo (corr_Delay c) @ putUint32 bo (corr_Loss c)
        @ putUint32 bo (corr_Dup c)),
     unpack = (\<lambda>bo bs. \<lparr> corr_Delay = Uint32 bo (bytesAt bs 0 4),
        corr_Loss = Uint32 bo (bytesAt bs 4 4), corr_Dup = Uint32 bo (bytesAt bs 8 4) \<rparr>) \<rparr>"

definition NetemReorderLayout :: "NetemReorder layout" where
  "NetemReorderLayout = \<lparr> packedSize = 8,
     pack = (\<lambda>bo r. putUint32 bo (reorder_Probability r) @ putUint32 bo (reorder_Correlation r)),
     unpack = (\<lambda>bo bs. \<lparr> reorder_Probability = Uint32 bo (bytesAt bs 0 4),
        reorder_Correlation = Uint32 bo (bytesAt bs 4 4) \<rparr>) \<rparr>"

definition NetemCorruptLayout :: "NetemCorrupt layout" where
  "NetemCorruptLayout = \<lparr> packedSize = 8,
     pack = (\<lambda>bo r. putUint32 bo (corrupt_Probability r) @ putUint32 bo (corrupt_Correlation r)),
     unpack = (\<lambda>bo bs. \<lparr> corrupt_Probability = Uint32 bo (bytesAt bs 0 4),
        corrupt_Correlation = Uint32 bo (bytesAt bs 4 4) \<rparr>) \<rparr>"

definition NetemRateLayout :: "NetemRate layout" where
  "NetemRateLayout = \<lparr> packedSize = 16,
     pack = (\<lambda>bo r. putUint32 bo (rate_Rate r) @ putUint32 bo (rate_PacketOverhead r)
        @ putUint32 bo (rate_CellSize r) @ putUint32 bo (rate_CellOverhead r)),
     unpack = (\<lambda>bo bs. \<lparr> rate_Rate = Uint32 bo (bytesAt bs 0 4),
        rate_PacketOverhead = Uint32 bo (bytesAt bs 4 4), rate_CellSize = Uint32 bo (bytesAt bs 8 4),
        rate_CellOverhead = Uint32 bo (bytesAt bs 12 4) \<rparr>) \<rparr>"

definition NetemSlotLayout :: "NetemSlot layout" where
  "NetemSlotLayout = \<lparr> packedSize = 40,
     pack = (\<lambda>bo s. putUint64 bo (slot_MinDelay s) @ putUint64 bo (slot_MaxDelay s)
        @ putUint32 bo (slot_MaxPackets s) @ putUint32 bo (slot_MaxBytes s)
        @ putUint64 bo (slot_DistDelay s) @ putUint64 bo (slot_DistJitter s)),
     unpack = (\<lambda>bo bs. \<lparr> slot_MinDelay = Uint64 bo (bytesAt bs 0 8),
        slot_MaxDelay = Uint64 bo (bytesAt bs 8 8), slot_MaxPackets = Uint32 bo (bytesAt bs 16 4),
        slot_MaxBytes = Uint32 bo (bytesAt bs 20 4), slot_DistDelay = Uint64 bo (bytesAt bs 24 8),
        slot_DistJitter = Uint64 bo (bytesAt bs 32 8) \<rparr>) \<rparr>"

text \<open>The zero values \<open>NetemQopt{}\<close>, \<open>&NetemCorr{}\<close>, ... that the source allocates as
  destinations.\<close>

definition zeroNetemQopt :: NetemQopt where
  "zeroNetemQopt = \<lparr> qopt_Latency = 0, qopt_Limit = 0, qopt_Loss = 0, qopt_Gap = 0,
     qopt_Duplicate = 0, qopt_Jitter = 0 \<rparr>"

definition zeroNetemCorr :: NetemCorr where
  "zeroNetemCorr = \<lparr> corr_Delay = 0, corr_Loss = 0, corr_Dup = 0 \<rparr>"

definition zeroNetemReorder :: NetemReorder where
  "zeroNetemReorder = \<lparr> reorder_Probability = 0, reorder_Correlation = 0 \<rparr>"

definition zeroNetemCorrupt :: NetemCorrupt where
  "zeroNetemCorrupt = \<lparr> corrupt_Probability = 0, corrupt_Correlation = 0 \<rparr>"

definition zeroNetemRate :: NetemRate where
  "zeroNetemRate = \<lparr> rate_Rate = 0, rate_PacketOverhead = 0, rate_CellSize = 0,
     rate_CellOverhead = 0 \<rparr>"

definition zeroNetemSlot :: NetemSlot where
  "zeroNetemSlot = \<lparr> slot_MinDelay = 0, slot_MaxDelay = 0, slot_MaxPackets = 0,
     slot_MaxBytes = 0, slot_DistDelay = 0, slot_DistJitter = 0 \<rparr>"

definition zeroNetem :: Netem where
  "zeroNetem = \<lparr> Qopt = zeroNetemQopt, Corr = None, Reorder = None, Corrupt = None,
     Rate = None, Ecn = None, Rate64 = None, Latency64 = None, Jitter64 = None, Slot = None \<rparr>"

text \<open>
  The body of the \<open>switch\<close> in \<open>unmarshalNetem\<close>, one branch for each \<open>case\<close> in the order
  of the source. \<open>multiError\<close> is the local variable of that name. The source calls
  \<open>concatError(multiError, err)\<close> as a statement: the result is computed and dropped,
  which the model writes as a binding that is not used.
\<close>

definition netemCase :: "byteorder \<Rightarrow> error option \<Rightarrow> Attribute \<Rightarrow> Netem \<Rightarrow> Netem flow" where
  "netemCase bo multiError a info =
     (if ad_Type a = tcaNetemCorr then
        (let (err, tmp) = unmarshalStruct NetemCorrLayout bo (ad_Bytes a) zeroNetemCorr;
             dropped = concatError multiError err
         in Continue (info\<lparr>Corr := Some tmp\<rparr>))
      else if ad_Type a = tcaNetemReorder then
        (let (err, tmp) = unmarshalStruct NetemReorderLayout bo (ad_Bytes a) zeroNetemReorder;
             dropped = concatError multiError err
         in Continue (info\<lparr>Reorder := Some tmp\<rparr>))
      else if ad_Type a = tcaNetemCorrupt then
        (let (err, tmp) = unmarshalStruct NetemCorruptLayout bo (ad_Bytes a) zeroNetemCorrupt;
             dropped = concatError multiError err
         in Continue (info\<lparr>Corrupt := Some tmp\<rparr>))
      else if ad_Type a = tcaNetemRate then
        (let (err, tmp) = unmarshalStruct NetemRateLayout bo (ad_Bytes a) zeroNetemRate;
             dropped = concatError multiError err
         in Continue (info\<lparr>Rate := Some tmp\<rparr>))
      else if ad_Type a = tcaNetemEcn then
        (let (tmp, aderr) = ad_Uint32 bo a
         in afterAccessor aderr (info\<lparr>Ecn := Some tmp\<rparr>))
      else if ad_Type a = tcaNetemRate64 then
        (let (tmp, aderr) = ad_Uint64 bo a
         in afterAccessor aderr (info\<lparr>Rate64 := Some tmp\<rparr>))
      else if ad_Type a = tcaNetemLatency64 then
        (let (err, val) = unmarshalNetlinkAttribute bo (ad_Bytes a) 0;
             dropped = concatError multiError err
         in Continue (info\<lparr>Latency64 := Some val\<rparr>))
      else if ad_Type a = tcaNetemJitter64 then
        (let (err, val) = unmarshalNetlinkAttribute bo (ad_Bytes a) 0;
             dropped = concatError multiError err
         in Continue (info\<lparr>Jitter64 := Some val\<rparr>))
      else if ad_Type a = tcaNetemSlot then
        (let (err, tmp) = unmarshalStruct NetemSlotLayout bo (ad_Bytes a) zeroNetemSlot;
             dropped = concatError multiError err
         in Continue (info\<lparr>Slot := Some tmp\<rparr>))
      else if ad_Type a = tcaNetemPad then Continue info
      else Return (ErrUnknownAttr ''unmarshalNetem()'' (ad_Type a) (ad_Bytes a)) info)"

text \<open>The type codes that have a \<open>case\<close> of their own in that \<open>switch\<close>, the pad marker
  apart.\<close>

definition netemHandled :: "u16 set" where
  "netemHandled = {tcaNetemCorr, tcaNetemReorder, tcaNetemCorrupt, tcaNetemRate, tcaNetemEcn,
     tcaNetemRate64, tcaNetemLatency64, tcaNetemJitter64, tcaNetemSlot}"

text \<open>A record that the loop of \<open>unmarshalNetem\<close> accepts without an error: an \<open>Ecn\<close>
  record with four payload bytes, a \<open>Rate64\<close> record with eight, or a record of any other
  type code that has a \<open>case\<close>, the pad marker included.\<close>

definition netemRecordOk :: "Attribute \<Rightarrow> bool" where
  "netemRecordOk a =
     (if ad_Type a = tcaNetemEcn then length (attr_Data a) = 4
      else if ad_Type a = tcaNetemRate64 then length (attr_Data a) = 8
      else ad_Type a \<in> netemHandled \<or> ad_Type a = tcaNetemPad)"

text \<open>Lines 100 to 150 of \<open>unmarshalNetem\<close>: the declaration of \<open>multiError\<close>, the loop
  over the records of the decoder, and \<open>return concatError(multiError, ad.Err())\<close>.\<close>

definition unmarshalNetemAttrs :: "byteorder \<Rightarrow> Attribute list \<Rightarrow> Netem \<Rightarrow> error option \<times> Netem" where
  "unmarshalNetemAttrs bo attrs info =
     (let multiError = None in
      case forNext (netemCase bo multiError) attrs info of
        Continue info' \<Rightarrow> (concatError multiError None, info')
      | AccessorFailed aderr info' \<Rightarrow> (concatError multiError (Some aderr), info')
      | Return err info' \<Rightarrow> (Some err, info'))"

text \<open>\<open>unmarshalNetem(data, info)\<close>: the error returned and the value of \<open>*info\<close>
  afterwards. The whole of \<open>data\<close> goes to \<open>unmarshalStruct\<close>, which reads the options
  block from its first 24 bytes; the attributes are decoded from \<open>data[24:]\<close>.\<close>

definition unmarshalNetem :: "byteorder \<Rightarrow> byte list \<Rightarrow> Netem \<Rightarrow> error option \<times> Netem" where
  "unmarshalNetem bo data info =
     (case unmarshalStruct NetemQoptLayout bo data zeroNetemQopt of
        (Some err, qopt) \<Rightarrow> (Some err, info)
      | (None, qopt) \<Rightarrow>
          (let info1 = info\<lparr>Qopt := qopt\<rparr> in
           case goSlice data 24 (length data) of
             None \<Rightarrow> (Some PanicOutOfRange, info1)
           | Some rest \<Rightarrow>
               (case NewAttributeDecoder bo rest of
                  Inl err \<Rightarrow> (Some err, info1)
                | Inr attrs \<Rightarrow> unmarshalNetemAttrs bo attrs info1)))"

text \<open>\<open>marshalNetem(info)\<close>: the bytes and the error returned; a nil \<open>info\<close> is \<open>None\<close>.
  Here too the results of \<open>concatError\<close> are dropped and \<open>multiError\<close> keeps its initial
  value.\<close>

definition netemOption :: "valueType \<Rightarrow> u16 \<Rightarrow> optionData \<Rightarrow> tcOption" where
  "netemOption i t d = \<lparr> opt_Interpretation = i, opt_Type = t, opt_Data = d \<rparr>"

definition marshalNetem :: "byteorder \<Rightarrow> Netem option \<Rightarrow> byte list \<times> error option" where
  "marshalNetem bo infoPtr =
     (case infoPtr of
        None \<Rightarrow> ([], Some (ErrNoArg ''Netem''))
      | Some info \<Rightarrow>
          (let multiError = None;
               options = [];
               options = (case Corr info of None \<Rightarrow> options | Some c \<Rightarrow>
                  (let (data, err) = marshalStruct NetemCorrLayout bo c;
                       dropped = concatError multiError err
                   in options @ [netemOption vtBytes tcaNetemCorr (DataBytes data)]));
               options = (case Reorder info of None \<Rightarrow> options | Some r \<Rightarrow>
                  (let (data, err) = marshalStruct NetemReorderLayout bo r;
                       dropped = concatError multiError err
                   in options @ [netemOption vtBytes tcaNetemReorder (DataBytes data)]));
               options = (case Corrupt info of None \<Rightarrow> options | Some c \<Rightarrow>
                  (let (data, err) = marshalStruct NetemCorruptLayout bo c;
                       dropped = concatError multiError err
                   in options @ [netemOption vtBytes tcaNetemCorrupt (DataBytes data)]));
               options = (case Rate info of None \<Rightarrow> options | Some r \<Rightarrow>
                  (let (data, err) = marshalStruct NetemRateLayout bo r;
                       dropped = concatError multiError err
                   in options @ [netemOption vtBytes tcaNetemRate (DataBytes data)]));
               options = (case Ecn info of None \<Rightarrow> options | Some v \<Rightarrow>
                  options @ [netemOption vtUint32 tcaNetemEcn (DataUint32 v)]);
               options = (case Rate64 info of None \<Rightarrow> options | Some v \<Rightarrow>
                  options @ [netemOption vtUint64 tcaNetemRate64 (DataUint64 v)]);
               options = (case Latency64 info of None \<Rightarrow> options | Some v \<Rightarrow>
                  options @ [netemOption vtInt64 tcaNetemLatency64 (DataInt64 v)]);
               options = (case Jitter64 info of None \<Rightarrow> options | Some v \<Rightarrow>
                  options @ [netemOption vtInt64 tcaNetemJitter64 (DataInt64 v)]);
               options = (case Slot info of None \<Rightarrow> options | Some s \<Rightarrow>
                  (let (data, err) = marshalStruct NetemSlotLayout bo s;
                       dropped = concatError multiError err
                   in options @ [netemOption vtBytes tcaNetemSlot (DataBytes data)]));
               (data, err) = marshalAttributes bo options;
               dropped = concatError multiError err;
               (qoptData, qoptErr) = marshalStruct NetemQoptLayout bo (Qopt info)
           in if qoptErr \<noteq> None then ([], qoptErr) else (qoptData @ data, multiError)))"

section \<open>The u32 filter (file f_u32.go)\<close>

definition tcaU32Unspec :: u16 where "tcaU32Unspec = 0"
definition tcaU32ClassID :: u16 where "tcaU32ClassID = 1"
definition tcaU32Hash :: u16 where "tcaU32Hash = 2"
definition tcaU32Link :: u16 where "tcaU32Link = 3"
definition tcaU32Divisor :: u16 where "tcaU32Divisor = 4"
definition tcaU32Sel :: u16 where "tcaU32Sel = 5"
definition tcaU32Police :: u16 where "tcaU32Police = 6"
definition tcaU32Act :: u16 where "tcaU32Act = 7"
definition tcaU32InDev :: u16 where "tcaU32InDev = 8"
definition tcaU32Pcnt :: u16 where "tcaU32Pcnt = 9"
definition tcaU32Mark :: u16 where "tcaU32Mark = 10"
definition tcaU32Flags :: u16 where "tcaU32Flags = 11"
definition tcaU32Pad :: u16 where "tcaU32Pad = 12"

record U32Key =
  key_Mask :: u32
  key_Val :: u32
  key_Off :: u32
  key_OffMask :: u32

record U32Mark =
  mark_Val :: u32
  mark_Mask :: u32
  mark_Success :: u32

record U32Sel =
  sel_Flags :: u8
  sel_Offshift :: u8
  sel_NKeys :: u8
  sel_OffMask :: u16
  sel_Off :: u16
  sel_Offoff :: u16
  sel_Hoff :: u16
  sel_Hmask :: u32
  sel_Keys :: "U32Key list"

text \<open>
  The types \<open>Police\<close> and \<open>Action\<close> and their codecs \<open>marshalPolice\<close>, \<open>unmarshalPolice\<close>,
  \<open>marshalActions\<close>, \<open>unmarshalActions\<close> are declared outside the three files. The types
  are the parameters \<open>'p\<close> (a \<open>Police\<close>) and \<open>'a\<close> (a \<open>[]*Action\<close>) of the payload, the codecs
  are the fields of a record that the u32 functions take as an argument. The decoders
  are called on a freshly allocated zero value, so they are functions of the bytes alone.
\<close>

record ('p, 'a) U32 =
  ClassID :: u32
  Hash :: u32
  Link :: u32
  Divisor :: u32
  Sel :: "U32Sel option"
  InDev :: "byte list"
  Pcnt :: u64
  Mark :: "U32Mark option"
  Flags :: u32
  Police :: "'p option"
  Actions :: "'a option"

record ('p, 'a) delegates =
  marshalPolice :: "'p \<Rightarrow> byte list \<times> error option"
  unmarshalPolice :: "byte list \<Rightarrow> error + 'p"
  marshalActions :: "'a \<Rightarrow> byte list \<times> error option"
  unmarshalActions :: "byte list \<Rightarrow> error + 'a"

definition U32KeyLayout :: "U32Key layout" where
  "U32KeyLayout = \<lparr> packedSize = 16,
     pack = (\<lambda>bo k. putUint32 bo (key_Mask k) @ putUint32 bo (key_Val k)
        @ putUint32 bo (key_Off k) @ putUint32 bo (key_OffMask k)),
     unpack = (\<lambda>bo bs. \<lparr> key_Mask = Uint32 bo (bytesAt bs 0 4),
        key_Val = Uint32 bo (bytesAt bs 4 4), key_Off = Uint32 bo (bytesAt bs 8 4),
        key_OffMask = Uint32 bo (bytesAt bs 12 4) \<rparr>) \<rparr>"

definition U32MarkLayout :: "U32Mark layout" where
  "U32MarkLayout = \<lparr> packedSize = 12,
     pack = (\<lambda>bo m. putUint32 bo (mark_Val m) @ putUint32 bo (mark_Mask m)
        @ putUint32 bo (mark_Success m)),
     unpack = (\<lambda>bo bs. \<lparr> mark_Val = Uint32 bo (bytesAt bs 0 4),
        mark_Mask = Uint32 bo (bytesAt bs 4 4), mark_Success = Uint32 bo (bytesAt bs 8 4) \<rparr>) \<rparr>"

definition zeroU32Key :: U32Key where
  "zeroU32Key = \<lparr> key_Mask = 0, key_Val = 0, key_Off = 0, key_OffMask = 0 \<rparr>"

definition zeroU32Mark :: U32Mark where
  "zeroU32Mark = \<lparr> mark_Val = 0, mark_Mask = 0, mark_Success = 0 \<rparr>"

definition zeroU32Sel :: U32Sel where
  "zeroU32Sel = \<lparr> sel_Flags = 0, sel_Offshift = 0, sel_NKeys = 0, sel_OffMask = 0, sel_Off = 0,
     sel_Offoff = 0, sel_Hoff = 0, sel_Hmask = 0, sel_Keys = [] \<rparr>"

definition zeroU32 :: "('p, 'a) U32" where
  "zeroU32 = \<lparr> ClassID = 0, Hash = 0, Link = 0, Divisor = 0, Sel = None, InDev = [], Pcnt = 0,
     Mark = None, Flags = 0, Police = None, Actions = None \<rparr>"

subsection \<open>The selector\<close>

text \<open>\<open>validateU32SelOptions\<close>: the eight header fields written to the buffer in order,
  then the loop over \<open>info.Keys\<close>.\<close>

fun writeU32Keys :: "byteorder \<Rightarrow> U32Key list \<Rightarrow> byte list \<Rightarrow> byte list \<times> error option" where
  "writeU32Keys bo [] buf = (buf, None)"
| "writeU32Keys bo (v # vs) buf =
     (case marshalStruct U32KeyLayout bo v of
        (data, Some err) \<Rightarrow> ([], Some err)
      | (data, None) \<Rightarrow> writeU32Keys bo vs (buf @ data))"

definition validateU32SelOptions :: "byteorder \<Rightarrow> U32Sel \<Rightarrow> byte list \<times> error option" where
  "validateU32SelOptions bo info =
     (let buf = [];
          buf = buf @ [sel_Flags info];
          buf = buf @ [sel_Offshift info];
          buf = buf @ [sel_NKeys info];
          buf = buf @ putUint16 bo (sel_OffMask info);
          buf = buf @ putUint16 bo (sel_Off info);
          buf = buf @ putUint16 bo (sel_Offoff info);
          buf = buf @ putUint16 bo (sel_Hoff info);
          buf = buf @ putUint32 bo (sel_Hmask info)
      in writeU32Keys bo (sel_Keys info) buf)"

text \<open>The fifteen bytes that the eight \<open>binary.Write\<close> calls leave in the buffer.\<close>

definition selHeaderBytes :: "byteorder \<Rightarrow> U32Sel \<Rightarrow> byte list" where
  "selHeaderBytes bo s = sel_Flags s # sel_Offshift s # sel_NKeys s # putUint16 bo (sel_OffMask s)
     @ putUint16 bo (sel_Off s) @ putUint16 bo (sel_Offoff s) @ putUint16 bo (sel_Hoff s)
     @ putUint32 bo (sel_Hmask s)"

text \<open>
  \<open>extractU32Sel\<close>. The header fields are read with index and slice expressions, each
  of which panics outside the buffer: \<open>extractU32SelHeader\<close> is \<open>None\<close> when one of them
  does. The loop \<open>for i := 0; i < int(info.NKeys); i++\<close> runs over the indices
  \<open>[0..<NKeys]\<close>; a key is appended to \<open>info.Keys\<close> in each pass.
\<close>

definition extractU32SelHeader :: "byteorder \<Rightarrow> byte list \<Rightarrow> U32Sel \<Rightarrow> U32Sel option" where
  "extractU32SelHeader bo data info = do {
     flags \<leftarrow> goIndex data 0;
     offshift \<leftarrow> goIndex data 1;
     nkeys \<leftarrow> goIndex data 2;
     offmask \<leftarrow> goSlice data 3 5;
     off \<leftarrow> goSlice data 5 7;
     offoff \<leftarrow> goSlice data 7 9;
     hoff \<leftarrow> goSlice data 9 11;
     hmask \<leftarrow> goSlice data 11 15;
     Some (info\<lparr> sel_Flags := flags, sel_Offshift := offshift, sel_NKeys := nkeys,
       sel_OffMask := Uint16 bo offmask, sel_Off := Uint16 bo off,
       sel_Offoff := Uint16 bo offoff, sel_Hoff := Uint16 bo hoff,
       sel_Hmask := Uint32 bo hmask \<rparr>)
   }"

fun extractU32Keys :: "byteorder \<Rightarrow> byte list \<Rightarrow> nat list \<Rightarrow> U32Sel \<Rightarrow> error option \<times> U32Sel" where
  "extractU32Keys bo data [] info = (None, info)"
| "extractU32Keys bo data (i # is) info =
     (case goSlice data (15 + i * 16) (15 + (i + 1) * 16) of
        None \<Rightarrow> (Some PanicOutOfRange, info)
      | Some bs \<Rightarrow>
          (case unmarshalStruct U32KeyLayout bo bs zeroU32Key of
             (Some err, key) \<Rightarrow> (Some err, info)
           | (None, key) \<Rightarrow> extractU32Keys bo data is (info\<lparr>sel_Keys := sel_Keys info @ [key]\<rparr>)))"

definition extractU32Sel :: "byteorder \<Rightarrow> byte list \<Rightarrow> U32Sel \<Rightarrow> error option \<times> U32Sel" where
  "extractU32Sel bo data info =
     (if length data < 15 then (Some ErrNotEnoughBytesU32Sel, info)
      else
        (case extractU32SelHeader bo data info of
           None \<Rightarrow> (Some PanicOutOfRange, info)
         | Some info1 \<Rightarrow>
             if length data < unat (sel_NKeys info1) * 16 + 15
             then (Some ErrNotEnoughBytesU32Keys, info1)
             else extractU32Keys bo data [0..<unat (sel_NKeys info1)] info1))"

subsection \<open>The payload\<close>

definition u32Option :: "valueType \<Rightarrow> u16 \<Rightarrow> optionData \<Rightarrow> tcOption" where
  "u32Option i t d = \<lparr> opt_Interpretation = i, opt_Type = t, opt_Data = d \<rparr>"

text \<open>\<open>marshalU32\<close>: the six \<open>if\<close> statements in the order of the source. A statement
  whose codec fails returns the empty bytes and that error at once.\<close>

definition marshalU32 ::
  "byteorder \<Rightarrow> ('p, 'a) delegates \<Rightarrow> ('p, 'a) U32 option \<Rightarrow> byte list \<times> error option" where
  "marshalU32 bo dg infoPtr =
     (case infoPtr of
        None \<Rightarrow> ([], Some (ErrNoArg ''U32''))
      | Some info \<Rightarrow>
     (let options = [] in
      case (case Sel info of None \<Rightarrow> Inr options | Some sel \<Rightarrow>
              (case validateU32SelOptions bo sel of
                 (data, Some err) \<Rightarrow> Inl err
               | (data, None) \<Rightarrow> Inr (options @ [u32Option vtBytes tcaU32Sel (DataBytes data)]))) of
        Inl err \<Rightarrow> ([], Some err)
      | Inr options \<Rightarrow>
      case (case Mark info of None \<Rightarrow> Inr options | Some mark \<Rightarrow>
              (case marshalStruct U32MarkLayout bo mark of
                 (data, Some err) \<Rightarrow> Inl err
               | (data, None) \<Rightarrow> Inr (options @ [u32Option vtBytes tcaU32Mark (DataBytes data)]))) of
        Inl err \<Rightarrow> ([], Some err)
      | Inr options \<Rightarrow>
     (let options = (if ClassID info \<noteq> 0
                     then options @ [u32Option vtUint32 tcaU32ClassID (DataUint32 (ClassID info))]
                     else options) in
      case (case Police info of None \<Rightarrow> Inr options | Some pol \<Rightarrow>
              (case marshalPolice dg pol of
                 (data, Some err) \<Rightarrow> Inl err
               | (data, None) \<Rightarrow> Inr (options @ [u32Option vtBytes tcaU32Police (DataBytes data)]))) of
        Inl err \<Rightarrow> ([], Some err)
      | Inr options \<Rightarrow>
     (let options = (if Flags info \<noteq> 0
                     then options @ [u32Option vtUint32 tcaU32Flags (DataUint32 (Flags info))]
                     else options) in
      case (case Actions info of None \<Rightarrow> Inr options | Some acts \<Rightarrow>
              (case marshalActions dg acts of
                 (data, Some err) \<Rightarrow> Inl err
               | (data, None) \<Rightarrow> Inr (options @ [u32Option vtBytes tcaU32Act (DataBytes data)]))) of
        Inl err \<Rightarrow> ([], Some err)
      | Inr options \<Rightarrow> marshalAttributes bo options))))"

text \<open>The body of the \<open>switch\<close> in \<open>unmarshalU32\<close>, one branch for each \<open>case\<close> in the
  order of the source.\<close>

definition u32Case ::
  "byteorder \<Rightarrow> ('p, 'a) delegates \<Rightarrow> Attribute \<Rightarrow> ('p, 'a) U32 \<Rightarrow> ('p, 'a) U32 flow" where
  "u32Case bo dg a info =
     (if ad_Type a = tcaU32ClassID then
        (let (v, aderr) = ad_Uint32 bo a in afterAccessor aderr (info\<lparr>ClassID := v\<rparr>))
      else if ad_Type a = tcaU32Hash then
        (let (v, aderr) = ad_Uint32 bo a in afterAccessor aderr (info\<lparr>Hash := v\<rparr>))
      else if ad_Type a = tcaU32Link then
        (let (v, aderr) = ad_Uint32 bo a in afterAccessor aderr (info\<lparr>Link := v\<rparr>))
      else if ad_Type a = tcaU32Divisor then
        (let (v, aderr) = ad_Uint32 bo a in afterAccessor aderr (info\<lparr>Divisor := v\<rparr>))
      else if ad_Type a = tcaU32Sel then
        (case extractU32Sel bo (ad_Bytes a) zeroU32Sel of
           (Some err, arg) \<Rightarrow> Return err info
         | (None, arg) \<Rightarrow> Continue (info\<lparr>Sel := Some arg\<rparr>))
      else if ad_Type a = tcaU32Police then
        (case unmarshalPolice dg (ad_Bytes a) of
           Inl err \<Rightarrow> Return err info
         | Inr pol \<Rightarrow> Continue (info\<lparr>Police := Some pol\<rparr>))
      else if ad_Type a = tcaU32InDev then Continue (info\<lparr>InDev := ad_String a\<rparr>)
      else if ad_Type a = tcaU32Pcnt then
        (let (v, aderr) = ad_Uint64 bo a in afterAccessor aderr (info\<lparr>Pcnt := v\<rparr>))
      else if ad_Type a = tcaU32Mark then
        (case unmarshalStruct U32MarkLayout bo (ad_Bytes a) zeroU32Mark of
           (Some err, arg) \<Rightarrow> Return err info
         | (None, arg) \<Rightarrow> Continue (info\<lparr>Mark := Some arg\<rparr>))
      else if ad_Type a = tcaU32Flags then
        (let (v, aderr) = ad_Uint32 bo a in afterAccessor aderr (info\<lparr>Flags := v\<rparr>))
      else if ad_Type a = tcaU32Act then
        (case unmarshalActions dg (ad_Bytes a) of
           Inl err \<Rightarrow> Return err info
         | Inr actions \<Rightarrow> Continue (info\<lparr>Actions := Some actions\<rparr>))
      else if ad_Type a = tcaU32Pad then Continue info
      else Return (ErrUnknownAttr ''unmarshalU32()'' (ad_Type a) (ad_Bytes a)) info)"

text \<open>The type codes that have a \<open>case\<close> of their own in that \<open>switch\<close>, the pad marker
  apart.\<close>

definition u32Handled :: "u16 set" where
  "u32Handled = {tcaU32ClassID, tcaU32Hash, tcaU32Link, tcaU32Divisor, tcaU32Sel, tcaU32Police,
     tcaU32InDev, tcaU32Pcnt, tcaU32Mark, tcaU32Flags, tcaU32Act}"

text \<open>Lines 99 to 145 of \<open>unmarshalU32\<close>: the loop and the final \<open>return nil\<close>, which does
  not consult \<open>ad.Err()\<close>.\<close>

definition unmarshalU32Attrs ::
  "byteorder \<Rightarrow> ('p, 'a) delegates \<Rightarrow> Attribute list \<Rightarrow> ('p, 'a) U32 \<Rightarrow> error option \<times> ('p, 'a) U32" where
  "unmarshalU32Attrs bo dg attrs info =
     (case forNext (u32Case bo dg) attrs info of
        Continue info' \<Rightarrow> (None, info')
      | AccessorFailed aderr info' \<Rightarrow> (None, info')
      | Return err info' \<Rightarrow> (Some err, info'))"

definition unmarshalU32 ::
  "byteorder \<Rightarrow> ('p, 'a) delegates \<Rightarrow> byte list \<Rightarrow> ('p, 'a) U32 \<Rightarrow> error option \<times> ('p, 'a) U32" where
  "unmarshalU32 bo dg data info =
     (case NewAttributeDecoder bo data of
        Inl err \<Rightarrow> (Some err, info)
      | Inr attrs \<Rightarrow> unmarshalU32Attrs bo dg attrs info)"

text \<open>An instance of the delegated codecs, for running the u32 functions on inputs that
  carry no \<open>Police\<close> and no \<open>Actions\<close>: both types are the unit type.\<close>

definition noDelegates :: "(unit, unit) delegates" where
  "noDelegates = \<lparr> marshalPolice = (\<lambda>pol. ([], None)), unmarshalPolice = (\<lambda>data. Inr ()),
     marshalActions = (\<lambda>acts. ([], None)), unmarshalActions = (\<lambda>data. Inr ()) \<rparr>"

section \<open>Properties of the byte-order primitives\<close>

lemma length_leBytes: "length (leBytes n v) = n"
  by (induction n arbitrary: v) auto

lemma leWord_leBytes: "leWord (leBytes n v) = take_bit (8 * n) v"
proof (induction n arbitrary: v)
  case 0
  show ?case by simp
next
  case (Suc n)
  have "ucast (ucast v :: byte) OR push_bit 8 (take_bit (8 * n) (drop_bit 8 v))
      = take_bit (8 * Suc n) v"
    by (rule bit_word_eqI) (auto simp: bit_simps)
  then show ?case using Suc by simp
qed

lemma orderBytes_idem: "orderBytes bo (orderBytes bo bs) = bs"
  by (cases bo) (simp_all add: orderBytes_def)

lemma length_orderBytes: "length (orderBytes bo bs) = length bs"
  by (cases bo) (simp_all add: orderBytes_def)

lemma length_putUint16: "length (putUint16 bo v) = 2"
  by (simp add: putUint16_def length_orderBytes length_leBytes)

lemma length_putUint32: "length (putUint32 bo v) = 4"
  by (simp add: putUint32_def length_orderBytes length_leBytes)

lemma length_putUint64: "length (putUint64 bo v) = 8"
  by (simp add: putUint64_def length_orderBytes length_leBytes)

lemma Uint16_putUint16: "Uint16 bo (putUint16 bo v) = v"
  by (simp add: Uint16_def putUint16_def length_orderBytes length_leBytes
      orderBytes_idem leWord_leBytes take_bit_word_eq_self)

lemma Uint32_putUint32: "Uint32 bo (putUint32 bo v) = v"
  by (simp add: Uint32_def putUint32_def length_orderBytes length_leBytes
      orderBytes_idem leWord_leBytes take_bit_word_eq_self)

lemma Uint64_putUint64: "Uint64 bo (putUint64 bo v) = v"
  by (simp add: Uint64_def putUint64_def length_orderBytes length_leBytes
      orderBytes_idem leWord_leBytes take_bit_word_eq_self)

section \<open>Properties of the fixed-layout codec\<close>


lemma unmarshalStruct_failed:
  "fst (unmarshalStruct l bo data s) \<noteq> None \<Longrightarrow>
   unmarshalStruct l bo data s = (Some ErrSizeMismatch, s)"
  by (simp add: unmarshalStruct_def split: if_splits)

lemma unmarshalNetlinkAttribute_failed:
  "fst (unmarshalNetlinkAttribute bo data s) \<noteq> None \<Longrightarrow>
   unmarshalNetlinkAttribute bo data s = (Some ErrSizeMismatch, s)"
  by (simp add: unmarshalNetlinkAttribute_def unmarshalStruct_failed)

lemma Msg_roundtrip:
  "unmarshalStruct MsgLayout bo (fst (marshalStruct MsgLayout bo m)) m0 = (None, m)"
  by (simp add: unmarshalStruct_def marshalStruct_def MsgLayout_def bytesAt_def
      length_putUint32 Uint32_putUint32)

lemma length_pack_NetemQopt: "length (pack NetemQoptLayout bo q) = 24"
  by (simp add: NetemQoptLayout_def length_putUint32)

lemma unpack_pack_NetemQopt: "unpack NetemQoptLayout bo (pack NetemQoptLayout bo q) = q"
  by (simp add: NetemQoptLayout_def bytesAt_def length_putUint32 Uint32_putUint32)

lemma length_pack_U32Key: "length (pack U32KeyLayout bo k) = 16"
  by (simp add: U32KeyLayout_def length_putUint32)

lemma unpack_pack_U32Key: "unpack U32KeyLayout bo (pack U32KeyLayout bo k) = k"
  by (simp add: U32KeyLayout_def bytesAt_def length_putUint32 Uint32_putUint32)

section \<open>Properties of the attribute stream and of the decoding loop\<close>

lemma nlaAlign_ge: "n \<le> nlaAlign n"
  by (simp add: nlaAlign_def)

lemma nlaAlign_add4: "nlaAlign (4 + n) = 4 + nlaAlign n"
  unfolding nlaAlign_def by presburger

lemma length_marshalAttribute:
  "length (marshalAttribute bo a) = 4 + nlaAlign (length (attr_Data a))"
  using nlaAlign_ge [of "length (attr_Data a)"]
  by (simp add: marshalAttribute_def length_putUint16)

lemma unat_attr_length:
  "n \<le> 65531 \<Longrightarrow> unat (of_nat (4 + n) :: u16) = 4 + n"
  by (rule of_nat_inverse [OF refl]) simp

lemma NewAttributeDecoder_Nil: "NewAttributeDecoder bo [] = Inr []"
  by (simp add: NewAttributeDecoder.simps)

text \<open>The decoder reads back a record that the encoder wrote, and goes on with the
  bytes after it.\<close>

lemma NewAttributeDecoder_marshalAttribute:
  assumes n: "length (attr_Data a) \<le> 65531"
  shows "NewAttributeDecoder bo (marshalAttribute bo a @ rest) =
     (case NewAttributeDecoder bo rest of Inl err \<Rightarrow> Inl err | Inr attrs \<Rightarrow> Inr (a # attrs))"
proof -
  let ?d = "attr_Data a"
  let ?b = "marshalAttribute bo a @ rest"
  have pad: "length ?d \<le> nlaAlign (length ?d)" by (rule nlaAlign_ge)
  have len: "length (marshalAttribute bo a) = 4 + nlaAlign (length ?d)"
    by (rule length_marshalAttribute)
  have h0: "bytesAt ?b 0 2 = putUint16 bo (of_nat (4 + length ?d))"
    by (simp add: bytesAt_def marshalAttribute_def length_putUint16)
  have h2: "bytesAt ?b 2 2 = putUint16 bo (attr_Type a)"
    by (simp add: bytesAt_def marshalAttribute_def length_putUint16)
  have l: "unat (Uint16 bo (bytesAt ?b 0 2)) = 4 + length ?d"
    unfolding h0 Uint16_putUint16 by (rule unat_attr_length [OF n])
  have t: "Uint16 bo (bytesAt ?b 2 2) = attr_Type a"
    by (simp add: h2 Uint16_putUint16)
  have d: "bytesAt ?b 4 (length ?d) = ?d"
    by (simp add: bytesAt_def marshalAttribute_def length_putUint16)
  have r: "drop (nlaAlign (4 + length ?d)) ?b = rest"
    by (simp add: nlaAlign_add4 len)
  have ne: "?b \<noteq> []" using len by auto
  have ge: "\<not> length ?b < 4" using len by simp
  have fit: "\<not> (4 + length ?d < 4 \<or> length ?b < 4 + length ?d)"
    using len pad by simp
  have nz: "4 + length ?d \<noteq> 0" by simp
  have a: "\<lparr> attr_Type = attr_Type a, attr_Data = ?d \<rparr> = a" by simp
  show ?thesis
    by (subst NewAttributeDecoder.simps [of bo ?b])
      (simp only: ne ge fit nz l t d r a if_False Let_def add_diff_cancel_left')
qed

lemma forNext_append:
  "forNext body (xs @ ys) info =
     (case forNext body xs info of
        Continue info' \<Rightarrow> forNext body ys info'
      | AccessorFailed err info' \<Rightarrow> AccessorFailed err info'
      | Return err info' \<Rightarrow> Return err info')"
  by (induction xs arbitrary: info) (auto split: flow.splits)

lemma forNext_skip:
  "(\<And>i. body p i = Continue i) \<Longrightarrow>
   forNext body (xs @ p # ys) info = forNext body (xs @ ys) info"
  by (simp add: forNext_append split: flow.splits)

lemma forNext_reach:
  "forNext body pre info = Continue info1 \<Longrightarrow>
   forNext body (pre @ a # post) info =
     (case body a info1 of
        Continue info' \<Rightarrow> forNext body post info'
      | AccessorFailed err info' \<Rightarrow> AccessorFailed err info'
      | Return err info' \<Rightarrow> Return err info')"
  by (simp add: forNext_append)

lemma nlaAlign_le_aligned:
  assumes "l \<le> n" and "n mod 4 = 0"
  shows "nlaAlign l \<le> n"
  using assms unfolding nlaAlign_def by presburger

lemma nlaAlign_mod4: "nlaAlign l mod 4 = 0"
  by (simp add: nlaAlign_def)

lemma NewAttributeDecoder_append:
  "NewAttributeDecoder bo b1 = Inr attrs1 \<Longrightarrow> length b1 mod 4 = 0 \<Longrightarrow>
   NewAttributeDecoder bo (b1 @ b2) =
     (case NewAttributeDecoder bo b2 of Inl err \<Rightarrow> Inl err | Inr attrs2 \<Rightarrow> Inr (attrs1 @ attrs2))"
proof (induction bo b1 arbitrary: attrs1 rule: NewAttributeDecoder.induct)
  case (1 bo b)
  show ?case
  proof (cases "b = []")
    case True
    then have "attrs1 = []" using "1.prems"(1) by (simp add: NewAttributeDecoder_Nil)
    then show ?thesis using True by (simp split: sum.splits)
  next
    case False
    let ?l = "unat (Uint16 bo (bytesAt b 0 2))"
    let ?t = "Uint16 bo (bytesAt b 2 2)"
    have ge4: "\<not> length b < 4"
      using "1.prems"(1) False by (subst (asm) NewAttributeDecoder.simps) (auto split: if_splits)
    have h0: "bytesAt (b @ b2) 0 2 = bytesAt b 0 2" using ge4 by (simp add: bytesAt_def)
    have h2: "bytesAt (b @ b2) 2 2 = bytesAt b 2 2" using ge4 by (simp add: bytesAt_def)
    have ne: "b @ b2 \<noteq> []" using False by simp
    have ge4': "\<not> length (b @ b2) < 4" using ge4 by simp
    show ?thesis
    proof (cases "?l = 0")
      case True
      have tl: "NewAttributeDecoder bo (drop 4 b) = Inr attrs1"
        using "1.prems"(1) False ge4 True
        by (subst (asm) NewAttributeDecoder.simps [of bo b]) (simp add: Let_def)
      have m: "length (drop 4 b) mod 4 = 0"
      proof -
        have "(length b - 4) mod 4 = 0" using ge4 "1.prems"(2) by presburger
        then show ?thesis by simp
      qed
      have ih: "NewAttributeDecoder bo (drop 4 b @ b2) =
         (case NewAttributeDecoder bo b2 of Inl err \<Rightarrow> Inl err | Inr attrs2 \<Rightarrow> Inr (attrs1 @ attrs2))"
        using "1.IH"(1) [OF False ge4 refl refl True tl m] .
      have dr: "drop 4 (b @ b2) = drop 4 b @ b2" using ge4 by simp
      have step: "NewAttributeDecoder bo (b @ b2) = NewAttributeDecoder bo (drop 4 b @ b2)"
        by (subst NewAttributeDecoder.simps [of bo "b @ b2"])
          (simp only: ne ge4' h0 h2 True dr if_False if_True Let_def simp_thms)
      show ?thesis unfolding step ih by (rule refl)
    next
      case nz: False
      have fit: "\<not> (?l < 4 \<or> length b < ?l)"
        using "1.prems"(1) False ge4 nz
        by (subst (asm) NewAttributeDecoder.simps [of bo b]) (auto simp: Let_def split: if_splits)
      obtain tl where tl: "NewAttributeDecoder bo (drop (nlaAlign ?l) b) = Inr tl"
        and a1: "attrs1 = \<lparr> attr_Type = ?t, attr_Data = bytesAt b 4 (?l - 4) \<rparr> # tl"
        using "1.prems"(1) False ge4 fit nz
        by (subst (asm) NewAttributeDecoder.simps [of bo b])
          (auto simp: Let_def split: if_splits sum.splits)
      have al: "nlaAlign ?l \<le> length b"
        using fit "1.prems"(2) by (intro nlaAlign_le_aligned) auto
      have m: "length (drop (nlaAlign ?l) b) mod 4 = 0"
      proof -
        have "(length b - nlaAlign ?l) mod 4 = 0"
          using al "1.prems"(2) nlaAlign_mod4 [of ?l] by presburger
        then show ?thesis by simp
      qed
      have ih: "NewAttributeDecoder bo (drop (nlaAlign ?l) b @ b2) =
         (case NewAttributeDecoder bo b2 of Inl err \<Rightarrow> Inl err | Inr attrs2 \<Rightarrow> Inr (tl @ attrs2))"
        using "1.IH"(2) [OF False ge4 refl refl nz _ tl m] fit by simp
      have d: "bytesAt (b @ b2) 4 (?l - 4) = bytesAt b 4 (?l - 4)"
        using fit by (simp add: bytesAt_def)
      have dr: "drop (nlaAlign ?l) (b @ b2) = drop (nlaAlign ?l) b @ b2"
        using al by simp
      have fit': "\<not> (?l < 4 \<or> length (b @ b2) < ?l)" using fit by simp
      have step: "NewAttributeDecoder bo (b @ b2) =
          (case NewAttributeDecoder bo (drop (nlaAlign ?l) b @ b2) of
             Inl err \<Rightarrow> Inl err
           | Inr attrs \<Rightarrow> Inr (\<lparr> attr_Type = ?t, attr_Data = bytesAt b 4 (?l - 4) \<rparr> # attrs))"
        by (subst NewAttributeDecoder.simps [of bo "b @ b2"])
          (simp only: ne ge4' fit' nz h0 h2 d dr if_False Let_def)
      show ?thesis
        unfolding step ih a1 by (simp split: sum.splits)
    qed
  qed
qed

lemma NewAttributeDecoder_insert:
  assumes "NewAttributeDecoder bo b1 = Inr attrs1" and "length b1 mod 4 = 0"
      and "length (attr_Data p) \<le> 65531"
  shows "NewAttributeDecoder bo (b1 @ marshalAttribute bo p @ b2) =
     (case NewAttributeDecoder bo b2 of
        Inl err \<Rightarrow> Inl err
      | Inr attrs2 \<Rightarrow> Inr (attrs1 @ p # attrs2))"
  by (simp add: NewAttributeDecoder_append [OF assms(1,2)]
      NewAttributeDecoder_marshalAttribute [OF assms(3)] split: sum.splits)

section \<open>Properties of the netem functions\<close>

lemmas tcaNetem_defs = tcaNetemUnspec_def tcaNetemCorr_def tcaNetemDelayDist_def
  tcaNetemReorder_def tcaNetemCorrupt_def tcaNetemLoss_def tcaNetemRate_def tcaNetemEcn_def
  tcaNetemRate64_def tcaNetemPad_def tcaNetemLatency64_def tcaNetemJitter64_def
  tcaNetemSlot_def tcaNetemSlotDist_def

text \<open>A type field that is one of the type codes carries no flag bit.\<close>

lemma ad_Type_netem:
  "attr_Type a = tcaNetemCorr \<Longrightarrow> ad_Type a = tcaNetemCorr"
  "attr_Type a = tcaNetemReorder \<Longrightarrow> ad_Type a = tcaNetemReorder"
  "attr_Type a = tcaNetemCorrupt \<Longrightarrow> ad_Type a = tcaNetemCorrupt"
  "attr_Type a = tcaNetemRate \<Longrightarrow> ad_Type a = tcaNetemRate"
  "attr_Type a = tcaNetemLatency64 \<Longrightarrow> ad_Type a = tcaNetemLatency64"
  "attr_Type a = tcaNetemJitter64 \<Longrightarrow> ad_Type a = tcaNetemJitter64"
  "attr_Type a = tcaNetemSlot \<Longrightarrow> ad_Type a = tcaNetemSlot"
  by (simp_all add: ad_Type_def tcaNetem_defs)

lemma netemCase_pad: "ad_Type p = tcaNetemPad \<Longrightarrow> netemCase bo me p info = Continue info"
  by (simp add: netemCase_def tcaNetem_defs)

lemma netemCase_unknown:
  "ad_Type a \<notin> netemHandled \<Longrightarrow> ad_Type a \<noteq> tcaNetemPad \<Longrightarrow>
   netemCase bo me a info
     = Return (ErrUnknownAttr ''unmarshalNetem()'' (ad_Type a) (attr_Data a)) info"
  by (simp add: netemCase_def netemHandled_def ad_Bytes_def)

text \<open>A record of one of the seven types that are decoded as a fixed layout never ends
  the loop: the field is set to what the decoder left in the destination.\<close>

lemma netemCase_struct:
  "ad_Type a = tcaNetemCorr \<Longrightarrow> netemCase bo me a info
     = Continue (info\<lparr>Corr := Some (snd (unmarshalStruct NetemCorrLayout bo (attr_Data a) zeroNetemCorr))\<rparr>)"
  "ad_Type a = tcaNetemReorder \<Longrightarrow> netemCase bo me a info
     = Continue (info\<lparr>Reorder := Some (snd (unmarshalStruct NetemReorderLayout bo (attr_Data a) zeroNetemReorder))\<rparr>)"
  "ad_Type a = tcaNetemCorrupt \<Longrightarrow> netemCase bo me a info
     = Continue (info\<lparr>Corrupt := Some (snd (unmarshalStruct NetemCorruptLayout bo (attr_Data a) zeroNetemCorrupt))\<rparr>)"
  "ad_Type a = tcaNetemRate \<Longrightarrow> netemCase bo me a info
     = Continue (info\<lparr>Rate := Some (snd (unmarshalStruct NetemRateLayout bo (attr_Data a) zeroNetemRate))\<rparr>)"
  "ad_Type a = tcaNetemLatency64 \<Longrightarrow> netemCase bo me a info
     = Continue (info\<lparr>Latency64 := Some (snd (unmarshalNetlinkAttribute bo (attr_Data a) 0))\<rparr>)"
  "ad_Type a = tcaNetemJitter64 \<Longrightarrow> netemCase bo me a info
     = Continue (info\<lparr>Jitter64 := Some (snd (unmarshalNetlinkAttribute bo (attr_Data a) 0))\<rparr>)"
  "ad_Type a = tcaNetemSlot \<Longrightarrow> netemCase bo me a info
     = Continue (info\<lparr>Slot := Some (snd (unmarshalStruct NetemSlotLayout bo (attr_Data a) zeroNetemSlot))\<rparr>)"
  by (simp_all add: netemCase_def tcaNetem_defs ad_Bytes_def Let_def split: prod.splits)

lemma snd_unmarshalNetemAttrs:
  "snd (unmarshalNetemAttrs bo attrs info) = flowInfo (forNext (netemCase bo None) attrs info)"
  by (simp add: unmarshalNetemAttrs_def split: flow.splits)

lemma unmarshalNetemAttrs_Nil: "unmarshalNetemAttrs bo [] info = (None, info)"
  by (simp add: unmarshalNetemAttrs_def)

lemma netem_after_struct:
  assumes "forNext (netemCase bo None) pre info = Continue info1"
      and "netemCase bo None a info1 = Continue info2"
  shows "unmarshalNetemAttrs bo (pre @ a # post) info = unmarshalNetemAttrs bo post info2"
  using assms by (simp add: unmarshalNetemAttrs_def forNext_reach)

text \<open>No pass of the loop body resets a pointer field to nil.\<close>

lemma netemCase_keeps_presence:
  "(Corr info \<noteq> None \<longrightarrow> Corr (flowInfo (netemCase bo me a info)) \<noteq> None)
   \<and> (Reorder info \<noteq> None \<longrightarrow> Reorder (flowInfo (netemCase bo me a info)) \<noteq> None)
   \<and> (Corrupt info \<noteq> None \<longrightarrow> Corrupt (flowInfo (netemCase bo me a info)) \<noteq> None)
   \<and> (Rate info \<noteq> None \<longrightarrow> Rate (flowInfo (netemCase bo me a info)) \<noteq> None)
   \<and> (Slot info \<noteq> None \<longrightarrow> Slot (flowInfo (netemCase bo me a info)) \<noteq> None)"
  by (simp add: netemCase_def afterAccessor_def Let_def split: prod.splits option.splits)

lemma forNext_keeps_presence:
  "(Corr info \<noteq> None \<longrightarrow> Corr (flowInfo (forNext (netemCase bo me) attrs info)) \<noteq> None)
   \<and> (Reorder info \<noteq> None \<longrightarrow> Reorder (flowInfo (forNext (netemCase bo me) attrs info)) \<noteq> None)
   \<and> (Corrupt info \<noteq> None \<longrightarrow> Corrupt (flowInfo (forNext (netemCase bo me) attrs info)) \<noteq> None)
   \<and> (Rate info \<noteq> None \<longrightarrow> Rate (flowInfo (forNext (netemCase bo me) attrs info)) \<noteq> None)
   \<and> (Slot info \<noteq> None \<longrightarrow> Slot (flowInfo (forNext (netemCase bo me) attrs info)) \<noteq> None)"
proof (induction attrs arbitrary: info)
  case Nil
  show ?case by simp
next
  case (Cons a attrs)
  show ?case
  proof (cases "netemCase bo me a info")
    case (Continue info')
    have "flowInfo (netemCase bo me a info) = info'" using Continue by simp
    then show ?thesis
      using netemCase_keeps_presence [of info bo me a] Cons.IH [of info'] Continue by simp
  next
    case (AccessorFailed err info')
    have "flowInfo (netemCase bo me a info) = info'" using AccessorFailed by simp
    then show ?thesis
      using netemCase_keeps_presence [of info bo me a] AccessorFailed by simp
  next
    case (Return err info')
    have "flowInfo (netemCase bo me a info) = info'" using Return by simp
    then show ?thesis
      using netemCase_keeps_presence [of info bo me a] Return by simp
  qed
qed

text \<open>\<open>unmarshalNetem\<close> on a buffer of at least 24 bytes: the options block from the
  first 24 bytes, then the loop over the records of the bytes after them.\<close>

lemma packedSize_NetemQopt: "packedSize NetemQoptLayout = 24"
  by (simp add: NetemQoptLayout_def)


lemma unmarshalNetem_bytes:
  "24 \<le> length data \<Longrightarrow>
   unmarshalNetem bo data info =
     (case NewAttributeDecoder bo (drop 24 data) of
        Inl err \<Rightarrow> (Some err, info\<lparr>Qopt := unpack NetemQoptLayout bo (take 24 data)\<rparr>)
      | Inr attrs \<Rightarrow>
          unmarshalNetemAttrs bo attrs (info\<lparr>Qopt := unpack NetemQoptLayout bo (take 24 data)\<rparr>))"
  by (simp add: unmarshalNetem_def unmarshalStruct_def goSlice_def Let_def packedSize_NetemQopt
      split: sum.splits)

lemma unmarshalNetem_header:
  "length hdr = 24 \<Longrightarrow>
   unmarshalNetem bo (hdr @ rest) info =
     (case NewAttributeDecoder bo rest of
        Inl err \<Rightarrow> (Some err, info\<lparr>Qopt := unpack NetemQoptLayout bo hdr\<rparr>)
      | Inr attrs \<Rightarrow> unmarshalNetemAttrs bo attrs (info\<lparr>Qopt := unpack NetemQoptLayout bo hdr\<rparr>))"
  by (simp add: unmarshalNetem_bytes split: sum.splits)

text \<open>The loop runs to the end of a stream of accepted records.\<close>

lemma netemCase_ok: "netemRecordOk a \<Longrightarrow> \<exists>info'. netemCase bo me a info = Continue info'"
  by (auto simp add: netemRecordOk_def netemCase_def netemHandled_def afterAccessor_def
      ad_Uint32_def ad_Uint64_def Let_def split: if_splits prod.splits)

lemma forNext_netem_ok:
  "(\<And>a. a \<in> set attrs \<Longrightarrow> netemRecordOk a) \<Longrightarrow>
   \<exists>info'. forNext (netemCase bo me) attrs info = Continue info'"
proof (induction attrs arbitrary: info)
  case Nil
  show ?case by simp
next
  case (Cons a attrs)
  obtain info1 where c: "netemCase bo me a info = Continue info1"
    using netemCase_ok [of a bo me info] Cons.prems by auto
  obtain info2 where "forNext (netemCase bo me) attrs info1 = Continue info2"
    using Cons.IH [of info1] Cons.prems by auto
  then show ?case using c by simp
qed

lemma marshalNetem_rate64:
  "marshalNetem bo (Some \<lparr> Qopt = q, Corr = None, Reorder = None, Corrupt = None, Rate = None,
       Ecn = None, Rate64 = Some r, Latency64 = None, Jitter64 = None, Slot = None \<rparr>)
   = (pack NetemQoptLayout bo q
        @ marshalAttribute bo \<lparr> attr_Type = tcaNetemRate64, attr_Data = putUint64 bo r \<rparr>, None)"
  by (simp add: marshalNetem_def marshalStruct_def netemOption_def length_putUint64)

section \<open>Properties of the u32 functions\<close>

lemmas tcaU32_defs = tcaU32Unspec_def tcaU32ClassID_def tcaU32Hash_def tcaU32Link_def
  tcaU32Divisor_def tcaU32Sel_def tcaU32Police_def tcaU32Act_def tcaU32InDev_def
  tcaU32Pcnt_def tcaU32Mark_def tcaU32Flags_def tcaU32Pad_def

lemma ad_Type_u32:
  "attr_Type a = tcaU32Sel \<Longrightarrow> ad_Type a = tcaU32Sel"
  "attr_Type a = tcaU32Police \<Longrightarrow> ad_Type a = tcaU32Police"
  "attr_Type a = tcaU32Mark \<Longrightarrow> ad_Type a = tcaU32Mark"
  "attr_Type a = tcaU32Act \<Longrightarrow> ad_Type a = tcaU32Act"
  by (simp_all add: ad_Type_def tcaU32_defs)

lemma u32Case_pad: "ad_Type p = tcaU32Pad \<Longrightarrow> u32Case bo dg p info = Continue info"
  by (simp add: u32Case_def tcaU32_defs)

lemma u32Case_unknown:
  "ad_Type a \<notin> u32Handled \<Longrightarrow> ad_Type a \<noteq> tcaU32Pad \<Longrightarrow>
   u32Case bo dg a info
     = Return (ErrUnknownAttr ''unmarshalU32()'' (ad_Type a) (attr_Data a)) info"
  by (simp add: u32Case_def u32Handled_def ad_Bytes_def)

lemma u32Case_nested_failure:
  "ad_Type a = tcaU32Sel \<Longrightarrow> fst (extractU32Sel bo (attr_Data a) zeroU32Sel) = Some err \<Longrightarrow>
     u32Case bo dg a info = Return err info"
  "ad_Type a = tcaU32Police \<Longrightarrow> unmarshalPolice dg (attr_Data a) = Inl err \<Longrightarrow>
     u32Case bo dg a info = Return err info"
  "ad_Type a = tcaU32Mark \<Longrightarrow>
     fst (unmarshalStruct U32MarkLayout bo (attr_Data a) zeroU32Mark) = Some err \<Longrightarrow>
     u32Case bo dg a info = Return err info"
  "ad_Type a = tcaU32Act \<Longrightarrow> unmarshalActions dg (attr_Data a) = Inl err \<Longrightarrow>
     u32Case bo dg a info = Return err info"
  by (auto simp add: u32Case_def tcaU32_defs ad_Bytes_def split: prod.splits option.splits)

lemma u32_return_ends:
  assumes "forNext (u32Case bo dg) pre info = Continue info1"
      and "u32Case bo dg a info1 = Return err info1"
  shows "unmarshalU32Attrs bo dg (pre @ a # post) info = (Some err, info1)"
  using assms by (simp add: unmarshalU32Attrs_def forNext_reach)

subsection \<open>The selector\<close>

lemma extractU32Keys_ok:
  "(\<And>i. i \<in> set is \<Longrightarrow> 15 + (i + 1) * 16 \<le> length data) \<Longrightarrow>
   extractU32Keys bo data is info =
     (None, info\<lparr>sel_Keys := sel_Keys info
        @ map (\<lambda>i. unpack U32KeyLayout bo (bytesAt data (15 + i * 16) 16)) is\<rparr>)"
proof (induction "is" arbitrary: info)
  case Nil
  show ?case by simp
next
  case (Cons i "is")
  have b: "15 + (i + 1) * 16 \<le> length data" using Cons.prems by simp
  have s: "goSlice data (15 + i * 16) (15 + (i + 1) * 16) = Some (bytesAt data (15 + i * 16) 16)"
    using b by (simp add: goSlice_def bytesAt_def)
  have l: "length (bytesAt data (15 + i * 16) 16) = 16"
    using b by (simp add: bytesAt_def)
  have u: "unmarshalStruct U32KeyLayout bo (bytesAt data (15 + i * 16) 16) zeroU32Key
      = (None, unpack U32KeyLayout bo (bytesAt data (15 + i * 16) 16))"
    using l by (simp add: unmarshalStruct_def) (simp add: U32KeyLayout_def)
  have r: "\<And>i. i \<in> set is \<Longrightarrow> 15 + (i + 1) * 16 \<le> length data" using Cons.prems by simp
  have "extractU32Keys bo data (i # is) info
      = extractU32Keys bo data is
          (info\<lparr>sel_Keys := sel_Keys info @ [unpack U32KeyLayout bo (bytesAt data (15 + i * 16) 16)]\<rparr>)"
    by (simp only: extractU32Keys.simps s u option.case prod.case)
  then show ?case
    by (simp add: Cons.IH [OF r])
qed

lemma extractU32SelHeader_ok:
  "15 \<le> length data \<Longrightarrow>
   extractU32SelHeader bo data info =
     Some (info\<lparr> sel_Flags := data ! 0, sel_Offshift := data ! 1, sel_NKeys := data ! 2,
       sel_OffMask := Uint16 bo (bytesAt data 3 2), sel_Off := Uint16 bo (bytesAt data 5 2),
       sel_Offoff := Uint16 bo (bytesAt data 7 2), sel_Hoff := Uint16 bo (bytesAt data 9 2),
       sel_Hmask := Uint32 bo (bytesAt data 11 4) \<rparr>)"
  by (auto simp add: extractU32SelHeader_def goSlice_def goIndex_def bytesAt_def)

lemma extractU32Sel_short_header:
  "length data < 15 \<Longrightarrow> extractU32Sel bo data info = (Some ErrNotEnoughBytesU32Sel, info)"
  by (simp add: extractU32Sel_def)

lemma extractU32Sel_short_keys:
  "15 \<le> length data \<Longrightarrow> length data < 15 + 16 * unat (data ! 2) \<Longrightarrow>
   fst (extractU32Sel bo data info) = Some ErrNotEnoughBytesU32Keys"
  by (simp add: extractU32Sel_def extractU32SelHeader_ok)

lemma extractU32Sel_ok:
  assumes a: "15 \<le> length data" and b: "15 + 16 * unat (data ! 2) \<le> length data"
  shows "extractU32Sel bo data info =
           (None, info\<lparr> sel_Flags := data ! 0, sel_Offshift := data ! 1, sel_NKeys := data ! 2,
              sel_OffMask := Uint16 bo (bytesAt data 3 2), sel_Off := Uint16 bo (bytesAt data 5 2),
              sel_Offoff := Uint16 bo (bytesAt data 7 2), sel_Hoff := Uint16 bo (bytesAt data 9 2),
              sel_Hmask := Uint32 bo (bytesAt data 11 4),
              sel_Keys := sel_Keys info
                @ map (\<lambda>i. unpack U32KeyLayout bo (bytesAt data (15 + i * 16) 16))
                    [0..<unat (data ! 2)]\<rparr>)"
proof -
  let ?H = "info\<lparr> sel_Flags := data ! 0, sel_Offshift := data ! 1, sel_NKeys := data ! 2,
              sel_OffMask := Uint16 bo (bytesAt data 3 2), sel_Off := Uint16 bo (bytesAt data 5 2),
              sel_Offoff := Uint16 bo (bytesAt data 7 2), sel_Hoff := Uint16 bo (bytesAt data 9 2),
              sel_Hmask := Uint32 bo (bytesAt data 11 4)\<rparr>"
  have h: "extractU32SelHeader bo data info = Some ?H"
    by (rule extractU32SelHeader_ok [OF a])
  have n: "sel_NKeys ?H = data ! 2" by simp
  have e: "extractU32Keys bo data [0..<unat (data ! 2)] ?H
      = (None, ?H\<lparr>sel_Keys := sel_Keys ?H
           @ map (\<lambda>i. unpack U32KeyLayout bo (bytesAt data (15 + i * 16) 16)) [0..<unat (data ! 2)]\<rparr>)"
    by (rule extractU32Keys_ok) (use b in auto)
  have "extractU32Sel bo data info = extractU32Keys bo data [0..<unat (data ! 2)] ?H"
    unfolding extractU32Sel_def h option.case n using a b by simp
  then show ?thesis unfolding e by simp
qed

lemma writeU32Keys_eq:
  "writeU32Keys bo ks buf = (buf @ concat (map (pack U32KeyLayout bo) ks), None)"
  by (induction ks arbitrary: buf) (simp_all add: marshalStruct_def)

lemma validateU32SelOptions_eq:
  "validateU32SelOptions bo s
     = (selHeaderBytes bo s @ concat (map (pack U32KeyLayout bo) (sel_Keys s)), None)"
  by (simp add: validateU32SelOptions_def writeU32Keys_eq selHeaderBytes_def)

lemma length_selHeaderBytes: "length (selHeaderBytes bo s) = 15"
  by (simp add: selHeaderBytes_def length_putUint16 length_putUint32)

lemma chunk_of_concat:
  "(\<And>x. x \<in> set xss \<Longrightarrow> length x = n) \<Longrightarrow> i < length xss \<Longrightarrow>
   take n (drop (i * n) (concat xss)) = xss ! i"
proof (induction xss arbitrary: i)
  case Nil
  then show ?case by simp
next
  case (Cons x xss)
  have lx: "length x = n" using Cons.prems(1) by simp
  show ?case
  proof (cases i)
    case 0
    then show ?thesis using lx by simp
  next
    case (Suc j)
    have "take n (drop (j * n) (concat xss)) = xss ! j"
      using Cons.IH [of j] Cons.prems Suc by simp
    then show ?thesis using Suc lx by simp
  qed
qed

lemma length_concat_fixed:
  "(\<And>x. x \<in> set xss \<Longrightarrow> length x = n) \<Longrightarrow> length (concat xss) = length xss * n"
  by (induction xss) auto

text \<open>A selector whose key count is the number of its keys is read back as written.\<close>

lemma extractU32Sel_validateU32SelOptions:
  assumes n: "unat (sel_NKeys s) = length (sel_Keys s)"
  shows "extractU32Sel bo (fst (validateU32SelOptions bo s)) zeroU32Sel = (None, s)"
proof -
  let ?ks = "map (pack U32KeyLayout bo) (sel_Keys s)"
  let ?h = "selHeaderBytes bo s"
  let ?B = "?h @ concat ?ks"
  have lk: "\<And>x. x \<in> set ?ks \<Longrightarrow> length x = 16"
    by (auto simp: length_pack_U32Key)
  have lc: "length (concat ?ks) = length (sel_Keys s) * 16"
    using length_concat_fixed [of ?ks 16] lk by simp
  have lB: "length ?B = 15 + 16 * length (sel_Keys s)"
    by (simp add: length_selHeaderBytes lc)
  have b2: "?B ! 2 = sel_NKeys s" by (simp add: selHeaderBytes_def)
  have b0: "?B ! 0 = sel_Flags s" by (simp add: selHeaderBytes_def)
  have b1: "?B ! 1 = sel_Offshift s" by (simp add: selHeaderBytes_def)
  have f3: "bytesAt ?B 3 2 = putUint16 bo (sel_OffMask s)"
    by (simp add: selHeaderBytes_def bytesAt_def length_putUint16)
  have f5: "bytesAt ?B 5 2 = putUint16 bo (sel_Off s)"
    by (simp add: selHeaderBytes_def bytesAt_def length_putUint16)
  have f7: "bytesAt ?B 7 2 = putUint16 bo (sel_Offoff s)"
    by (simp add: selHeaderBytes_def bytesAt_def length_putUint16)
  have f9: "bytesAt ?B 9 2 = putUint16 bo (sel_Hoff s)"
    by (simp add: selHeaderBytes_def bytesAt_def length_putUint16)
  have f11: "bytesAt ?B 11 4 = putUint32 bo (sel_Hmask s)"
    by (simp add: selHeaderBytes_def bytesAt_def length_putUint16 length_putUint32)
  have key: "unpack U32KeyLayout bo (bytesAt ?B (15 + i * 16) 16) = sel_Keys s ! i"
    if "i < length (sel_Keys s)" for i
  proof -
    have "bytesAt ?B (15 + i * 16) 16 = take 16 (drop (i * 16) (concat ?ks))"
      by (simp add: bytesAt_def length_selHeaderBytes)
    also have "\<dots> = ?ks ! i"
      using chunk_of_concat [of ?ks 16 i] lk that by simp
    also have "\<dots> = pack U32KeyLayout bo (sel_Keys s ! i)"
      using that by simp
    finally show ?thesis by (simp add: unpack_pack_U32Key)
  qed
  have keys: "map (\<lambda>i. unpack U32KeyLayout bo (bytesAt ?B (15 + i * 16) 16)) [0..<length (sel_Keys s)]
      = sel_Keys s"
    by (rule nth_equalityI) (simp_all add: key)
  have a: "15 \<le> length ?B" using lB by simp
  have b: "15 + 16 * unat (?B ! 2) \<le> length ?B" using lB b2 n by simp
  have "extractU32Sel bo ?B zeroU32Sel = (None, s)"
    unfolding extractU32Sel_ok [OF a b] b0 b1 b2 f3 f5 f7 f9 f11 n keys
    by (simp add: zeroU32Sel_def Uint16_putUint16 Uint32_putUint32)
  then show ?thesis by (simp add: validateU32SelOptions_eq)
qed

section \<open>Claims\<close>

subsection \<open>C1: several attributes that fail to decode\<close>

text \<open>
  C1 as stated fails. In the netem stream made of a \<open>Corr\<close> and a \<open>Reorder\<close> record with
  empty payloads both payloads fail to decode, and the loop of \<open>unmarshalNetem\<close> returns
  no error at all. In the u32 stream made of a \<open>Sel\<close> and a \<open>Mark\<close> record with empty
  payloads both payloads fail to decode, and \<open>unmarshalU32\<close> returns the error of the
  \<open>Sel\<close> record alone, without decoding the \<open>Mark\<close> record.
\<close>

theorem two_failures_not_aggregated:
  "fst (unmarshalStruct NetemCorrLayout LittleEndian [] zeroNetemCorr) = Some ErrSizeMismatch
   \<and> fst (unmarshalStruct NetemReorderLayout LittleEndian [] zeroNetemReorder) = Some ErrSizeMismatch
   \<and> unmarshalNetemAttrs LittleEndian
        [\<lparr> attr_Type = tcaNetemCorr, attr_Data = [] \<rparr>, \<lparr> attr_Type = tcaNetemReorder, attr_Data = [] \<rparr>]
        zeroNetem
     = (None, zeroNetem\<lparr>Corr := Some zeroNetemCorr, Reorder := Some zeroNetemReorder\<rparr>)
   \<and> fst (extractU32Sel LittleEndian [] zeroU32Sel) = Some ErrNotEnoughBytesU32Sel
   \<and> fst (unmarshalStruct U32MarkLayout LittleEndian [] zeroU32Mark) = Some ErrSizeMismatch
   \<and> NewAttributeDecoder LittleEndian [4, 0, 5, 0, 4, 0, 10, 0]
     = Inr [\<lparr> attr_Type = tcaU32Sel, attr_Data = [] \<rparr>, \<lparr> attr_Type = tcaU32Mark, attr_Data = [] \<rparr>]
   \<and> unmarshalU32 LittleEndian noDelegates [4, 0, 5, 0, 4, 0, 10, 0] zeroU32
     = (Some ErrNotEnoughBytesU32Sel, zeroU32)"
  by code_simp

text \<open>
  C1, amended. In \<open>unmarshalU32\<close> a \<open>Sel\<close>, \<open>Police\<close>, \<open>Mark\<close> or \<open>Act\<close> record whose payload
  fails to decode ends the decoding: when the loop reaches it, the function returns that
  record's error alone, the records after it are not decoded, and the object is as the
  records before it left it. In the attribute loop of \<open>unmarshalNetem\<close> a \<open>Corr\<close>,
  \<open>Reorder\<close>, \<open>Corrupt\<close>, \<open>Rate\<close>, \<open>Latency64\<close>, \<open>Jitter64\<close> or \<open>Slot\<close> record whose payload
  fails to decode does not end the decoding: when the loop reaches it, its field is set
  to the zero value on the object as the records before it left it, and the decoding
  goes on with the records after it.
\<close>

theorem failed_payload_u32_stops_netem_goes_on:
  "(forNext (u32Case bo dg) upre uinfo = Continue ureached
      \<and> (attr_Type ua = tcaU32Sel \<and> fst (extractU32Sel bo (attr_Data ua) zeroU32Sel) = Some err
         \<or> attr_Type ua = tcaU32Police \<and> unmarshalPolice dg (attr_Data ua) = Inl err
         \<or> attr_Type ua = tcaU32Mark
            \<and> fst (unmarshalStruct U32MarkLayout bo (attr_Data ua) zeroU32Mark) = Some err
         \<or> attr_Type ua = tcaU32Act \<and> unmarshalActions dg (attr_Data ua) = Inl err) \<longrightarrow>
      unmarshalU32Attrs bo dg (upre @ ua # upost) uinfo = (Some err, ureached))
   \<and> (forNext (netemCase bo None) pre info = Continue reached \<longrightarrow>
      (attr_Type a = tcaNetemCorr
          \<and> fst (unmarshalStruct NetemCorrLayout bo (attr_Data a) zeroNetemCorr) \<noteq> None \<longrightarrow>
        unmarshalNetemAttrs bo (pre @ a # post) info
          = unmarshalNetemAttrs bo post (reached\<lparr>Corr := Some zeroNetemCorr\<rparr>))
      \<and> (attr_Type a = tcaNetemReorder
          \<and> fst (unmarshalStruct NetemReorderLayout bo (attr_Data a) zeroNetemReorder) \<noteq> None \<longrightarrow>
        unmarshalNetemAttrs bo (pre @ a # post) info
          = unmarshalNetemAttrs bo post (reached\<lparr>Reorder := Some zeroNetemReorder\<rparr>))
      \<and> (attr_Type a = tcaNetemCorrupt
          \<and> fst (unmarshalStruct NetemCorruptLayout bo (attr_Data a) zeroNetemCorrupt) \<noteq> None \<longrightarrow>
        unmarshalNetemAttrs bo (pre @ a # post) info
          = unmarshalNetemAttrs bo post (reached\<lparr>Corrupt := Some zeroNetemCorrupt\<rparr>))
      \<and> (attr_Type a = tcaNetemRate
          \<and> fst (unmarshalStruct NetemRateLayout bo (attr_Data a) zeroNetemRate) \<noteq> None \<longrightarrow>
        unmarshalNetemAttrs bo (pre @ a # post) info
          = unmarshalNetemAttrs bo post (reached\<lparr>Rate := Some zeroNetemRate\<rparr>))
      \<and> (attr_Type a = tcaNetemLatency64
          \<and> fst (unmarshalNetlinkAttribute bo (attr_Data a) 0) \<noteq> None \<longrightarrow>
        unmarshalNetemAttrs bo (pre @ a # post) info
          = unmarshalNetemAttrs bo post (reached\<lparr>Latency64 := Some 0\<rparr>))
      \<and> (attr_Type a = tcaNetemJitter64
          \<and> fst (unmarshalNetlinkAttribute bo (attr_Data a) 0) \<noteq> None \<longrightarrow>
        unmarshalNetemAttrs bo (pre @ a # post) info
          = unmarshalNetemAttrs bo post (reached\<lparr>Jitter64 := Some 0\<rparr>))
      \<and> (attr_Type a = tcaNetemSlot
          \<and> fst (unmarshalStruct NetemSlotLayout bo (attr_Data a) zeroNetemSlot) \<noteq> None \<longrightarrow>
        unmarshalNetemAttrs bo (pre @ a # post) info
          = unmarshalNetemAttrs bo post (reached\<lparr>Slot := Some zeroNetemSlot\<rparr>)))"
proof -
  have u: "unmarshalU32Attrs bo dg (upre @ ua # upost) uinfo = (Some err, ureached)"
    if r: "forNext (u32Case bo dg) upre uinfo = Continue ureached"
      and f: "attr_Type ua = tcaU32Sel \<and> fst (extractU32Sel bo (attr_Data ua) zeroU32Sel) = Some err
         \<or> attr_Type ua = tcaU32Police \<and> unmarshalPolice dg (attr_Data ua) = Inl err
         \<or> attr_Type ua = tcaU32Mark
            \<and> fst (unmarshalStruct U32MarkLayout bo (attr_Data ua) zeroU32Mark) = Some err
         \<or> attr_Type ua = tcaU32Act \<and> unmarshalActions dg (attr_Data ua) = Inl err"
  proof -
    have "u32Case bo dg ua ureached = Return err ureached"
      using f ad_Type_u32 [of ua]
        u32Case_nested_failure [where a = ua and bo = bo and dg = dg and info = ureached
          and err = err]
      by blast
    then show ?thesis by (rule u32_return_ends [OF r])
  qed
  have n: "unmarshalNetemAttrs bo (pre @ a # post) info = unmarshalNetemAttrs bo post next_info"
    if "forNext (netemCase bo None) pre info = Continue reached"
      and "netemCase bo None a reached = Continue next_info" for next_info
    using that by (rule netem_after_struct)
  have n1: "netemCase bo None a reached = Continue (reached\<lparr>Corr := Some zeroNetemCorr\<rparr>)"
    if "attr_Type a = tcaNetemCorr"
      and "fst (unmarshalStruct NetemCorrLayout bo (attr_Data a) zeroNetemCorr) \<noteq> None"
    using that by (simp add: netemCase_struct(1) ad_Type_netem(1) unmarshalStruct_failed)
  have n2: "netemCase bo None a reached = Continue (reached\<lparr>Reorder := Some zeroNetemReorder\<rparr>)"
    if "attr_Type a = tcaNetemReorder"
      and "fst (unmarshalStruct NetemReorderLayout bo (attr_Data a) zeroNetemReorder) \<noteq> None"
    using that by (simp add: netemCase_struct(2) ad_Type_netem(2) unmarshalStruct_failed)
  have n3: "netemCase bo None a reached = Continue (reached\<lparr>Corrupt := Some zeroNetemCorrupt\<rparr>)"
    if "attr_Type a = tcaNetemCorrupt"
      and "fst (unmarshalStruct NetemCorruptLayout bo (attr_Data a) zeroNetemCorrupt) \<noteq> None"
    using that by (simp add: netemCase_struct(3) ad_Type_netem(3) unmarshalStruct_failed)
  have n4: "netemCase bo None a reached = Continue (reached\<lparr>Rate := Some zeroNetemRate\<rparr>)"
    if "attr_Type a = tcaNetemRate"
      and "fst (unmarshalStruct NetemRateLayout bo (attr_Data a) zeroNetemRate) \<noteq> None"
    using that by (simp add: netemCase_struct(4) ad_Type_netem(4) unmarshalStruct_failed)
  have n5: "netemCase bo None a reached = Continue (reached\<lparr>Latency64 := Some 0\<rparr>)"
    if "attr_Type a = tcaNetemLatency64"
      and "fst (unmarshalNetlinkAttribute bo (attr_Data a) 0) \<noteq> None"
    using that by (simp add: netemCase_struct(5) ad_Type_netem(5) unmarshalNetlinkAttribute_failed)
  have n6: "netemCase bo None a reached = Continue (reached\<lparr>Jitter64 := Some 0\<rparr>)"
    if "attr_Type a = tcaNetemJitter64"
      and "fst (unmarshalNetlinkAttribute bo (attr_Data a) 0) \<noteq> None"
    using that by (simp add: netemCase_struct(6) ad_Type_netem(6) unmarshalNetlinkAttribute_failed)
  have n7: "netemCase bo None a reached = Continue (reached\<lparr>Slot := Some zeroNetemSlot\<rparr>)"
    if "attr_Type a = tcaNetemSlot"
      and "fst (unmarshalStruct NetemSlotLayout bo (attr_Data a) zeroNetemSlot) \<noteq> None"
    using that by (simp add: netemCase_struct(7) ad_Type_netem(7) unmarshalStruct_failed)
  show ?thesis
  proof (intro conjI impI, goal_cases)
    case 1
    then show ?case using u by blast
  next
    case 2
    then show ?case using n [OF _ n1] by blast
  next
    case 3
    then show ?case using n [OF _ n2] by blast
  next
    case 4
    then show ?case using n [OF _ n3] by blast
  next
    case 5
    then show ?case using n [OF _ n4] by blast
  next
    case 6
    then show ?case using n [OF _ n5] by blast
  next
    case 7
    then show ?case using n [OF _ n6] by blast
  next
    case 8
    then show ?case using n [OF _ n7] by blast
  qed
qed

text \<open>A u32 stream with a \<open>ClassID\<close> record, a \<open>Sel\<close> or a \<open>Mark\<close> record of three
  payload bytes, and a \<open>Flags\<close> record; netem streams with an \<open>Ecn\<close> record, one of the
  seven records with three payload bytes, and a \<open>Rate64\<close> record.\<close>

theorem failed_payload_u32_stops_netem_goes_on_witness:
  "forNext (u32Case LittleEndian noDelegates) [\<lparr> attr_Type = tcaU32ClassID, attr_Data = [7, 0, 0, 0] \<rparr>] zeroU32
     = Continue (zeroU32\<lparr>ClassID := 7\<rparr>)
   \<and> attr_Type \<lparr> attr_Type = tcaU32Sel, attr_Data = [1, 2, 3] \<rparr> = tcaU32Sel
   \<and> fst (extractU32Sel LittleEndian (attr_Data \<lparr> attr_Type = tcaU32Sel, attr_Data = [1, 2, 3] \<rparr>) zeroU32Sel)
     = Some ErrNotEnoughBytesU32Sel
   \<and> unmarshalU32Attrs LittleEndian noDelegates
        ([\<lparr> attr_Type = tcaU32ClassID, attr_Data = [7, 0, 0, 0] \<rparr>]
          @ \<lparr> attr_Type = tcaU32Sel, attr_Data = [1, 2, 3] \<rparr>
          # [\<lparr> attr_Type = tcaU32Flags, attr_Data = [5, 0, 0, 0] \<rparr>]) zeroU32
     = (Some ErrNotEnoughBytesU32Sel, zeroU32\<lparr>ClassID := 7\<rparr>)
   \<and> attr_Type \<lparr> attr_Type = tcaU32Mark, attr_Data = [1, 2, 3] \<rparr> = tcaU32Mark
   \<and> fst (unmarshalStruct U32MarkLayout LittleEndian (attr_Data \<lparr> attr_Type = tcaU32Mark, attr_Data = [1, 2, 3] \<rparr>) zeroU32Mark)
     = Some ErrSizeMismatch
   \<and> unmarshalU32Attrs LittleEndian noDelegates
        ([\<lparr> attr_Type = tcaU32ClassID, attr_Data = [7, 0, 0, 0] \<rparr>]
          @ \<lparr> attr_Type = tcaU32Mark, attr_Data = [1, 2, 3] \<rparr>
          # [\<lparr> attr_Type = tcaU32Flags, attr_Data = [5, 0, 0, 0] \<rparr>]) zeroU32
     = (Some ErrSizeMismatch, zeroU32\<lparr>ClassID := 7\<rparr>)
   \<and> forNext (netemCase LittleEndian None) [\<lparr> attr_Type = tcaNetemEcn, attr_Data = [1, 0, 0, 0] \<rparr>] zeroNetem
     = Continue (zeroNetem\<lparr>Ecn := Some 1\<rparr>)
   \<and> attr_Type \<lparr> attr_Type = tcaNetemCorr, attr_Data = [1, 2, 3] \<rparr> = tcaNetemCorr
   \<and> fst (unmarshalStruct NetemCorrLayout LittleEndian (attr_Data \<lparr> attr_Type = tcaNetemCorr, attr_Data = [1, 2, 3] \<rparr>) zeroNetemCorr) \<noteq> None
   \<and> unmarshalNetemAttrs LittleEndian
        ([\<lparr> attr_Type = tcaNetemEcn, attr_Data = [1, 0, 0, 0] \<rparr>]
          @ \<lparr> attr_Type = tcaNetemCorr, attr_Data = [1, 2, 3] \<rparr>
          # [\<lparr> attr_Type = tcaNetemRate64, attr_Data = [2, 0, 0, 0, 0, 0, 0, 0] \<rparr>]) zeroNetem
     = unmarshalNetemAttrs LittleEndian [\<lparr> attr_Type = tcaNetemRate64, attr_Data = [2, 0, 0, 0, 0, 0, 0, 0] \<rparr>]
         (zeroNetem\<lparr>Ecn := Some 1\<rparr>\<lparr>Corr := Some zeroNetemCorr\<rparr>)
   \<and> unmarshalNetemAttrs LittleEndian [\<lparr> attr_Type = tcaNetemRate64, attr_Data = [2, 0, 0, 0, 0, 0, 0, 0] \<rparr>]
         (zeroNetem\<lparr>Ecn := Some 1\<rparr>\<lparr>Corr := Some zeroNetemCorr\<rparr>)
     = (None, zeroNetem\<lparr>Ecn := Some 1\<rparr>\<lparr>Corr := Some zeroNetemCorr\<rparr>\<lparr>Rate64 := Some 2\<rparr>)
   \<and> attr_Type \<lparr> attr_Type = tcaNetemReorder, attr_Data = [1, 2, 3] \<rparr> = tcaNetemReorder
   \<and> fst (unmarshalStruct NetemReorderLayout LittleEndian (attr_Data \<lparr> attr_Type = tcaNetemReorder, attr_Data = [1, 2, 3] \<rparr>) zeroNetemReorder) \<noteq> None
   \<and> unmarshalNetemAttrs LittleEndian
        ([\<lparr> attr_Type = tcaNetemEcn, attr_Data = [1, 0, 0, 0] \<rparr>]
          @ \<lparr> attr_Type = tcaNetemReorder, attr_Data = [1, 2, 3] \<rparr>
          # [\<lparr> attr_Type = tcaNetemRate64, attr_Data = [2, 0, 0, 0, 0, 0, 0, 0] \<rparr>]) zeroNetem
     = unmarshalNetemAttrs LittleEndian [\<lparr> attr_Type = tcaNetemRate64, attr_Data = [2, 0, 0, 0, 0, 0, 0, 0] \<rparr>]
         (zeroNetem\<lparr>Ecn := Some 1\<rparr>\<lparr>Reorder := Some zeroNetemReorder\<rparr>)
   \<and> unmarshalNetemAttrs LittleEndian [\<lparr> attr_Type = tcaNetemRate64, attr_Data = [2, 0, 0, 0, 0, 0, 0, 0] \<rparr>]
         (zeroNetem\<lparr>Ecn := Some 1\<rparr>\<lparr>Reorder := Some zeroNetemReorder\<rparr>)
     = (None, zeroNetem\<lparr>Ecn := Some 1\<rparr>\<lparr>Reorder := Some zeroNetemReorder\<rparr>\<lparr>Rate64 := Some 2\<rparr>)
   \<and> attr_Type \<lparr> attr_Type = tcaNetemCorrupt, attr_Data = [1, 2, 3] \<rparr> = tcaNetemCorrupt
   \<and> fst (unmarshalStruct NetemCorruptLayout LittleEndian (attr_Data \<lparr> attr_Type = tcaNetemCorrupt, attr_Data = [1, 2, 3] \<rparr>) zeroNetemCorrupt) \<noteq> None
   \<and> unmarshalNetemAttrs LittleEndian
        ([\<lparr> attr_Type = tcaNetemEcn, attr_Data = [1, 0, 0, 0] \<rparr>]
          @ \<lparr> attr_Type = tcaNetemCorrupt, attr_Data = [1, 2, 3] \<rparr>
          # [\<lparr> attr_Type = tcaNetemRate64, attr_Data = [2, 0, 0, 0, 0, 0, 0, 0] \<rparr>]) zeroNetem
     = unmarshalNetemAttrs LittleEndian [\<lparr> attr_Type = tcaNetemRate64, attr_Data = [2, 0, 0, 0, 0, 0, 0, 0] \<rparr>]
         (zeroNetem\<lparr>Ecn := Some 1\<rparr>\<lparr>Corrupt := Some zeroNetemCorrupt\<rparr>)
   \<and> unmarshalNetemAttrs LittleEndian [\<lparr> attr_Type = tcaNetemRate64, attr_Data = [2, 0, 0, 0, 0, 0, 0, 0] \<rparr>]
         (zeroNetem\<lparr>Ecn := Some 1\<rparr>\<lparr>Corrupt := Some zeroNetemCorrupt\<rparr>)
     = (None, zeroNetem\<lparr>Ecn := Some 1\<rparr>\<lparr>Corrupt := Some zeroNetemCorrupt\<rparr>\<lparr>Rate64 := Some 2\<rparr>)
   \<and> attr_Type \<lparr> attr_Type = tcaNetemRate, attr_Data = [1, 2, 3] \<rparr> = tcaNetemRate
   \<and> fst (unmarshalStruct NetemRateLayout LittleEndian (attr_Data \<lparr> attr_Type = tcaNetemRate, attr_Data = [1, 2, 3] \<rparr>) zeroNetemRate) \<noteq> None
   \<and> unmarshalNetemAttrs LittleEndian
        ([\<lparr> attr_Type = tcaNetemEcn, attr_Data = [1, 0, 0, 0] \<rparr>]
          @ \<lparr> attr_Type = tcaNetemRate, attr_Data = [1, 2, 3] \<rparr>
          # [\<lparr> attr_Type = tcaNetemRate64, attr_Data = [2, 0, 0, 0, 0, 0, 0, 0] \<rparr>]) zeroNetem
     = unmarshalNetemAttrs LittleEndian [\<lparr> attr_Type = tcaNetemRate64, attr_Data = [2, 0, 0, 0, 0, 0, 0, 0] \<rparr>]
         (zeroNetem\<lparr>Ecn := Some 1\<rparr>\<lparr>Rate := Some zeroNetemRate\<rparr>)
   \<and> unmarshalNetemAttrs LittleEndian [\<lparr> attr_Type = tcaNetemRate64, attr_Data = [2, 0, 0, 0, 0, 0, 0, 0] \<rparr>]
         (zeroNetem\<lparr>Ecn := Some 1\<rparr>\<lparr>Rate := Some zeroNetemRate\<rparr>)
     = (None, zeroNetem\<lparr>Ecn := Some 1\<rparr>\<lparr>Rate := Some zeroNetemRate\<rparr>\<lparr>Rate64 := Some 2\<rparr>)
   \<and> attr_Type \<lparr> attr_Type = tcaNetemLatency64, attr_Data = [1, 2, 3] \<rparr> = tcaNetemLatency64
   \<and> fst (unmarshalNetlinkAttribute LittleEndian (attr_Data \<lparr> attr_Type = tcaNetemLatency64, attr_Data = [1, 2, 3] \<rparr>) 0) \<noteq> None
   \<and> unmarshalNetemAttrs LittleEndian
        ([\<lparr> attr_Type = tcaNetemEcn, attr_Data = [1, 0, 0, 0] \<rparr>]
          @ \<lparr> attr_Type = tcaNetemLatency64, attr_Data = [1, 2, 3] \<rparr>
          # [\<lparr> attr_Type = tcaNetemRate64, attr_Data = [2, 0, 0, 0, 0, 0, 0, 0] \<rparr>]) zeroNetem
     = unmarshalNetemAttrs LittleEndian [\<lparr> attr_Type = tcaNetemRate64, attr_Data = [2, 0, 0, 0, 0, 0, 0, 0] \<rparr>]
         (zeroNetem\<lparr>Ecn := Some 1\<rparr>\<lparr>Latency64 := Some 0\<rparr>)
   \<and> unmarshalNetemAttrs LittleEndian [\<lparr> attr_Type = tcaNetemRate64, attr_Data = [2, 0, 0, 0, 0, 0, 0, 0] \<rparr>]
         (zeroNetem\<lparr>Ecn := Some 1\<rparr>\<lparr>Latency64 := Some 0\<rparr>)
     = (None, zeroNetem\<lparr>Ecn := Some 1\<rparr>\<lparr>Latency64 := Some 0\<rparr>\<lparr>Rate64 := Some 2\<rparr>)
   \<and> attr_Type \<lparr> attr_Type = tcaNetemJitter64, attr_Data = [1, 2, 3] \<rparr> = tcaNetemJitter64
   \<and> fst (unmarshalNetlinkAttribute LittleEndian (attr_Data \<lparr> attr_Type = tcaNetemJitter64, attr_Data = [1, 2, 3] \<rparr>) 0) \<noteq> None
   \<and> unmarshalNetemAttrs LittleEndian
        ([\<lparr> attr_Type = tcaNetemEcn, attr_Data = [1, 0, 0, 0] \<rparr>]
          @ \<lparr> attr_Type = tcaNetemJitter64, attr_Data = [1, 2, 3] \<rparr>
          # [\<lparr> attr_Type = tcaNetemRate64, attr_Data = [2, 0, 0, 0, 0, 0, 0, 0] \<rparr>]) zeroNetem
     = unmarshalNetemAttrs LittleEndian [\<lparr> attr_Type = tcaNetemRate64, attr_Data = [2, 0, 0, 0, 0, 0, 0, 0] \<rparr>]
         (zeroNetem\<lparr>Ecn := Some 1\<rparr>\<lparr>Jitter64 := Some 0\<rparr>)
   \<and> unmarshalNetemAttrs LittleEndian [\<lparr> attr_Type = tcaNetemRate64, attr_Data = [2, 0, 0, 0, 0, 0, 0, 0] \<rparr>]
         (zeroNetem\<lparr>Ecn := Some 1\<rparr>\<lparr>Jitter64 := Some 0\<rparr>)
     = (None, zeroNetem\<lparr>Ecn := Some 1\<rparr>\<lparr>Jitter64 := Some 0\<rparr>\<lparr>Rate64 := Some 2\<rparr>)
   \<and> attr_Type \<lparr> attr_Type = tcaNetemSlot, attr_Data = [1, 2, 3] \<rparr> = tcaNetemSlot
   \<and> fst (unmarshalStruct NetemSlotLayout LittleEndian (attr_Data \<lparr> attr_Type = tcaNetemSlot, attr_Data = [1, 2, 3] \<rparr>) zeroNetemSlot) \<noteq> None
   \<and> unmarshalNetemAttrs LittleEndian
        ([\<lparr> attr_Type = tcaNetemEcn, attr_Data = [1, 0, 0, 0] \<rparr>]
          @ \<lparr> attr_Type = tcaNetemSlot, attr_Data = [1, 2, 3] \<rparr>
          # [\<lparr> attr_Type = tcaNetemRate64, attr_Data = [2, 0, 0, 0, 0, 0, 0, 0] \<rparr>]) zeroNetem
     = unmarshalNetemAttrs LittleEndian [\<lparr> attr_Type = tcaNetemRate64, attr_Data = [2, 0, 0, 0, 0, 0, 0, 0] \<rparr>]
         (zeroNetem\<lparr>Ecn := Some 1\<rparr>\<lparr>Slot := Some zeroNetemSlot\<rparr>)
   \<and> unmarshalNetemAttrs LittleEndian [\<lparr> attr_Type = tcaNetemRate64, attr_Data = [2, 0, 0, 0, 0, 0, 0, 0] \<rparr>]
         (zeroNetem\<lparr>Ecn := Some 1\<rparr>\<lparr>Slot := Some zeroNetemSlot\<rparr>)
     = (None, zeroNetem\<lparr>Ecn := Some 1\<rparr>\<lparr>Slot := Some zeroNetemSlot\<rparr>\<lparr>Rate64 := Some 2\<rparr>)"
proof -
  let ?upre = "[\<lparr> attr_Type = tcaU32ClassID, attr_Data = [7, 0, 0, 0] \<rparr>]"
  let ?upost = "[\<lparr> attr_Type = tcaU32Flags, attr_Data = [5, 0, 0, 0] \<rparr>]"
  let ?sel = "\<lparr> attr_Type = tcaU32Sel, attr_Data = [1, 2, 3] \<rparr>"
  let ?mark = "\<lparr> attr_Type = tcaU32Mark, attr_Data = [1, 2, 3] \<rparr>"
  let ?pre = "[\<lparr> attr_Type = tcaNetemEcn, attr_Data = [1, 0, 0, 0] \<rparr>]"
  let ?post = "[\<lparr> attr_Type = tcaNetemRate64, attr_Data = [2, 0, 0, 0, 0, 0, 0, 0] \<rparr>]"
  note inst = failed_payload_u32_stops_netem_goes_on [where bo = LittleEndian and dg = noDelegates
      and upre = "?upre" and upost = "?upost" and uinfo = zeroU32
      and ureached = "zeroU32\<lparr>ClassID := 7\<rparr>"
      and pre = "?pre" and post = "?post" and info = zeroNetem
      and reached = "zeroNetem\<lparr>Ecn := Some 1\<rparr>"]
  have ur: "forNext (u32Case LittleEndian noDelegates) ?upre zeroU32 = Continue (zeroU32\<lparr>ClassID := 7\<rparr>)"
    by code_simp
  have sel_t: "attr_Type ?sel = tcaU32Sel" by simp
  have sel_f: "fst (extractU32Sel LittleEndian (attr_Data ?sel) zeroU32Sel) = Some ErrNotEnoughBytesU32Sel"
    by code_simp
  have sel_c: "unmarshalU32Attrs LittleEndian noDelegates (?upre @ ?sel # ?upost) zeroU32
      = (Some ErrNotEnoughBytesU32Sel, zeroU32\<lparr>ClassID := 7\<rparr>)"
    using inst [where ua = "?sel" and err = ErrNotEnoughBytesU32Sel] ur sel_t sel_f by blast
  have mark_t: "attr_Type ?mark = tcaU32Mark" by simp
  have mark_f: "fst (unmarshalStruct U32MarkLayout LittleEndian (attr_Data ?mark) zeroU32Mark)
      = Some ErrSizeMismatch"
    by code_simp
  have mark_c: "unmarshalU32Attrs LittleEndian noDelegates (?upre @ ?mark # ?upost) zeroU32
      = (Some ErrSizeMismatch, zeroU32\<lparr>ClassID := 7\<rparr>)"
    using inst [where ua = "?mark" and err = ErrSizeMismatch] ur mark_t mark_f by blast
  have nr: "forNext (netemCase LittleEndian None) ?pre zeroNetem = Continue (zeroNetem\<lparr>Ecn := Some 1\<rparr>)"
    by code_simp
  let ?corr = "\<lparr> attr_Type = tcaNetemCorr, attr_Data = [1, 2, 3] \<rparr>"
  have corr_t: "attr_Type ?corr = tcaNetemCorr" by simp
  have corr_f: "fst (unmarshalStruct NetemCorrLayout LittleEndian (attr_Data ?corr) zeroNetemCorr) \<noteq> None"
    by code_simp
  have corr_c: "unmarshalNetemAttrs LittleEndian (?pre @ ?corr # ?post) zeroNetem
      = unmarshalNetemAttrs LittleEndian ?post (zeroNetem\<lparr>Ecn := Some 1\<rparr>\<lparr>Corr := Some zeroNetemCorr\<rparr>)"
    using inst [where a = "?corr"] nr corr_t corr_f by blast
  have corr_v: "unmarshalNetemAttrs LittleEndian ?post (zeroNetem\<lparr>Ecn := Some 1\<rparr>\<lparr>Corr := Some zeroNetemCorr\<rparr>)
      = (None, zeroNetem\<lparr>Ecn := Some 1\<rparr>\<lparr>Corr := Some zeroNetemCorr\<rparr>\<lparr>Rate64 := Some 2\<rparr>)"
    by code_simp
  let ?reorder = "\<lparr> attr_Type = tcaNetemReorder, attr_Data = [1, 2, 3] \<rparr>"
  have reorder_t: "attr_Type ?reorder = tcaNetemReorder" by simp
  have reorder_f: "fst (unmarshalStruct NetemReorderLayout LittleEndian (attr_Data ?reorder) zeroNetemReorder) \<noteq> None"
    by code_simp
  have reorder_c: "unmarshalNetemAttrs LittleEndian (?pre @ ?reorder # ?post) zeroNetem
      = unmarshalNetemAttrs LittleEndian ?post (zeroNetem\<lparr>Ecn := Some 1\<rparr>\<lparr>Reorder := Some zeroNetemReorder\<rparr>)"
    using inst [where a = "?reorder"] nr reorder_t reorder_f by blast
  have reorder_v: "unmarshalNetemAttrs LittleEndian ?post (zeroNetem\<lparr>Ecn := Some 1\<rparr>\<lparr>Reorder := Some zeroNetemReorder\<rparr>)
      = (None, zeroNetem\<lparr>Ecn := Some 1\<rparr>\<lparr>Reorder := Some zeroNetemReorder\<rparr>\<lparr>Rate64 := Some 2\<rparr>)"
    by code_simp
  let ?corrupt = "\<lparr> attr_Type = tcaNetemCorrupt, attr_Data = [1, 2, 3] \<rparr>"
  have corrupt_t: "attr_Type ?corrupt = tcaNetemCorrupt" by simp
  have corrupt_f: "fst (unmarshalStruct NetemCorruptLayout LittleEndian (attr_Data ?corrupt) zeroNetemCorrupt) \<noteq> None"
    by code_simp
  have corrupt_c: "unmarshalNetemAttrs LittleEndian (?pre @ ?corrupt # ?post) zeroNetem
      = unmarshalNetemAttrs LittleEndian ?post (zeroNetem\<lparr>Ecn := Some 1\<rparr>\<lparr>Corrupt := Some zeroNetemCorrupt\<rparr>)"
    using inst [where a = "?corrupt"] nr corrupt_t corrupt_f by blast
  have corrupt_v: "unmarshalNetemAttrs LittleEndian ?post (zeroNetem\<lparr>Ecn := Some 1\<rparr>\<lparr>Corrupt := Some zeroNetemCorrupt\<rparr>)
      = (None, zeroNetem\<lparr>Ecn := Some 1\<rparr>\<lparr>Corrupt := Some zeroNetemCorrupt\<rparr>\<lparr>Rate64 := Some 2\<rparr>)"
    by code_simp
  let ?rate = "\<lparr> attr_Type = tcaNetemRate, attr_Data = [1, 2, 3] \<rparr>"
  have rate_t: "attr_Type ?rate = tcaNetemRate" by simp
  have rate_f: "fst (unmarshalStruct NetemRateLayout LittleEndian (attr_Data ?rate) zeroNetemRate) \<noteq> None"
    by code_simp
  have rate_c: "unmarshalNetemAttrs LittleEndian (?pre @ ?rate # ?post) zeroNetem
      = unmarshalNetemAttrs LittleEndian ?post (zeroNetem\<lparr>Ecn := Some 1\<rparr>\<lparr>Rate := Some zeroNetemRate\<rparr>)"
    using inst [where a = "?rate"] nr rate_t rate_f by blast
  have rate_v: "unmarshalNetemAttrs LittleEndian ?post (zeroNetem\<lparr>Ecn := Some 1\<rparr>\<lparr>Rate := Some zeroNetemRate\<rparr>)
      = (None, zeroNetem\<lparr>Ecn := Some 1\<rparr>\<lparr>Rate := Some zeroNetemRate\<rparr>\<lparr>Rate64 := Some 2\<rparr>)"
    by code_simp
  let ?latency64 = "\<lparr> attr_Type = tcaNetemLatency64, attr_Data = [1, 2, 3] \<rparr>"
  have latency64_t: "attr_Type ?latency64 = tcaNetemLatency64" by simp
  have latency64_f: "fst (unmarshalNetlinkAttribute LittleEndian (attr_Data ?latency64) 0) \<noteq> None"
    by code_simp
  have latency64_c: "unmarshalNetemAttrs LittleEndian (?pre @ ?latency64 # ?post) zeroNetem
      = unmarshalNetemAttrs LittleEndian ?post (zeroNetem\<lparr>Ecn := Some 1\<rparr>\<lparr>Latency64 := Some 0\<rparr>)"
    using inst [where a = "?latency64"] nr latency64_t latency64_f by blast
  have latency64_v: "unmarshalNetemAttrs LittleEndian ?post (zeroNetem\<lparr>Ecn := Some 1\<rparr>\<lparr>Latency64 := Some 0\<rparr>)
      = (None, zeroNetem\<lparr>Ecn := Some 1\<rparr>\<lparr>Latency64 := Some 0\<rparr>\<lparr>Rate64 := Some 2\<rparr>)"
    by code_simp
  let ?jitter64 = "\<lparr> attr_Type = tcaNetemJitter64, attr_Data = [1, 2, 3] \<rparr>"
  have jitter64_t: "attr_Type ?jitter64 = tcaNetemJitter64" by simp
  have jitter64_f: "fst (unmarshalNetlinkAttribute LittleEndian (attr_Data ?jitter64) 0) \<noteq> None"
    by code_simp
  have jitter64_c: "unmarshalNetemAttrs LittleEndian (?pre @ ?jitter64 # ?post) zeroNetem
      = unmarshalNetemAttrs LittleEndian ?post (zeroNetem\<lparr>Ecn := Some 1\<rparr>\<lparr>Jitter64 := Some 0\<rparr>)"
    using inst [where a = "?jitter64"] nr jitter64_t jitter64_f by blast
  have jitter64_v: "unmarshalNetemAttrs LittleEndian ?post (zeroNetem\<lparr>Ecn := Some 1\<rparr>\<lparr>Jitter64 := Some 0\<rparr>)
      = (None, zeroNetem\<lparr>Ecn := Some 1\<rparr>\<lparr>Jitter64 := Some 0\<rparr>\<lparr>Rate64 := Some 2\<rparr>)"
    by code_simp
  let ?slot = "\<lparr> attr_Type = tcaNetemSlot, attr_Data = [1, 2, 3] \<rparr>"
  have slot_t: "attr_Type ?slot = tcaNetemSlot" by simp
  have slot_f: "fst (unmarshalStruct NetemSlotLayout LittleEndian (attr_Data ?slot) zeroNetemSlot) \<noteq> None"
    by code_simp
  have slot_c: "unmarshalNetemAttrs LittleEndian (?pre @ ?slot # ?post) zeroNetem
      = unmarshalNetemAttrs LittleEndian ?post (zeroNetem\<lparr>Ecn := Some 1\<rparr>\<lparr>Slot := Some zeroNetemSlot\<rparr>)"
    using inst [where a = "?slot"] nr slot_t slot_f by blast
  have slot_v: "unmarshalNetemAttrs LittleEndian ?post (zeroNetem\<lparr>Ecn := Some 1\<rparr>\<lparr>Slot := Some zeroNetemSlot\<rparr>)
      = (None, zeroNetem\<lparr>Ecn := Some 1\<rparr>\<lparr>Slot := Some zeroNetemSlot\<rparr>\<lparr>Rate64 := Some 2\<rparr>)"
    by code_simp
  show ?thesis
    by (intro conjI)
      (rule ur
        sel_t
        sel_f
        sel_c
        mark_t
        mark_f
        mark_c
        nr
        corr_t
        corr_f
        corr_c
        corr_v
        reorder_t
        reorder_f
        reorder_c
        reorder_v
        corrupt_t
        corrupt_f
        corrupt_c
        corrupt_v
        rate_t
        rate_f
        rate_c
        rate_v
        latency64_t
        latency64_f
        latency64_c
        latency64_v
        jitter64_t
        jitter64_f
        jitter64_c
        jitter64_v
        slot_t
        slot_f
        slot_c
        slot_v)+
qed

subsection \<open>C2: the u32 payload\<close>

text \<open>
  C2 fails on the code. \<open>unmarshalU32\<close> has a \<open>case\<close> for \<open>Hash\<close>, \<open>Link\<close>, \<open>Divisor\<close>, \<open>InDev\<close>
  and \<open>Pcnt\<close> -- it sets \<open>Hash\<close> from a \<open>tcaU32Hash\<close> record -- but \<open>marshalU32\<close> writes
  none of these five fields: for a payload that has only these fields set it returns no
  bytes and no error, and \<open>unmarshalU32\<close> of no bytes leaves the zero payload, which
  differs from a payload with \<open>Hash = 1\<close>.
\<close>

theorem u32_unmarshalled_fields_not_marshalled:
  "marshalU32 bo dg (Some (zeroU32\<lparr>Hash := h, Link := l, Divisor := d, InDev := dev, Pcnt := c\<rparr>))
     = ([], None)
   \<and> unmarshalU32 bo dg
        (fst (marshalU32 bo dg (Some (zeroU32\<lparr>Hash := h, Link := l, Divisor := d, InDev := dev, Pcnt := c\<rparr>))))
        zeroU32
     = (None, zeroU32)
   \<and> (zeroU32\<lparr>Hash := 1\<rparr> :: ('p, 'a) U32) \<noteq> zeroU32
   \<and> unmarshalU32Attrs bo dg [\<lparr> attr_Type = tcaU32Hash, attr_Data = putUint32 bo h \<rparr>] zeroU32
     = (None, zeroU32\<lparr>Hash := h\<rparr>)"
proof -
  have m: "marshalU32 bo dg (Some (zeroU32\<lparr>Hash := h, Link := l, Divisor := d, InDev := dev, Pcnt := c\<rparr>))
     = ([], None)"
    by (simp add: marshalU32_def zeroU32_def)
  have u: "unmarshalU32 bo dg [] zeroU32 = (None, zeroU32)"
    by (simp add: unmarshalU32_def NewAttributeDecoder_Nil unmarshalU32Attrs_def)
  have "Hash (zeroU32\<lparr>Hash := 1\<rparr> :: ('p, 'a) U32) \<noteq> Hash (zeroU32 :: ('p, 'a) U32)"
    by (simp add: zeroU32_def)
  then have ne: "(zeroU32\<lparr>Hash := 1\<rparr> :: ('p, 'a) U32) \<noteq> zeroU32" by metis
  have r: "unmarshalU32Attrs bo dg [\<lparr> attr_Type = tcaU32Hash, attr_Data = putUint32 bo h \<rparr>] zeroU32
     = (None, zeroU32\<lparr>Hash := h\<rparr>)"
    by (simp add: unmarshalU32Attrs_def u32Case_def tcaU32_defs ad_Type_def ad_Uint32_def
        afterAccessor_def length_putUint32 Uint32_putUint32)
  show ?thesis using m u ne r by simp
qed

subsection \<open>C3: the options block at the head of a netem buffer\<close>




subsection \<open>C4: bounds of the selector parser\<close>

text \<open>
  C4. For every byte buffer given to \<open>extractU32Sel\<close>: a buffer shorter than the 15-byte
  header fails with the error of the short header and leaves the selector untouched; a
  buffer of at least 15 bytes but shorter than \<open>15 + 16 * NKeys\<close>, with \<open>NKeys\<close> read from
  byte 2, fails with the different error of the short key array; otherwise the function
  succeeds with the header fields read from the first 15 bytes and exactly \<open>NKeys\<close> keys
  appended, the i-th read from the 16 bytes at offset \<open>15 + 16 * i\<close>. In no case does an
  index or slice expression leave the buffer.
\<close>

theorem extractU32Sel_bounds:
  "(length data < 15 \<longrightarrow> extractU32Sel bo data info = (Some ErrNotEnoughBytesU32Sel, info))
    \<and> (15 \<le> length data \<and> length data < 15 + 16 * unat (data ! 2) \<longrightarrow>
         fst (extractU32Sel bo data info) = Some ErrNotEnoughBytesU32Keys)
    \<and> (15 \<le> length data \<and> 15 + 16 * unat (data ! 2) \<le> length data \<longrightarrow>
         extractU32Sel bo data info =
           (None, info\<lparr> sel_Flags := data ! 0, sel_Offshift := data ! 1, sel_NKeys := data ! 2,
              sel_OffMask := Uint16 bo (bytesAt data 3 2), sel_Off := Uint16 bo (bytesAt data 5 2),
              sel_Offoff := Uint16 bo (bytesAt data 7 2), sel_Hoff := Uint16 bo (bytesAt data 9 2),
              sel_Hmask := Uint32 bo (bytesAt data 11 4),
              sel_Keys := sel_Keys info
                @ map (\<lambda>i. unpack U32KeyLayout bo (bytesAt data (15 + i * 16) 16))
                    [0..<unat (data ! 2)]\<rparr>))
    \<and> fst (extractU32Sel bo data info) \<noteq> Some PanicOutOfRange"
proof -
  have c4: "fst (extractU32Sel bo data info) \<noteq> Some PanicOutOfRange"
  proof (cases "length data < 15")
    case True
    then show ?thesis by (simp add: extractU32Sel_short_header)
  next
    case False
    then show ?thesis
      using extractU32Sel_short_keys [of data bo info] extractU32Sel_ok [of data bo info]
      by (cases "length data < 15 + 16 * unat (data ! 2)") auto
  qed
  show ?thesis
    using extractU32Sel_short_header [of data bo info] extractU32Sel_short_keys [of data bo info]
      extractU32Sel_ok [of data bo info] c4
    by blast
qed

text \<open>The three cases at concrete buffers: an empty buffer; a header that announces one
  key and no key after it; the same header followed by the sixteen bytes of one key.\<close>

theorem extractU32Sel_bounds_witness:
  "length ([] :: byte list) < 15
   \<and> extractU32Sel LittleEndian [] zeroU32Sel = (Some ErrNotEnoughBytesU32Sel, zeroU32Sel)
   \<and> 15 \<le> length [0, 0, 1, 0, 0, 0, 0, 0, 0, 0, 0, 0, 0, 0, 0 :: byte]
   \<and> length [0, 0, 1, 0, 0, 0, 0, 0, 0, 0, 0, 0, 0, 0, 0 :: byte]
       < 15 + 16 * unat ([0, 0, 1, 0, 0, 0, 0, 0, 0, 0, 0, 0, 0, 0, 0 :: byte] ! 2)
   \<and> fst (extractU32Sel LittleEndian [0, 0, 1, 0, 0, 0, 0, 0, 0, 0, 0, 0, 0, 0, 0] zeroU32Sel)
       = Some ErrNotEnoughBytesU32Keys
   \<and> 15 + 16 * unat ([0, 0, 1, 0, 0, 0, 0, 0, 0, 0, 0, 0, 0, 0, 0,
         255, 255, 255, 255, 10, 0, 0, 0, 0, 0, 0, 0, 0, 0, 0, 0 :: byte] ! 2)
       \<le> length [0, 0, 1, 0, 0, 0, 0, 0, 0, 0, 0, 0, 0, 0, 0,
         255, 255, 255, 255, 10, 0, 0, 0, 0, 0, 0, 0, 0, 0, 0, 0 :: byte]
   \<and> extractU32Sel LittleEndian [0, 0, 1, 0, 0, 0, 0, 0, 0, 0, 0, 0, 0, 0, 0,
         255, 255, 255, 255, 10, 0, 0, 0, 0, 0, 0, 0, 0, 0, 0, 0] zeroU32Sel
       = (None, zeroU32Sel\<lparr>sel_NKeys := 1,
            sel_Keys := [\<lparr> key_Mask = 0xFFFFFFFF, key_Val = 10, key_Off = 0, key_OffMask = 0 \<rparr>]\<rparr>)
   \<and> fst (extractU32Sel LittleEndian [0, 0, 1, 0, 0, 0, 0, 0, 0, 0, 0, 0, 0, 0, 0,
         255, 255, 255, 255, 10, 0, 0, 0, 0, 0, 0, 0, 0, 0, 0, 0] zeroU32Sel) \<noteq> Some PanicOutOfRange"
proof -
  let ?short = "[0, 0, 1, 0, 0, 0, 0, 0, 0, 0, 0, 0, 0, 0, 0 :: byte]"
  let ?full = "[0, 0, 1, 0, 0, 0, 0, 0, 0, 0, 0, 0, 0, 0, 0,
         255, 255, 255, 255, 10, 0, 0, 0, 0, 0, 0, 0, 0, 0, 0, 0 :: byte]"
  have h1: "length ([] :: byte list) < 15" by simp
  have h2: "15 \<le> length ?short \<and> length ?short < 15 + 16 * unat (?short ! 2)" by simp
  have h3: "15 \<le> length ?full \<and> 15 + 16 * unat (?full ! 2) \<le> length ?full" by simp
  have c1: "extractU32Sel LittleEndian [] zeroU32Sel = (Some ErrNotEnoughBytesU32Sel, zeroU32Sel)"
    using extractU32Sel_bounds [of "[]" LittleEndian zeroU32Sel] h1 by blast
  have c2: "fst (extractU32Sel LittleEndian ?short zeroU32Sel) = Some ErrNotEnoughBytesU32Keys"
    using extractU32Sel_bounds [of ?short LittleEndian zeroU32Sel] h2 by blast
  have c3: "fst (extractU32Sel LittleEndian ?full zeroU32Sel) \<noteq> Some PanicOutOfRange"
    using extractU32Sel_bounds [of ?full LittleEndian zeroU32Sel] by blast
  let ?read = "zeroU32Sel\<lparr> sel_Flags := ?full ! 0, sel_Offshift := ?full ! 1, sel_NKeys := ?full ! 2,
      sel_OffMask := Uint16 LittleEndian (bytesAt ?full 3 2),
      sel_Off := Uint16 LittleEndian (bytesAt ?full 5 2),
      sel_Offoff := Uint16 LittleEndian (bytesAt ?full 7 2),
      sel_Hoff := Uint16 LittleEndian (bytesAt ?full 9 2),
      sel_Hmask := Uint32 LittleEndian (bytesAt ?full 11 4),
      sel_Keys := sel_Keys zeroU32Sel
        @ map (\<lambda>i. unpack U32KeyLayout LittleEndian (bytesAt ?full (15 + i * 16) 16))
            [0..<unat (?full ! 2)]\<rparr>"
  have c4a: "extractU32Sel LittleEndian ?full zeroU32Sel = (None, ?read)"
    using extractU32Sel_bounds [of ?full LittleEndian zeroU32Sel] h3 by blast
  have c4b: "?read = zeroU32Sel\<lparr>sel_NKeys := 1,
      sel_Keys := [\<lparr> key_Mask = 0xFFFFFFFF, key_Val = 10, key_Off = 0, key_OffMask = 0 \<rparr>]\<rparr>"
    by code_simp
  have c4: "extractU32Sel LittleEndian ?full zeroU32Sel
       = (None, zeroU32Sel\<lparr>sel_NKeys := 1,
            sel_Keys := [\<lparr> key_Mask = 0xFFFFFFFF, key_Val = 10, key_Off = 0, key_OffMask = 0 \<rparr>]\<rparr>)"
    unfolding c4a c4b by (rule refl)
  show ?thesis using h1 h2 h3 c1 c2 c3 c4 by blast
qed

subsection \<open>C5: the netem scenario with rate64\<close>

text \<open>
  C5. For the payload with Qopt \<open>{latency:42, limit:0, loss:0, gap:0, duplicate:0, jitter:7}\<close>,
  \<open>Rate64 = 1000000\<close> and every other optional field absent, \<open>marshalNetem\<close> returns no
  error, and \<open>unmarshalNetem\<close> of the bytes it returns, into a fresh object, returns no
  error and gives the same payload: the same Qopt, \<open>Rate64 = 1000000\<close>, and \<open>Corr\<close>,
  \<open>Reorder\<close>, \<open>Corrupt\<close>, \<open>Rate\<close>, \<open>Slot\<close> (and \<open>Ecn\<close>, \<open>Latency64\<close>, \<open>Jitter64\<close>) absent.
\<close>

theorem netem_rate64_scenario_roundtrip:
  "snd (marshalNetem bo (Some \<lparr> Qopt = \<lparr> qopt_Latency = 42, qopt_Limit = 0, qopt_Loss = 0,
         qopt_Gap = 0, qopt_Duplicate = 0, qopt_Jitter = 7 \<rparr>,
       Corr = None, Reorder = None, Corrupt = None, Rate = None,
       Ecn = None, Rate64 = Some 1000000, Latency64 = None, Jitter64 = None, Slot = None \<rparr>)) = None
   \<and> length (fst (marshalNetem bo (Some \<lparr> Qopt = \<lparr> qopt_Latency = 42, qopt_Limit = 0, qopt_Loss = 0,
         qopt_Gap = 0, qopt_Duplicate = 0, qopt_Jitter = 7 \<rparr>,
       Corr = None, Reorder = None, Corrupt = None, Rate = None,
       Ecn = None, Rate64 = Some 1000000, Latency64 = None, Jitter64 = None, Slot = None \<rparr>))) = 36
   \<and> unmarshalNetem bo (fst (marshalNetem bo (Some \<lparr> Qopt = \<lparr> qopt_Latency = 42, qopt_Limit = 0,
         qopt_Loss = 0, qopt_Gap = 0, qopt_Duplicate = 0, qopt_Jitter = 7 \<rparr>,
       Corr = None, Reorder = None, Corrupt = None, Rate = None,
       Ecn = None, Rate64 = Some 1000000, Latency64 = None, Jitter64 = None, Slot = None \<rparr>))) zeroNetem
     = (None, \<lparr> Qopt = \<lparr> qopt_Latency = 42, qopt_Limit = 0, qopt_Loss = 0, qopt_Gap = 0,
         qopt_Duplicate = 0, qopt_Jitter = 7 \<rparr>,
       Corr = None, Reorder = None, Corrupt = None, Rate = None,
       Ecn = None, Rate64 = Some 1000000, Latency64 = None, Jitter64 = None, Slot = None \<rparr>)"
proof -
  let ?q = "\<lparr> qopt_Latency = 42, qopt_Limit = 0, qopt_Loss = 0, qopt_Gap = 0,
         qopt_Duplicate = 0, qopt_Jitter = 7 \<rparr>"
  let ?a = "\<lparr> attr_Type = tcaNetemRate64, attr_Data = putUint64 bo 1000000 \<rparr>"
  let ?b = "pack NetemQoptLayout bo ?q @ marshalAttribute bo ?a"
  have len: "length ?b = 36"
    by (simp add: length_pack_NetemQopt length_marshalAttribute length_putUint64 nlaAlign_def)
  have d: "NewAttributeDecoder bo (marshalAttribute bo ?a) = Inr [?a]"
    using NewAttributeDecoder_marshalAttribute [of ?a bo "[]"]
    by (simp add: length_putUint64 NewAttributeDecoder_Nil)
  have l: "unmarshalNetemAttrs bo [?a] (zeroNetem\<lparr>Qopt := ?q\<rparr>)
      = (None, \<lparr> Qopt = ?q, Corr = None, Reorder = None, Corrupt = None, Rate = None,
           Ecn = None, Rate64 = Some 1000000, Latency64 = None, Jitter64 = None, Slot = None \<rparr>)"
    by (simp add: unmarshalNetemAttrs_def netemCase_def tcaNetem_defs ad_Type_def ad_Uint64_def
        afterAccessor_def length_putUint64 Uint64_putUint64 zeroNetem_def)
  have u: "unmarshalNetem bo ?b zeroNetem
      = (None, \<lparr> Qopt = ?q, Corr = None, Reorder = None, Corrupt = None, Rate = None,
           Ecn = None, Rate64 = Some 1000000, Latency64 = None, Jitter64 = None, Slot = None \<rparr>)"
    by (simp add: unmarshalNetem_header [OF length_pack_NetemQopt] d unpack_pack_NetemQopt l)
  show ?thesis
    unfolding marshalNetem_rate64 fst_conv snd_conv using len u by simp
qed

subsection \<open>C6: unknown attribute types\<close>

text \<open>
  C6 as stated fails: it promises the unknown-attribute-type error for every stream that
  contains a record of unknown type. In the u32 stream made of a \<open>Sel\<close> record with an
  empty payload followed by a record of type 99, \<open>unmarshalU32\<close> returns at the \<open>Sel\<close>
  record with the error of the short selector header and never looks at the record of
  type 99.
\<close>

theorem u32_sel_error_precedes_unknown_type:
  "NewAttributeDecoder LittleEndian [4, 0, 5, 0, 4, 0, 99, 0]
     = Inr [\<lparr> attr_Type = tcaU32Sel, attr_Data = [] \<rparr>, \<lparr> attr_Type = 99, attr_Data = [] \<rparr>]
   \<and> 99 \<notin> u32Handled \<and> 99 \<noteq> tcaU32Pad
   \<and> unmarshalU32 LittleEndian noDelegates [4, 0, 5, 0, 4, 0, 99, 0] zeroU32
     = (Some ErrNotEnoughBytesU32Sel, zeroU32)
   \<and> fst (unmarshalU32 LittleEndian noDelegates [4, 0, 5, 0, 4, 0, 99, 0] zeroU32)
     \<noteq> Some (ErrUnknownAttr ''unmarshalU32()'' 99 [])"
  by code_simp

text \<open>
  C6, amended. For every netem or u32 attribute stream in which the loop reaches a record
  whose type code -- the type field of the record without its two flag bits, which is
  what the \<open>switch\<close> reads -- has no \<open>case\<close> of its own and is not the pad marker (every
  record before it has been decoded and the loop has gone on), the unmarshal function
  returns the unknown-attribute-type error that carries that record's type code and
  payload; the records after it are not decoded and the object is as the records before
  it left it. This is stated for the two loops on the decoded records, and for
  \<open>unmarshalU32\<close> and \<open>unmarshalNetem\<close> on the bytes: for \<open>unmarshalNetem\<close> the records are
  those of the bytes after the first 24, and the loop starts on the object that holds
  the options block of the first 24 bytes.
\<close>

theorem unknown_type_reached_is_error:
  "(ad_Type na \<notin> netemHandled \<and> ad_Type na \<noteq> tcaNetemPad
      \<and> forNext (netemCase bo None) npre ninfo = Continue nreached \<longrightarrow>
      unmarshalNetemAttrs bo (npre @ na # npost) ninfo
        = (Some (ErrUnknownAttr ''unmarshalNetem()'' (ad_Type na) (attr_Data na)), nreached))
   \<and> (ad_Type ua \<notin> u32Handled \<and> ad_Type ua \<noteq> tcaU32Pad
      \<and> forNext (u32Case bo dg) upre uinfo = Continue ureached \<longrightarrow>
      unmarshalU32Attrs bo dg (upre @ ua # upost) uinfo
        = (Some (ErrUnknownAttr ''unmarshalU32()'' (ad_Type ua) (attr_Data ua)), ureached))
   \<and> (ad_Type ba \<notin> u32Handled \<and> ad_Type ba \<noteq> tcaU32Pad
      \<and> NewAttributeDecoder bo data = Inr (bpre @ ba # bpost)
      \<and> forNext (u32Case bo dg) bpre binfo = Continue breached \<longrightarrow>
      unmarshalU32 bo dg data binfo
        = (Some (ErrUnknownAttr ''unmarshalU32()'' (ad_Type ba) (attr_Data ba)), breached))
   \<and> (ad_Type da \<notin> netemHandled \<and> ad_Type da \<noteq> tcaNetemPad
      \<and> 24 \<le> length ndata
      \<and> NewAttributeDecoder bo (drop 24 ndata) = Inr (dpre @ da # dpost)
      \<and> forNext (netemCase bo None) dpre
           (dinfo\<lparr>Qopt := unpack NetemQoptLayout bo (take 24 ndata)\<rparr>) = Continue dreached \<longrightarrow>
      unmarshalNetem bo ndata dinfo
        = (Some (ErrUnknownAttr ''unmarshalNetem()'' (ad_Type da) (attr_Data da)), dreached))"
proof -
  have n: "unmarshalNetemAttrs bo (pre @ a # post) info
        = (Some (ErrUnknownAttr ''unmarshalNetem()'' (ad_Type a) (attr_Data a)), reached)"
    if "ad_Type a \<notin> netemHandled" and "ad_Type a \<noteq> tcaNetemPad"
      and "forNext (netemCase bo None) pre info = Continue reached"
    for pre a post info reached
    using that by (simp add: unmarshalNetemAttrs_def forNext_reach netemCase_unknown)
  have u: "unmarshalU32Attrs bo dg (pre @ a # post) info
        = (Some (ErrUnknownAttr ''unmarshalU32()'' (ad_Type a) (attr_Data a)), reached)"
    if "ad_Type a \<notin> u32Handled" and "ad_Type a \<noteq> tcaU32Pad"
      and "forNext (u32Case bo dg) pre info = Continue reached"
    for pre a post info reached
    using that by (simp add: unmarshalU32Attrs_def forNext_reach u32Case_unknown)
  have b: "unmarshalU32 bo dg data binfo
        = (Some (ErrUnknownAttr ''unmarshalU32()'' (ad_Type ba) (attr_Data ba)), breached)"
    if "ad_Type ba \<notin> u32Handled" and "ad_Type ba \<noteq> tcaU32Pad"
      and "NewAttributeDecoder bo data = Inr (bpre @ ba # bpost)"
      and "forNext (u32Case bo dg) bpre binfo = Continue breached"
    using that by (simp add: unmarshalU32_def u)
  have d: "unmarshalNetem bo ndata dinfo
        = (Some (ErrUnknownAttr ''unmarshalNetem()'' (ad_Type da) (attr_Data da)), dreached)"
    if "ad_Type da \<notin> netemHandled" and "ad_Type da \<noteq> tcaNetemPad"
      and len: "24 \<le> length ndata"
      and "NewAttributeDecoder bo (drop 24 ndata) = Inr (dpre @ da # dpost)"
      and "forNext (netemCase bo None) dpre
           (dinfo\<lparr>Qopt := unpack NetemQoptLayout bo (take 24 ndata)\<rparr>) = Continue dreached"
    using that by (simp add: unmarshalNetem_bytes [OF len] n)
  show ?thesis
  proof (intro conjI impI, goal_cases)
    case 1
    then show ?case by (elim conjE) (rule n)
  next
    case 2
    then show ?case by (elim conjE) (rule u)
  next
    case 3
    then show ?case by (elim conjE) (rule b)
  next
    case 4
    then show ?case by (elim conjE) (rule d)
  qed
qed

text \<open>A netem stream with an \<open>Ecn\<close> record and then a record of type \<open>tcaNetemLoss\<close>, which
  is in the enumeration and has no \<open>case\<close>; a u32 stream with a \<open>ClassID\<close> record and then
  a record whose type field is 99 with the higher flag bit set; a netem buffer with the
  options block, an \<open>Ecn\<close> record, a \<open>tcaNetemLoss\<close> record and a \<open>Rate64\<close> record.\<close>

theorem unknown_type_reached_is_error_witness:
  "ad_Type \<lparr> attr_Type = tcaNetemLoss, attr_Data = [1] \<rparr> \<notin> netemHandled
   \<and> ad_Type \<lparr> attr_Type = tcaNetemLoss, attr_Data = [1] \<rparr> \<noteq> tcaNetemPad
   \<and> forNext (netemCase LittleEndian None)
        [\<lparr> attr_Type = tcaNetemEcn, attr_Data = [1, 0, 0, 0] \<rparr>] zeroNetem
      = Continue (zeroNetem\<lparr>Ecn := Some 1\<rparr>)
   \<and> unmarshalNetemAttrs LittleEndian
        ([\<lparr> attr_Type = tcaNetemEcn, attr_Data = [1, 0, 0, 0] \<rparr>]
          @ \<lparr> attr_Type = tcaNetemLoss, attr_Data = [1] \<rparr>
          # [\<lparr> attr_Type = tcaNetemRate64, attr_Data = [2, 0, 0, 0, 0, 0, 0, 0] \<rparr>]) zeroNetem
      = (Some (ErrUnknownAttr ''unmarshalNetem()'' 5 [1]), zeroNetem\<lparr>Ecn := Some 1\<rparr>)
   \<and> ad_Type \<lparr> attr_Type = 0x8063, attr_Data = [] \<rparr> \<notin> u32Handled
   \<and> ad_Type \<lparr> attr_Type = 0x8063, attr_Data = [] \<rparr> \<noteq> tcaU32Pad
   \<and> forNext (u32Case LittleEndian noDelegates)
        [\<lparr> attr_Type = tcaU32ClassID, attr_Data = [7, 0, 0, 0] \<rparr>] zeroU32
      = Continue (zeroU32\<lparr>ClassID := 7\<rparr>)
   \<and> unmarshalU32Attrs LittleEndian noDelegates
        ([\<lparr> attr_Type = tcaU32ClassID, attr_Data = [7, 0, 0, 0] \<rparr>]
          @ \<lparr> attr_Type = 0x8063, attr_Data = [] \<rparr>
          # [\<lparr> attr_Type = tcaU32Flags, attr_Data = [5, 0, 0, 0] \<rparr>]) zeroU32
      = (Some (ErrUnknownAttr ''unmarshalU32()'' 99 []), zeroU32\<lparr>ClassID := 7\<rparr>)
   \<and> NewAttributeDecoder LittleEndian [8, 0, 1, 0, 7, 0, 0, 0, 4, 0, 99, 128, 8, 0, 11, 0, 5, 0, 0, 0]
      = Inr ([\<lparr> attr_Type = tcaU32ClassID, attr_Data = [7, 0, 0, 0] \<rparr>]
          @ \<lparr> attr_Type = 0x8063, attr_Data = [] \<rparr>
          # [\<lparr> attr_Type = tcaU32Flags, attr_Data = [5, 0, 0, 0] \<rparr>])
   \<and> unmarshalU32 LittleEndian noDelegates
        [8, 0, 1, 0, 7, 0, 0, 0, 4, 0, 99, 128, 8, 0, 11, 0, 5, 0, 0, 0] zeroU32
      = (Some (ErrUnknownAttr ''unmarshalU32()'' 99 []), zeroU32\<lparr>ClassID := 7\<rparr>)
   \<and> 24 \<le> length [0, 0, 0, 0, 0, 0, 0, 0, 0, 0, 0, 0, 0, 0, 0, 0, 0, 0, 0, 0, 0, 0, 0, 0,
        8, 0, 7, 0, 1, 0, 0, 0, 5, 0, 5, 0, 1, 0, 0, 0,
        12, 0, 8, 0, 2, 0, 0, 0, 0, 0, 0, 0 :: byte]
   \<and> NewAttributeDecoder LittleEndian (drop 24
       [0, 0, 0, 0, 0, 0, 0, 0, 0, 0, 0, 0, 0, 0, 0, 0, 0, 0, 0, 0, 0, 0, 0, 0,
        8, 0, 7, 0, 1, 0, 0, 0, 5, 0, 5, 0, 1, 0, 0, 0,
        12, 0, 8, 0, 2, 0, 0, 0, 0, 0, 0, 0])
      = Inr ([\<lparr> attr_Type = tcaNetemEcn, attr_Data = [1, 0, 0, 0] \<rparr>]
          @ \<lparr> attr_Type = tcaNetemLoss, attr_Data = [1] \<rparr>
          # [\<lparr> attr_Type = tcaNetemRate64, attr_Data = [2, 0, 0, 0, 0, 0, 0, 0] \<rparr>])
   \<and> forNext (netemCase LittleEndian None)
        [\<lparr> attr_Type = tcaNetemEcn, attr_Data = [1, 0, 0, 0] \<rparr>]
        (zeroNetem\<lparr>Qopt := unpack NetemQoptLayout LittleEndian (take 24
           [0, 0, 0, 0, 0, 0, 0, 0, 0, 0, 0, 0, 0, 0, 0, 0, 0, 0, 0, 0, 0, 0, 0, 0,
            8, 0, 7, 0, 1, 0, 0, 0, 5, 0, 5, 0, 1, 0, 0, 0,
            12, 0, 8, 0, 2, 0, 0, 0, 0, 0, 0, 0])\<rparr>)
      = Continue (zeroNetem\<lparr>Ecn := Some 1\<rparr>)
   \<and> unmarshalNetem LittleEndian
       [0, 0, 0, 0, 0, 0, 0, 0, 0, 0, 0, 0, 0, 0, 0, 0, 0, 0, 0, 0, 0, 0, 0, 0,
        8, 0, 7, 0, 1, 0, 0, 0, 5, 0, 5, 0, 1, 0, 0, 0,
        12, 0, 8, 0, 2, 0, 0, 0, 0, 0, 0, 0] zeroNetem
      = (Some (ErrUnknownAttr ''unmarshalNetem()'' 5 [1]), zeroNetem\<lparr>Ecn := Some 1\<rparr>)"
proof -
  let ?na = "\<lparr> attr_Type = tcaNetemLoss, attr_Data = [1] \<rparr>"
  let ?npre = "[\<lparr> attr_Type = tcaNetemEcn, attr_Data = [1, 0, 0, 0] \<rparr>]"
  let ?npost = "[\<lparr> attr_Type = tcaNetemRate64, attr_Data = [2, 0, 0, 0, 0, 0, 0, 0] \<rparr>]"
  let ?ua = "\<lparr> attr_Type = 0x8063, attr_Data = [] \<rparr>"
  let ?upre = "[\<lparr> attr_Type = tcaU32ClassID, attr_Data = [7, 0, 0, 0] \<rparr>]"
  let ?upost = "[\<lparr> attr_Type = tcaU32Flags, attr_Data = [5, 0, 0, 0] \<rparr>]"
  let ?data = "[8, 0, 1, 0, 7, 0, 0, 0, 4, 0, 99, 128, 8, 0, 11, 0, 5, 0, 0, 0 :: byte]"
  let ?ndata = "[0, 0, 0, 0, 0, 0, 0, 0, 0, 0, 0, 0, 0, 0, 0, 0, 0, 0, 0, 0, 0, 0, 0, 0,
        8, 0, 7, 0, 1, 0, 0, 0, 5, 0, 5, 0, 1, 0, 0, 0,
        12, 0, 8, 0, 2, 0, 0, 0, 0, 0, 0, 0 :: byte]"
  note inst = unknown_type_reached_is_error [where bo = LittleEndian and dg = noDelegates
      and na = "?na" and npre = "?npre" and npost = "?npost" and ninfo = zeroNetem
      and nreached = "zeroNetem\<lparr>Ecn := Some 1\<rparr>"
      and ua = "?ua" and upre = "?upre" and upost = "?upost" and uinfo = zeroU32
      and ureached = "zeroU32\<lparr>ClassID := 7\<rparr>"
      and ba = "?ua" and bpre = "?upre" and bpost = "?upost" and binfo = zeroU32
      and breached = "zeroU32\<lparr>ClassID := 7\<rparr>" and data = "?data"
      and da = "?na" and dpre = "?npre" and dpost = "?npost" and dinfo = zeroNetem
      and dreached = "zeroNetem\<lparr>Ecn := Some 1\<rparr>" and ndata = "?ndata"]
  have t1: "ad_Type ?na = 5" by code_simp
  have t2: "ad_Type ?ua = 99" by code_simp
  have d1: "attr_Data ?na = [1]" by simp
  have d2: "attr_Data ?ua = []" by simp
  have h1: "ad_Type ?na \<notin> netemHandled" by code_simp
  have h2: "ad_Type ?na \<noteq> tcaNetemPad" by code_simp
  have h3: "forNext (netemCase LittleEndian None) ?npre zeroNetem = Continue (zeroNetem\<lparr>Ecn := Some 1\<rparr>)"
    by code_simp
  have h4: "ad_Type ?ua \<notin> u32Handled" by code_simp
  have h5: "ad_Type ?ua \<noteq> tcaU32Pad" by code_simp
  have h6: "forNext (u32Case LittleEndian noDelegates) ?upre zeroU32 = Continue (zeroU32\<lparr>ClassID := 7\<rparr>)"
    by code_simp
  have h7: "NewAttributeDecoder LittleEndian ?data = Inr (?upre @ ?ua # ?upost)"
    by code_simp
  have h8: "24 \<le> length ?ndata" by simp
  have h9: "NewAttributeDecoder LittleEndian (drop 24 ?ndata) = Inr (?npre @ ?na # ?npost)"
    by code_simp
  have h10: "forNext (netemCase LittleEndian None) ?npre
        (zeroNetem\<lparr>Qopt := unpack NetemQoptLayout LittleEndian (take 24 ?ndata)\<rparr>)
      = Continue (zeroNetem\<lparr>Ecn := Some 1\<rparr>)"
    by code_simp
  have c1: "unmarshalNetemAttrs LittleEndian (?npre @ ?na # ?npost) zeroNetem
      = (Some (ErrUnknownAttr ''unmarshalNetem()'' 5 [1]), zeroNetem\<lparr>Ecn := Some 1\<rparr>)"
    using inst h1 h2 h3 unfolding t1 d1 by blast
  have c2: "unmarshalU32Attrs LittleEndian noDelegates (?upre @ ?ua # ?upost) zeroU32
      = (Some (ErrUnknownAttr ''unmarshalU32()'' 99 []), zeroU32\<lparr>ClassID := 7\<rparr>)"
    using inst h4 h5 h6 unfolding t2 d2 by blast
  have c3: "unmarshalU32 LittleEndian noDelegates ?data zeroU32
      = (Some (ErrUnknownAttr ''unmarshalU32()'' 99 []), zeroU32\<lparr>ClassID := 7\<rparr>)"
    using inst h4 h5 h6 h7 unfolding t2 d2 by blast
  have c4: "unmarshalNetem LittleEndian ?ndata zeroNetem
      = (Some (ErrUnknownAttr ''unmarshalNetem()'' 5 [1]), zeroNetem\<lparr>Ecn := Some 1\<rparr>)"
    using inst h1 h2 h8 h9 h10 unfolding t1 d1 by blast
  show ?thesis
    by (intro conjI) (rule h1 h2 h3 h4 h5 h6 h7 h8 h9 h10 c1 c2 c3 c4)+
qed

subsection \<open>C7: handles and the message header\<close>

text \<open>
  C7. For every pair of 16-bit values (major, minor), the handle built as
  \<open>major<<16 | minor\<close> decomposes back into the original pair; \<open>BuildHandle(0xFFFF, 0x0000)\<close>
  is \<open>0xFFFF0000\<close>; and a message header with that handle and parent \<open>0xFFFFFFF1\<close>, whatever
  its other fields, is packed without error and unpacked to the same header.
\<close>

theorem BuildHandle_roundtrip:
  fixes maj mn :: u16
  shows "SplitHandle (BuildHandle (ucast maj) (ucast mn)) = (ucast maj, ucast mn)
    \<and> BuildHandle 0xFFFF 0x0000 = 0xFFFF0000
    \<and> snd (marshalStruct MsgLayout bo
          \<lparr> msg_Family = fam, msg_Ifindex = ifindex, msg_Handle = BuildHandle 0xFFFF 0x0000,
            msg_Parent = 0xFFFFFFF1, msg_Info = flags \<rparr>) = None
    \<and> unmarshalStruct MsgLayout bo
          (fst (marshalStruct MsgLayout bo
            \<lparr> msg_Family = fam, msg_Ifindex = ifindex, msg_Handle = BuildHandle 0xFFFF 0x0000,
              msg_Parent = 0xFFFFFFF1, msg_Info = flags \<rparr>)) m0
        = (None, \<lparr> msg_Family = fam, msg_Ifindex = ifindex, msg_Handle = BuildHandle 0xFFFF 0x0000,
              msg_Parent = 0xFFFFFFF1, msg_Info = flags \<rparr>)"
proof -
  have m: "(0xFFFF :: u32) = mask 16" by (simp add: mask_eq_exp_minus_1)
  have a: "drop_bit 16 (push_bit 16 (ucast maj :: u32) OR ucast mn) = ucast maj"
    by (rule bit_word_eqI) (auto simp: bit_simps dest: bit_imp_le_length)
  have b: "(push_bit 16 (ucast maj :: u32) OR ucast mn) AND mask 16 = ucast mn"
    by (rule bit_word_eqI) (auto simp: bit_simps dest: bit_imp_le_length)
  have s: "SplitHandle (BuildHandle (ucast maj) (ucast mn)) = (ucast maj, ucast mn)"
    unfolding SplitHandle_def BuildHandle_def m using a b by simp
  have h: "BuildHandle 0xFFFF 0x0000 = 0xFFFF0000" by (simp add: BuildHandle_def)
  have e: "snd (marshalStruct MsgLayout bo x) = None" for x
    by (simp add: marshalStruct_def)
  show ?thesis
    using s h e Msg_roundtrip by blast
qed

subsection \<open>C8: a selector with two keys\<close>

text \<open>
  C8. A U32 selector with \<open>NKeys = 2\<close>, any values in the other header fields, and the two
  keys \<open>{mask:0xFFFFFFFF, val:10, off:0, offmask:0}\<close> and
  \<open>{mask:0x0000FFFF, val:20, off:4, offmask:0}\<close> is encoded by \<open>validateU32SelOptions\<close>
  without error, and \<open>extractU32Sel\<close> decodes the bytes into a fresh selector without
  error, giving the same header and the same two keys in the same order.
\<close>

theorem u32sel_two_keys_roundtrip:
  "snd (validateU32SelOptions bo
      \<lparr> sel_Flags = flags, sel_Offshift = offshift, sel_NKeys = 2, sel_OffMask = offmask,
        sel_Off = off, sel_Offoff = offoff, sel_Hoff = hoff, sel_Hmask = hmask,
        sel_Keys = [\<lparr> key_Mask = 0xFFFFFFFF, key_Val = 10, key_Off = 0, key_OffMask = 0 \<rparr>,
                    \<lparr> key_Mask = 0x0000FFFF, key_Val = 20, key_Off = 4, key_OffMask = 0 \<rparr>] \<rparr>) = None
   \<and> extractU32Sel bo (fst (validateU32SelOptions bo
      \<lparr> sel_Flags = flags, sel_Offshift = offshift, sel_NKeys = 2, sel_OffMask = offmask,
        sel_Off = off, sel_Offoff = offoff, sel_Hoff = hoff, sel_Hmask = hmask,
        sel_Keys = [\<lparr> key_Mask = 0xFFFFFFFF, key_Val = 10, key_Off = 0, key_OffMask = 0 \<rparr>,
                    \<lparr> key_Mask = 0x0000FFFF, key_Val = 20, key_Off = 4, key_OffMask = 0 \<rparr>] \<rparr>)) zeroU32Sel
     = (None,
      \<lparr> sel_Flags = flags, sel_Offshift = offshift, sel_NKeys = 2, sel_OffMask = offmask,
        sel_Off = off, sel_Offoff = offoff, sel_Hoff = hoff, sel_Hmask = hmask,
        sel_Keys = [\<lparr> key_Mask = 0xFFFFFFFF, key_Val = 10, key_Off = 0, key_OffMask = 0 \<rparr>,
                    \<lparr> key_Mask = 0x0000FFFF, key_Val = 20, key_Off = 4, key_OffMask = 0 \<rparr>] \<rparr>)"
proof -
  let ?s = "\<lparr> sel_Flags = flags, sel_Offshift = offshift, sel_NKeys = 2, sel_OffMask = offmask,
        sel_Off = off, sel_Offoff = offoff, sel_Hoff = hoff, sel_Hmask = hmask,
        sel_Keys = [\<lparr> key_Mask = 0xFFFFFFFF, key_Val = 10, key_Off = 0, key_OffMask = 0 \<rparr>,
                    \<lparr> key_Mask = 0x0000FFFF, key_Val = 20, key_Off = 4, key_OffMask = 0 \<rparr>] \<rparr>"
  have n: "unat (sel_NKeys ?s) = length (sel_Keys ?s)" by simp
  show ?thesis
    using extractU32Sel_validateU32SelOptions [OF n, of bo]
    by (simp add: validateU32SelOptions_eq)
qed

subsection \<open>C9: pad records\<close>

text \<open>
  C9. For every netem or u32 attribute stream, valid or not, a record whose type code is
  the discipline's pad marker (\<open>tcaNetemPad\<close>, \<open>tcaU32Pad\<close>), whatever its payload, can be
  inserted at any place without changing what the decoding returns: the same error and
  the same payload object. This holds for the loop of \<open>unmarshalNetem\<close> and the loop of
  \<open>unmarshalU32\<close> on the decoded records; for \<open>unmarshalU32\<close> on the bytes, when the encoded
  pad record is inserted after a whole number of well-formed records; and for
  \<open>unmarshalNetem\<close> on the bytes, when the encoded pad record is inserted after the 24
  bytes of the options block and a whole number of well-formed records.
\<close>

theorem pad_records_are_skipped:
  "(ad_Type np = tcaNetemPad \<longrightarrow>
      unmarshalNetemAttrs bo (npre @ np # npost) ninfo
        = unmarshalNetemAttrs bo (npre @ npost) ninfo)
   \<and> (ad_Type up = tcaU32Pad \<longrightarrow>
      unmarshalU32Attrs bo dg (upre @ up # upost) uinfo
        = unmarshalU32Attrs bo dg (upre @ upost) uinfo)
   \<and> (ad_Type bp = tcaU32Pad \<and> length (attr_Data bp) \<le> 65531
        \<and> NewAttributeDecoder bo bpre = Inr battrs \<and> length bpre mod 4 = 0 \<longrightarrow>
      unmarshalU32 bo dg (bpre @ marshalAttribute bo bp @ bpost) binfo
        = unmarshalU32 bo dg (bpre @ bpost) binfo)
   \<and> (ad_Type dp = tcaNetemPad \<and> length (attr_Data dp) \<le> 65531 \<and> length hdr = 24
        \<and> NewAttributeDecoder bo dpre = Inr dattrs \<and> length dpre mod 4 = 0 \<longrightarrow>
      unmarshalNetem bo (hdr @ dpre @ marshalAttribute bo dp @ dpost) dinfo
        = unmarshalNetem bo (hdr @ dpre @ dpost) dinfo)"
proof -
  have n: "unmarshalNetemAttrs bo (pre @ p # post) info
        = unmarshalNetemAttrs bo (pre @ post) info" if "ad_Type p = tcaNetemPad"
    for pre p post info
    using that by (simp add: unmarshalNetemAttrs_def forNext_skip netemCase_pad)
  have u: "unmarshalU32Attrs bo dg (pre @ p # post) info
        = unmarshalU32Attrs bo dg (pre @ post) info" if "ad_Type p = tcaU32Pad"
    for pre p post info
    using that by (simp add: unmarshalU32Attrs_def forNext_skip u32Case_pad)
  have b: "unmarshalU32 bo dg (bpre @ marshalAttribute bo bp @ bpost) binfo
        = unmarshalU32 bo dg (bpre @ bpost) binfo"
    if t: "ad_Type bp = tcaU32Pad" and l: "length (attr_Data bp) \<le> 65531"
      and d: "NewAttributeDecoder bo bpre = Inr battrs" and m: "length bpre mod 4 = 0"
  proof -
    have with_pad: "unmarshalU32 bo dg (bpre @ marshalAttribute bo bp @ bpost) binfo
        = (case NewAttributeDecoder bo bpost of
             Inl err \<Rightarrow> (Some err, binfo)
           | Inr attrs \<Rightarrow> unmarshalU32Attrs bo dg (battrs @ bp # attrs) binfo)"
      by (simp add: unmarshalU32_def NewAttributeDecoder_insert [OF d m l] split: sum.splits)
    have without: "unmarshalU32 bo dg (bpre @ bpost) binfo
        = (case NewAttributeDecoder bo bpost of
             Inl err \<Rightarrow> (Some err, binfo)
           | Inr attrs \<Rightarrow> unmarshalU32Attrs bo dg (battrs @ attrs) binfo)"
      by (simp add: unmarshalU32_def NewAttributeDecoder_append [OF d m] split: sum.splits)
    show ?thesis
      unfolding with_pad without by (simp add: u [OF t] split: sum.splits)
  qed
  have w: "unmarshalNetem bo (hdr @ dpre @ marshalAttribute bo dp @ dpost) dinfo
        = unmarshalNetem bo (hdr @ dpre @ dpost) dinfo"
    if t: "ad_Type dp = tcaNetemPad" and l: "length (attr_Data dp) \<le> 65531"
      and h: "length hdr = 24"
      and d: "NewAttributeDecoder bo dpre = Inr dattrs" and m: "length dpre mod 4 = 0"
  proof -
    let ?start = "dinfo\<lparr>Qopt := unpack NetemQoptLayout bo hdr\<rparr>"
    have with_pad: "unmarshalNetem bo (hdr @ dpre @ marshalAttribute bo dp @ dpost) dinfo
        = (case NewAttributeDecoder bo dpost of
             Inl err \<Rightarrow> (Some err, ?start)
           | Inr attrs \<Rightarrow> unmarshalNetemAttrs bo (dattrs @ dp # attrs) ?start)"
      by (simp add: unmarshalNetem_header [OF h] NewAttributeDecoder_insert [OF d m l]
          split: sum.splits)
    have without: "unmarshalNetem bo (hdr @ dpre @ dpost) dinfo
        = (case NewAttributeDecoder bo dpost of
             Inl err \<Rightarrow> (Some err, ?start)
           | Inr attrs \<Rightarrow> unmarshalNetemAttrs bo (dattrs @ attrs) ?start)"
      by (simp add: unmarshalNetem_header [OF h] NewAttributeDecoder_append [OF d m]
          split: sum.splits)
    show ?thesis
      unfolding with_pad without by (simp add: n [OF t] split: sum.splits)
  qed
  show ?thesis
  proof (intro conjI impI, goal_cases)
    case 1
    then show ?case by (rule n)
  next
    case 2
    then show ?case by (rule u)
  next
    case 3
    then show ?case by (elim conjE) (rule b)
  next
    case 4
    then show ?case by (elim conjE) (rule w)
  qed
qed

text \<open>An \<open>Ecn\<close> and a \<open>Rate64\<close> record, and a \<open>ClassID\<close> and a \<open>Flags\<close> record, with a pad
  record of three payload bytes between them; on the bytes, the netem records follow
  the options block of the scenario of C5.\<close>

theorem pad_records_are_skipped_witness:
  "ad_Type \<lparr> attr_Type = tcaNetemPad, attr_Data = [1, 2, 3] \<rparr> = tcaNetemPad
   \<and> unmarshalNetemAttrs LittleEndian
        ([\<lparr> attr_Type = tcaNetemEcn, attr_Data = [1, 0, 0, 0] \<rparr>]
          @ \<lparr> attr_Type = tcaNetemPad, attr_Data = [1, 2, 3] \<rparr>
          # [\<lparr> attr_Type = tcaNetemRate64, attr_Data = [2, 0, 0, 0, 0, 0, 0, 0] \<rparr>]) zeroNetem
      = unmarshalNetemAttrs LittleEndian
        ([\<lparr> attr_Type = tcaNetemEcn, attr_Data = [1, 0, 0, 0] \<rparr>]
          @ [\<lparr> attr_Type = tcaNetemRate64, attr_Data = [2, 0, 0, 0, 0, 0, 0, 0] \<rparr>]) zeroNetem
   \<and> unmarshalNetemAttrs LittleEndian
        ([\<lparr> attr_Type = tcaNetemEcn, attr_Data = [1, 0, 0, 0] \<rparr>]
          @ [\<lparr> attr_Type = tcaNetemRate64, attr_Data = [2, 0, 0, 0, 0, 0, 0, 0] \<rparr>]) zeroNetem
      = (None, zeroNetem\<lparr>Ecn := Some 1, Rate64 := Some 2\<rparr>)
   \<and> ad_Type \<lparr> attr_Type = tcaU32Pad, attr_Data = [1, 2, 3] \<rparr> = tcaU32Pad
   \<and> unmarshalU32Attrs LittleEndian noDelegates
        ([\<lparr> attr_Type = tcaU32ClassID, attr_Data = [7, 0, 0, 0] \<rparr>]
          @ \<lparr> attr_Type = tcaU32Pad, attr_Data = [1, 2, 3] \<rparr>
          # [\<lparr> attr_Type = tcaU32Flags, attr_Data = [5, 0, 0, 0] \<rparr>]) zeroU32
      = unmarshalU32Attrs LittleEndian noDelegates
        ([\<lparr> attr_Type = tcaU32ClassID, attr_Data = [7, 0, 0, 0] \<rparr>]
          @ [\<lparr> attr_Type = tcaU32Flags, attr_Data = [5, 0, 0, 0] \<rparr>]) zeroU32
   \<and> length (attr_Data \<lparr> attr_Type = tcaU32Pad, attr_Data = [1, 2, 3] \<rparr>) \<le> 65531
   \<and> NewAttributeDecoder LittleEndian [8, 0, 1, 0, 7, 0, 0, 0]
      = Inr [\<lparr> attr_Type = tcaU32ClassID, attr_Data = [7, 0, 0, 0] \<rparr>]
   \<and> length [8, 0, 1, 0, 7, 0, 0, 0 :: byte] mod 4 = 0
   \<and> length [8, 0, 7, 0, 1, 0, 0, 0 :: byte] mod 4 = 0
   \<and> marshalAttribute LittleEndian \<lparr> attr_Type = tcaU32Pad, attr_Data = [1, 2, 3] \<rparr>
      = [7, 0, 12, 0, 1, 2, 3, 0]
   \<and> unmarshalU32 LittleEndian noDelegates
        ([8, 0, 1, 0, 7, 0, 0, 0]
          @ marshalAttribute LittleEndian \<lparr> attr_Type = tcaU32Pad, attr_Data = [1, 2, 3] \<rparr>
          @ [8, 0, 11, 0, 5, 0, 0, 0]) zeroU32
      = unmarshalU32 LittleEndian noDelegates ([8, 0, 1, 0, 7, 0, 0, 0] @ [8, 0, 11, 0, 5, 0, 0, 0]) zeroU32
   \<and> unmarshalU32 LittleEndian noDelegates ([8, 0, 1, 0, 7, 0, 0, 0] @ [8, 0, 11, 0, 5, 0, 0, 0]) zeroU32
      = (None, zeroU32\<lparr>ClassID := 7, Flags := 5\<rparr>)
   \<and> length (attr_Data \<lparr> attr_Type = tcaNetemPad, attr_Data = [1, 2, 3] \<rparr>) \<le> 65531
   \<and> length [42, 0, 0, 0, 0, 0, 0, 0, 0, 0, 0, 0, 0, 0, 0, 0, 0, 0, 0, 0, 7, 0, 0, 0 :: byte] = 24
   \<and> NewAttributeDecoder LittleEndian [8, 0, 7, 0, 1, 0, 0, 0]
      = Inr [\<lparr> attr_Type = tcaNetemEcn, attr_Data = [1, 0, 0, 0] \<rparr>]
   \<and> marshalAttribute LittleEndian \<lparr> attr_Type = tcaNetemPad, attr_Data = [1, 2, 3] \<rparr>
      = [7, 0, 9, 0, 1, 2, 3, 0]
   \<and> unmarshalNetem LittleEndian
        ([42, 0, 0, 0, 0, 0, 0, 0, 0, 0, 0, 0, 0, 0, 0, 0, 0, 0, 0, 0, 7, 0, 0, 0]
          @ [8, 0, 7, 0, 1, 0, 0, 0]
          @ marshalAttribute LittleEndian \<lparr> attr_Type = tcaNetemPad, attr_Data = [1, 2, 3] \<rparr>
          @ [12, 0, 8, 0, 2, 0, 0, 0, 0, 0, 0, 0]) zeroNetem
      = unmarshalNetem LittleEndian
        ([42, 0, 0, 0, 0, 0, 0, 0, 0, 0, 0, 0, 0, 0, 0, 0, 0, 0, 0, 0, 7, 0, 0, 0]
          @ [8, 0, 7, 0, 1, 0, 0, 0] @ [12, 0, 8, 0, 2, 0, 0, 0, 0, 0, 0, 0]) zeroNetem
   \<and> unmarshalNetem LittleEndian
        ([42, 0, 0, 0, 0, 0, 0, 0, 0, 0, 0, 0, 0, 0, 0, 0, 0, 0, 0, 0, 7, 0, 0, 0]
          @ [8, 0, 7, 0, 1, 0, 0, 0] @ [12, 0, 8, 0, 2, 0, 0, 0, 0, 0, 0, 0]) zeroNetem
      = (None, zeroNetem\<lparr>
           Qopt := \<lparr> qopt_Latency = 42, qopt_Limit = 0, qopt_Loss = 0, qopt_Gap = 0,
             qopt_Duplicate = 0, qopt_Jitter = 7 \<rparr>,
           Ecn := Some 1, Rate64 := Some 2\<rparr>)"
proof -
  let ?np = "\<lparr> attr_Type = tcaNetemPad, attr_Data = [1, 2, 3] \<rparr>"
  let ?npre = "[\<lparr> attr_Type = tcaNetemEcn, attr_Data = [1, 0, 0, 0] \<rparr>]"
  let ?npost = "[\<lparr> attr_Type = tcaNetemRate64, attr_Data = [2, 0, 0, 0, 0, 0, 0, 0] \<rparr>]"
  let ?up = "\<lparr> attr_Type = tcaU32Pad, attr_Data = [1, 2, 3] \<rparr>"
  let ?upre = "[\<lparr> attr_Type = tcaU32ClassID, attr_Data = [7, 0, 0, 0] \<rparr>]"
  let ?upost = "[\<lparr> attr_Type = tcaU32Flags, attr_Data = [5, 0, 0, 0] \<rparr>]"
  let ?bpre = "[8, 0, 1, 0, 7, 0, 0, 0 :: byte]"
  let ?bpost = "[8, 0, 11, 0, 5, 0, 0, 0 :: byte]"
  let ?hdr = "[42, 0, 0, 0, 0, 0, 0, 0, 0, 0, 0, 0, 0, 0, 0, 0, 0, 0, 0, 0, 7, 0, 0, 0 :: byte]"
  let ?dpre = "[8, 0, 7, 0, 1, 0, 0, 0 :: byte]"
  let ?dpost = "[12, 0, 8, 0, 2, 0, 0, 0, 0, 0, 0, 0 :: byte]"
  note inst = pad_records_are_skipped [where bo = LittleEndian and dg = noDelegates
      and np = "?np" and npre = "?npre" and npost = "?npost" and ninfo = zeroNetem
      and up = "?up" and upre = "?upre" and upost = "?upost" and uinfo = zeroU32
      and bp = "?up" and bpre = "?bpre" and bpost = "?bpost" and binfo = zeroU32 and battrs = "?upre"
      and dp = "?np" and hdr = "?hdr" and dpre = "?dpre" and dpost = "?dpost"
      and dinfo = zeroNetem and dattrs = "?npre"]
  have h1: "ad_Type ?np = tcaNetemPad" by code_simp
  have h2: "ad_Type ?up = tcaU32Pad" by code_simp
  have h3: "length (attr_Data ?up) \<le> 65531" by simp
  have h4: "NewAttributeDecoder LittleEndian ?bpre = Inr ?upre" by code_simp
  have h5: "length ?bpre mod 4 = 0" by simp
  have h6: "length (attr_Data ?np) \<le> 65531" by simp
  have h7: "length ?hdr = 24" by simp
  have h8: "NewAttributeDecoder LittleEndian ?dpre = Inr ?npre" by code_simp
  have h9: "length ?dpre mod 4 = 0" by simp
  have c1: "unmarshalNetemAttrs LittleEndian (?npre @ ?np # ?npost) zeroNetem
      = unmarshalNetemAttrs LittleEndian (?npre @ ?npost) zeroNetem"
    using inst h1 by blast
  have c2: "unmarshalU32Attrs LittleEndian noDelegates (?upre @ ?up # ?upost) zeroU32
      = unmarshalU32Attrs LittleEndian noDelegates (?upre @ ?upost) zeroU32"
    using inst h2 by blast
  have c3: "unmarshalU32 LittleEndian noDelegates (?bpre @ marshalAttribute LittleEndian ?up @ ?bpost) zeroU32
      = unmarshalU32 LittleEndian noDelegates (?bpre @ ?bpost) zeroU32"
    using inst h2 h3 h4 h5 by blast
  have c4: "unmarshalNetem LittleEndian (?hdr @ ?dpre @ marshalAttribute LittleEndian ?np @ ?dpost) zeroNetem
      = unmarshalNetem LittleEndian (?hdr @ ?dpre @ ?dpost) zeroNetem"
    using inst h1 h6 h7 h8 h9 by blast
  have v1: "unmarshalNetemAttrs LittleEndian (?npre @ ?npost) zeroNetem
      = (None, zeroNetem\<lparr>Ecn := Some 1, Rate64 := Some 2\<rparr>)"
    by code_simp
  have v2: "marshalAttribute LittleEndian ?up = [7, 0, 12, 0, 1, 2, 3, 0]"
    by code_simp
  have v3: "unmarshalU32 LittleEndian noDelegates (?bpre @ ?bpost) zeroU32
      = (None, zeroU32\<lparr>ClassID := 7, Flags := 5\<rparr>)"
    by code_simp
  have v4: "marshalAttribute LittleEndian ?np = [7, 0, 9, 0, 1, 2, 3, 0]"
    by code_simp
  have v5: "unmarshalNetem LittleEndian (?hdr @ ?dpre @ ?dpost) zeroNetem
      = (None, zeroNetem\<lparr>
           Qopt := \<lparr> qopt_Latency = 42, qopt_Limit = 0, qopt_Loss = 0, qopt_Gap = 0,
             qopt_Duplicate = 0, qopt_Jitter = 7 \<rparr>,
           Ecn := Some 1, Rate64 := Some 2\<rparr>)"
    by code_simp
  show ?thesis
    by (intro conjI) (rule h1 h2 h3 h4 h5 h6 h7 h8 h9 c1 c2 c3 c4 v1 v2 v3 v4 v5)+
qed

subsection \<open>C10: a block that failed to decode is still present\<close>

text \<open>
  C10 as stated fails: it promises the pointer field for every stream in which such a
  record appears. In the buffer made of an options block, a record of type
  \<open>tcaNetemLoss\<close> and a \<open>Corr\<close> record with a payload of three bytes, the \<open>Corr\<close> record
  appears and its payload fails to decode, but \<open>unmarshalNetem\<close> returns at the record of
  type \<open>tcaNetemLoss\<close>, which has no \<open>case\<close>, and \<open>Corr\<close> is nil on the result.
\<close>

theorem corr_after_unknown_type_stays_nil:
  "NewAttributeDecoder LittleEndian (drop 24
      [0, 0, 0, 0, 0, 0, 0, 0, 0, 0, 0, 0, 0, 0, 0, 0, 0, 0, 0, 0, 0, 0, 0, 0,
       5, 0, 5, 0, 1, 0, 0, 0, 7, 0, 1, 0, 1, 2, 3, 0])
     = Inr [\<lparr> attr_Type = tcaNetemLoss, attr_Data = [1] \<rparr>,
            \<lparr> attr_Type = tcaNetemCorr, attr_Data = [1, 2, 3] \<rparr>]
   \<and> fst (unmarshalStruct NetemCorrLayout LittleEndian [1, 2, 3] zeroNetemCorr) \<noteq> None
   \<and> unmarshalNetem LittleEndian
      [0, 0, 0, 0, 0, 0, 0, 0, 0, 0, 0, 0, 0, 0, 0, 0, 0, 0, 0, 0, 0, 0, 0, 0,
       5, 0, 5, 0, 1, 0, 0, 0, 7, 0, 1, 0, 1, 2, 3, 0] zeroNetem
     = (Some (ErrUnknownAttr ''unmarshalNetem()'' 5 [1]), zeroNetem)
   \<and> Corr (snd (unmarshalNetem LittleEndian
      [0, 0, 0, 0, 0, 0, 0, 0, 0, 0, 0, 0, 0, 0, 0, 0, 0, 0, 0, 0, 0, 0, 0, 0,
       5, 0, 5, 0, 1, 0, 0, 0, 7, 0, 1, 0, 1, 2, 3, 0] zeroNetem)) = None"
  by code_simp

text \<open>
  C10, amended. Let the buffer given to \<open>unmarshalNetem\<close> have at least 24 bytes, let the
  bytes after the first 24 be read by the attribute decoder as records, and let one of
  them be a \<open>Corr\<close>, \<open>Reorder\<close>, \<open>Corrupt\<close>, \<open>Rate\<close> or \<open>Slot\<close> record whose payload fails to
  decode, every record before it being one the loop accepts (a type with a \<open>case\<close> of its
  own or the pad marker, with 4 payload bytes for \<open>Ecn\<close> and 8 for \<open>Rate64\<close>). Then the
  pointer field of that block is set on the result whatever records follow; and when
  the record is the last one, \<open>unmarshalNetem\<close> returns no error and the field holds the
  freshly allocated zero struct, on the object as the records before it left it. So a
  block that is present on a decoded \<open>Netem\<close> object need not have been decoded from its
  bytes.
\<close>

theorem malformed_block_present_when_reached:
  assumes len: "24 \<le> length data"
    and dec: "NewAttributeDecoder bo (drop 24 data) = Inr (pre @ a # post)"
    and ok: "\<forall>r \<in> set pre. netemRecordOk r"
  shows "(ad_Type a = tcaNetemCorr
        \<and> fst (unmarshalStruct NetemCorrLayout bo (attr_Data a) zeroNetemCorr) \<noteq> None \<longrightarrow>
      Corr (snd (unmarshalNetem bo data info)) \<noteq> None
      \<and> (post = [] \<longrightarrow> unmarshalNetem bo data info
            = (None, (flowInfo (forNext (netemCase bo None) pre
                 (info\<lparr>Qopt := unpack NetemQoptLayout bo (take 24 data)\<rparr>)))\<lparr>Corr := Some zeroNetemCorr\<rparr>)))
   \<and> (ad_Type a = tcaNetemReorder
        \<and> fst (unmarshalStruct NetemReorderLayout bo (attr_Data a) zeroNetemReorder) \<noteq> None \<longrightarrow>
      Reorder (snd (unmarshalNetem bo data info)) \<noteq> None
      \<and> (post = [] \<longrightarrow> unmarshalNetem bo data info
            = (None, (flowInfo (forNext (netemCase bo None) pre
                 (info\<lparr>Qopt := unpack NetemQoptLayout bo (take 24 data)\<rparr>)))\<lparr>Reorder := Some zeroNetemReorder\<rparr>)))
   \<and> (ad_Type a = tcaNetemCorrupt
        \<and> fst (unmarshalStruct NetemCorruptLayout bo (attr_Data a) zeroNetemCorrupt) \<noteq> None \<longrightarrow>
      Corrupt (snd (unmarshalNetem bo data info)) \<noteq> None
      \<and> (post = [] \<longrightarrow> unmarshalNetem bo data info
            = (None, (flowInfo (forNext (netemCase bo None) pre
                 (info\<lparr>Qopt := unpack NetemQoptLayout bo (take 24 data)\<rparr>)))\<lparr>Corrupt := Some zeroNetemCorrupt\<rparr>)))
   \<and> (ad_Type a = tcaNetemRate
        \<and> fst (unmarshalStruct NetemRateLayout bo (attr_Data a) zeroNetemRate) \<noteq> None \<longrightarrow>
      Rate (snd (unmarshalNetem bo data info)) \<noteq> None
      \<and> (post = [] \<longrightarrow> unmarshalNetem bo data info
            = (None, (flowInfo (forNext (netemCase bo None) pre
                 (info\<lparr>Qopt := unpack NetemQoptLayout bo (take 24 data)\<rparr>)))\<lparr>Rate := Some zeroNetemRate\<rparr>)))
   \<and> (ad_Type a = tcaNetemSlot
        \<and> fst (unmarshalStruct NetemSlotLayout bo (attr_Data a) zeroNetemSlot) \<noteq> None \<longrightarrow>
      Slot (snd (unmarshalNetem bo data info)) \<noteq> None
      \<and> (post = [] \<longrightarrow> unmarshalNetem bo data info
            = (None, (flowInfo (forNext (netemCase bo None) pre
                 (info\<lparr>Qopt := unpack NetemQoptLayout bo (take 24 data)\<rparr>)))\<lparr>Slot := Some zeroNetemSlot\<rparr>)))"
proof -
  let ?start = "info\<lparr>Qopt := unpack NetemQoptLayout bo (take 24 data)\<rparr>"
  obtain reached where reach: "forNext (netemCase bo None) pre ?start = Continue reached"
    using forNext_netem_ok [of pre bo None ?start] ok by auto
  have fl: "flowInfo (forNext (netemCase bo None) pre ?start) = reached"
    by (simp add: reach)
  have whole: "unmarshalNetem bo data info = unmarshalNetemAttrs bo (pre @ a # post) ?start"
    by (simp add: unmarshalNetem_bytes [OF len] dec)
  have corr: "Corr (snd (unmarshalNetem bo data info)) \<noteq> None
      \<and> (post = [] \<longrightarrow> unmarshalNetem bo data info
            = (None, (flowInfo (forNext (netemCase bo None) pre ?start))\<lparr>Corr := Some zeroNetemCorr\<rparr>))"
    if t: "ad_Type a = tcaNetemCorr"
      and f: "fst (unmarshalStruct NetemCorrLayout bo (attr_Data a) zeroNetemCorr) \<noteq> None"
  proof -
    have c: "netemCase bo None a reached = Continue (reached\<lparr>Corr := Some zeroNetemCorr\<rparr>)"
      by (simp add: netemCase_struct(1) [OF t] unmarshalStruct_failed [OF f])
    have p: "Corr (flowInfo (forNext (netemCase bo None) post (reached\<lparr>Corr := Some zeroNetemCorr\<rparr>))) \<noteq> None"
      using forNext_keeps_presence [of "reached\<lparr>Corr := Some zeroNetemCorr\<rparr>" bo None post] by simp
    show ?thesis
      unfolding whole fl
      using p by (simp add: netem_after_struct [OF reach c] unmarshalNetemAttrs_Nil snd_unmarshalNetemAttrs)
  qed
  have reorder: "Reorder (snd (unmarshalNetem bo data info)) \<noteq> None
      \<and> (post = [] \<longrightarrow> unmarshalNetem bo data info
            = (None, (flowInfo (forNext (netemCase bo None) pre ?start))\<lparr>Reorder := Some zeroNetemReorder\<rparr>))"
    if t: "ad_Type a = tcaNetemReorder"
      and f: "fst (unmarshalStruct NetemReorderLayout bo (attr_Data a) zeroNetemReorder) \<noteq> None"
  proof -
    have c: "netemCase bo None a reached = Continue (reached\<lparr>Reorder := Some zeroNetemReorder\<rparr>)"
      by (simp add: netemCase_struct(2) [OF t] unmarshalStruct_failed [OF f])
    have p: "Reorder (flowInfo (forNext (netemCase bo None) post (reached\<lparr>Reorder := Some zeroNetemReorder\<rparr>))) \<noteq> None"
      using forNext_keeps_presence [of "reached\<lparr>Reorder := Some zeroNetemReorder\<rparr>" bo None post] by simp
    show ?thesis
      unfolding whole fl
      using p by (simp add: netem_after_struct [OF reach c] unmarshalNetemAttrs_Nil snd_unmarshalNetemAttrs)
  qed
  have corrupt: "Corrupt (snd (unmarshalNetem bo data info)) \<noteq> None
      \<and> (post = [] \<longrightarrow> unmarshalNetem bo data info
            = (None, (flowInfo (forNext (netemCase bo None) pre ?start))\<lparr>Corrupt := Some zeroNetemCorrupt\<rparr>))"
    if t: "ad_Type a = tcaNetemCorrupt"
      and f: "fst (unmarshalStruct NetemCorruptLayout bo (attr_Data a) zeroNetemCorrupt) \<noteq> None"
  proof -
    have c: "netemCase bo None a reached = Continue (reached\<lparr>Corrupt := Some zeroNetemCorrupt\<rparr>)"
      by (simp add: netemCase_struct(3) [OF t] unmarshalStruct_failed [OF f])
    have p: "Corrupt (flowInfo (forNext (netemCase bo None) post (reached\<lparr>Corrupt := Some zeroNetemCorrupt\<rparr>))) \<noteq> None"
      using forNext_keeps_presence [of "reached\<lparr>Corrupt := Some zeroNetemCorrupt\<rparr>" bo None post] by simp
    show ?thesis
      unfolding whole fl
      using p by (simp add: netem_after_struct [OF reach c] unmarshalNetemAttrs_Nil snd_unmarshalNetemAttrs)
  qed
  have rate: "Rate (snd (unmarshalNetem bo data info)) \<noteq> None
      \<and> (post = [] \<longrightarrow> unmarshalNetem bo data info
            = (None, (flowInfo (forNext (netemCase bo None) pre ?start))\<lparr>Rate := Some zeroNetemRate\<rparr>))"
    if t: "ad_Type a = tcaNetemRate"
      and f: "fst (unmarshalStruct NetemRateLayout bo (attr_Data a) zeroNetemRate) \<noteq> None"
  proof -
    have c: "netemCase bo None a reached = Continue (reached\<lparr>Rate := Some zeroNetemRate\<rparr>)"
      by (simp add: netemCase_struct(4) [OF t] unmarshalStruct_failed [OF f])
    have p: "Rate (flowInfo (forNext (netemCase bo None) post (reached\<lparr>Rate := Some zeroNetemRate\<rparr>))) \<noteq> None"
      using forNext_keeps_presence [of "reached\<lparr>Rate := Some zeroNetemRate\<rparr>" bo None post] by simp
    show ?thesis
      unfolding whole fl
      using p by (simp add: netem_after_struct [OF reach c] unmarshalNetemAttrs_Nil snd_unmarshalNetemAttrs)
  qed
  have slot: "Slot (snd (unmarshalNetem bo data info)) \<noteq> None
      \<and> (post = [] \<longrightarrow> unmarshalNetem bo data info
            = (None, (flowInfo (forNext (netemCase bo None) pre ?start))\<lparr>Slot := Some zeroNetemSlot\<rparr>))"
    if t: "ad_Type a = tcaNetemSlot"
      and f: "fst (unmarshalStruct NetemSlotLayout bo (attr_Data a) zeroNetemSlot) \<noteq> None"
  proof -
    have c: "netemCase bo None a reached = Continue (reached\<lparr>Slot := Some zeroNetemSlot\<rparr>)"
      by (simp add: netemCase_struct(7) [OF t] unmarshalStruct_failed [OF f])
    have p: "Slot (flowInfo (forNext (netemCase bo None) post (reached\<lparr>Slot := Some zeroNetemSlot\<rparr>))) \<noteq> None"
      using forNext_keeps_presence [of "reached\<lparr>Slot := Some zeroNetemSlot\<rparr>" bo None post] by simp
    show ?thesis
      unfolding whole fl
      using p by (simp add: netem_after_struct [OF reach c] unmarshalNetemAttrs_Nil snd_unmarshalNetemAttrs)
  qed
  show ?thesis
  proof (intro conjI impI, goal_cases)
    case 1
    then show ?case using corr by blast
  next
    case 2
    then show ?case using corr by blast
  next
    case 3
    then show ?case using reorder by blast
  next
    case 4
    then show ?case using reorder by blast
  next
    case 5
    then show ?case using corrupt by blast
  next
    case 6
    then show ?case using corrupt by blast
  next
    case 7
    then show ?case using rate by blast
  next
    case 8
    then show ?case using rate by blast
  next
    case 9
    then show ?case using slot by blast
  next
    case 10
    then show ?case using slot by blast
  qed
qed

text \<open>Each of the five blocks with a payload of three bytes as the last record, after the
  options block and an \<open>Ecn\<close> record; and the \<open>Corr\<close> block also with a \<open>Rate64\<close> record
  after it.\<close>

theorem malformed_block_present_when_reached_witness:
  "netemRecordOk \<lparr> attr_Type = tcaNetemEcn, attr_Data = [1, 0, 0, 0] \<rparr>
   \<and> 24 \<le> length [0, 0, 0, 0, 0, 0, 0, 0, 0, 0, 0, 0, 0, 0, 0, 0, 0, 0, 0, 0, 0, 0, 0, 0,
        8, 0, 7, 0, 1, 0, 0, 0, 7, 0, 1, 0, 1, 2, 3, 0 :: byte]
   \<and> NewAttributeDecoder LittleEndian (drop 24
       [0, 0, 0, 0, 0, 0, 0, 0, 0, 0, 0, 0, 0, 0, 0, 0, 0, 0, 0, 0, 0, 0, 0, 0,
        8, 0, 7, 0, 1, 0, 0, 0, 7, 0, 1, 0, 1, 2, 3, 0])
      = Inr ([\<lparr> attr_Type = tcaNetemEcn, attr_Data = [1, 0, 0, 0] \<rparr>] @ \<lparr> attr_Type = tcaNetemCorr, attr_Data = [1, 2, 3] \<rparr> # [])
   \<and> ad_Type \<lparr> attr_Type = tcaNetemCorr, attr_Data = [1, 2, 3] \<rparr> = tcaNetemCorr
   \<and> fst (unmarshalStruct NetemCorrLayout LittleEndian (attr_Data \<lparr> attr_Type = tcaNetemCorr, attr_Data = [1, 2, 3] \<rparr>) zeroNetemCorr) \<noteq> None
   \<and> Corr (snd (unmarshalNetem LittleEndian
       [0, 0, 0, 0, 0, 0, 0, 0, 0, 0, 0, 0, 0, 0, 0, 0, 0, 0, 0, 0, 0, 0, 0, 0,
        8, 0, 7, 0, 1, 0, 0, 0, 7, 0, 1, 0, 1, 2, 3, 0] zeroNetem)) \<noteq> None
   \<and> unmarshalNetem LittleEndian
       [0, 0, 0, 0, 0, 0, 0, 0, 0, 0, 0, 0, 0, 0, 0, 0, 0, 0, 0, 0, 0, 0, 0, 0,
        8, 0, 7, 0, 1, 0, 0, 0, 7, 0, 1, 0, 1, 2, 3, 0] zeroNetem
      = (None, zeroNetem\<lparr>Ecn := Some 1, Corr := Some zeroNetemCorr\<rparr>)
   \<and> 24 \<le> length [0, 0, 0, 0, 0, 0, 0, 0, 0, 0, 0, 0, 0, 0, 0, 0, 0, 0, 0, 0, 0, 0, 0, 0,
        8, 0, 7, 0, 1, 0, 0, 0, 7, 0, 3, 0, 1, 2, 3, 0 :: byte]
   \<and> NewAttributeDecoder LittleEndian (drop 24
       [0, 0, 0, 0, 0, 0, 0, 0, 0, 0, 0, 0, 0, 0, 0, 0, 0, 0, 0, 0, 0, 0, 0, 0,
        8, 0, 7, 0, 1, 0, 0, 0, 7, 0, 3, 0, 1, 2, 3, 0])
      = Inr ([\<lparr> attr_Type = tcaNetemEcn, attr_Data = [1, 0, 0, 0] \<rparr>] @ \<lparr> attr_Type = tcaNetemReorder, attr_Data = [1, 2, 3] \<rparr> # [])
   \<and> ad_Type \<lparr> attr_Type = tcaNetemReorder, attr_Data = [1, 2, 3] \<rparr> = tcaNetemReorder
   \<and> fst (unmarshalStruct NetemReorderLayout LittleEndian (attr_Data \<lparr> attr_Type = tcaNetemReorder, attr_Data = [1, 2, 3] \<rparr>) zeroNetemReorder) \<noteq> None
   \<and> Reorder (snd (unmarshalNetem LittleEndian
       [0, 0, 0, 0, 0, 0, 0, 0, 0, 0, 0, 0, 0, 0, 0, 0, 0, 0, 0, 0, 0, 0, 0, 0,
        8, 0, 7, 0, 1, 0, 0, 0, 7, 0, 3, 0, 1, 2, 3, 0] zeroNetem)) \<noteq> None
   \<and> unmarshalNetem LittleEndian
       [0, 0, 0, 0, 0, 0, 0, 0, 0, 0, 0, 0, 0, 0, 0, 0, 0, 0, 0, 0, 0, 0, 0, 0,
        8, 0, 7, 0, 1, 0, 0, 0, 7, 0, 3, 0, 1, 2, 3, 0] zeroNetem
      = (None, zeroNetem\<lparr>Ecn := Some 1, Reorder := Some zeroNetemReorder\<rparr>)
   \<and> 24 \<le> length [0, 0, 0, 0, 0, 0, 0, 0, 0, 0, 0, 0, 0, 0, 0, 0, 0, 0, 0, 0, 0, 0, 0, 0,
        8, 0, 7, 0, 1, 0, 0, 0, 7, 0, 4, 0, 1, 2, 3, 0 :: byte]
   \<and> NewAttributeDecoder LittleEndian (drop 24
       [0, 0, 0, 0, 0, 0, 0, 0, 0, 0, 0, 0, 0, 0, 0, 0, 0, 0, 0, 0, 0, 0, 0, 0,
        8, 0, 7, 0, 1, 0, 0, 0, 7, 0, 4, 0, 1, 2, 3, 0])
      = Inr ([\<lparr> attr_Type = tcaNetemEcn, attr_Data = [1, 0, 0, 0] \<rparr>] @ \<lparr> attr_Type = tcaNetemCorrupt, attr_Data = [1, 2, 3] \<rparr> # [])
   \<and> ad_Type \<lparr> attr_Type = tcaNetemCorrupt, attr_Data = [1, 2, 3] \<rparr> = tcaNetemCorrupt
   \<and> fst (unmarshalStruct NetemCorruptLayout LittleEndian (attr_Data \<lparr> attr_Type = tcaNetemCorrupt, attr_Data = [1, 2, 3] \<rparr>) zeroNetemCorrupt) \<noteq> None
   \<and> Corrupt (snd (unmarshalNetem LittleEndian
       [0, 0, 0, 0, 0, 0, 0, 0, 0, 0, 0, 0, 0, 0, 0, 0, 0, 0, 0, 0, 0, 0, 0, 0,
        8, 0, 7, 0, 1, 0, 0, 0, 7, 0, 4, 0, 1, 2, 3, 0] zeroNetem)) \<noteq> None
   \<and> unmarshalNetem LittleEndian
       [0, 0, 0, 0, 0, 0, 0, 0, 0, 0, 0, 0, 0, 0, 0, 0, 0, 0, 0, 0, 0, 0, 0, 0,
        8, 0, 7, 0, 1, 0, 0, 0, 7, 0, 4, 0, 1, 2, 3, 0] zeroNetem
      = (None, zeroNetem\<lparr>Ecn := Some 1, Corrupt := Some zeroNetemCorrupt\<rparr>)
   \<and> 24 \<le> length [0, 0, 0, 0, 0, 0, 0, 0, 0, 0, 0, 0, 0, 0, 0, 0, 0, 0, 0, 0, 0, 0, 0, 0,
        8, 0, 7, 0, 1, 0, 0, 0, 7, 0, 6, 0, 1, 2, 3, 0 :: byte]
   \<and> NewAttributeDecoder LittleEndian (drop 24
       [0, 0, 0, 0, 0, 0, 0, 0, 0, 0, 0, 0, 0, 0, 0, 0, 0, 0, 0, 0, 0, 0, 0, 0,
        8, 0, 7, 0, 1, 0, 0, 0, 7, 0, 6, 0, 1, 2, 3, 0])
      = Inr ([\<lparr> attr_Type = tcaNetemEcn, attr_Data = [1, 0, 0, 0] \<rparr>] @ \<lparr> attr_Type = tcaNetemRate, attr_Data = [1, 2, 3] \<rparr> # [])
   \<and> ad_Type \<lparr> attr_Type = tcaNetemRate, attr_Data = [1, 2, 3] \<rparr> = tcaNetemRate
   \<and> fst (unmarshalStruct NetemRateLayout LittleEndian (attr_Data \<lparr> attr_Type = tcaNetemRate, attr_Data = [1, 2, 3] \<rparr>) zeroNetemRate) \<noteq> None
   \<and> Rate (snd (unmarshalNetem LittleEndian
       [0, 0, 0, 0, 0, 0, 0, 0, 0, 0, 0, 0, 0, 0, 0, 0, 0, 0, 0, 0, 0, 0, 0, 0,
        8, 0, 7, 0, 1, 0, 0, 0, 7, 0, 6, 0, 1, 2, 3, 0] zeroNetem)) \<noteq> None
   \<and> unmarshalNetem LittleEndian
       [0, 0, 0, 0, 0, 0, 0, 0, 0, 0, 0, 0, 0, 0, 0, 0, 0, 0, 0, 0, 0, 0, 0, 0,
        8, 0, 7, 0, 1, 0, 0, 0, 7, 0, 6, 0, 1, 2, 3, 0] zeroNetem
      = (None, zeroNetem\<lparr>Ecn := Some 1, Rate := Some zeroNetemRate\<rparr>)
   \<and> 24 \<le> length [0, 0, 0, 0, 0, 0, 0, 0, 0, 0, 0, 0, 0, 0, 0, 0, 0, 0, 0, 0, 0, 0, 0, 0,
        8, 0, 7, 0, 1, 0, 0, 0, 7, 0, 12, 0, 1, 2, 3, 0 :: byte]
   \<and> NewAttributeDecoder LittleEndian (drop 24
       [0, 0, 0, 0, 0, 0, 0, 0, 0, 0, 0, 0, 0, 0, 0, 0, 0, 0, 0, 0, 0, 0, 0, 0,
        8, 0, 7, 0, 1, 0, 0, 0, 7, 0, 12, 0, 1, 2, 3, 0])
      = Inr ([\<lparr> attr_Type = tcaNetemEcn, attr_Data = [1, 0, 0, 0] \<rparr>] @ \<lparr> attr_Type = tcaNetemSlot, attr_Data = [1, 2, 3] \<rparr> # [])
   \<and> ad_Type \<lparr> attr_Type = tcaNetemSlot, attr_Data = [1, 2, 3] \<rparr> = tcaNetemSlot
   \<and> fst (unmarshalStruct NetemSlotLayout LittleEndian (attr_Data \<lparr> attr_Type = tcaNetemSlot, attr_Data = [1, 2, 3] \<rparr>) zeroNetemSlot) \<noteq> None
   \<and> Slot (snd (unmarshalNetem LittleEndian
       [0, 0, 0, 0, 0, 0, 0, 0, 0, 0, 0, 0, 0, 0, 0, 0, 0, 0, 0, 0, 0, 0, 0, 0,
        8, 0, 7, 0, 1, 0, 0, 0, 7, 0, 12, 0, 1, 2, 3, 0] zeroNetem)) \<noteq> None
   \<and> unmarshalNetem LittleEndian
       [0, 0, 0, 0, 0, 0, 0, 0, 0, 0, 0, 0, 0, 0, 0, 0, 0, 0, 0, 0, 0, 0, 0, 0,
        8, 0, 7, 0, 1, 0, 0, 0, 7, 0, 12, 0, 1, 2, 3, 0] zeroNetem
      = (None, zeroNetem\<lparr>Ecn := Some 1, Slot := Some zeroNetemSlot\<rparr>)
   \<and> 24 \<le> length [0, 0, 0, 0, 0, 0, 0, 0, 0, 0, 0, 0, 0, 0, 0, 0, 0, 0, 0, 0, 0, 0, 0, 0,
        8, 0, 7, 0, 1, 0, 0, 0, 7, 0, 1, 0, 1, 2, 3, 0,
        12, 0, 8, 0, 2, 0, 0, 0, 0, 0, 0, 0 :: byte]
   \<and> NewAttributeDecoder LittleEndian (drop 24
       [0, 0, 0, 0, 0, 0, 0, 0, 0, 0, 0, 0, 0, 0, 0, 0, 0, 0, 0, 0, 0, 0, 0, 0,
        8, 0, 7, 0, 1, 0, 0, 0, 7, 0, 1, 0, 1, 2, 3, 0,
        12, 0, 8, 0, 2, 0, 0, 0, 0, 0, 0, 0])
      = Inr ([\<lparr> attr_Type = tcaNetemEcn, attr_Data = [1, 0, 0, 0] \<rparr>] @ \<lparr> attr_Type = tcaNetemCorr, attr_Data = [1, 2, 3] \<rparr> # [\<lparr> attr_Type = tcaNetemRate64, attr_Data = [2, 0, 0, 0, 0, 0, 0, 0] \<rparr>])
   \<and> ad_Type \<lparr> attr_Type = tcaNetemCorr, attr_Data = [1, 2, 3] \<rparr> = tcaNetemCorr
   \<and> fst (unmarshalStruct NetemCorrLayout LittleEndian (attr_Data \<lparr> attr_Type = tcaNetemCorr, attr_Data = [1, 2, 3] \<rparr>) zeroNetemCorr) \<noteq> None
   \<and> Corr (snd (unmarshalNetem LittleEndian
       [0, 0, 0, 0, 0, 0, 0, 0, 0, 0, 0, 0, 0, 0, 0, 0, 0, 0, 0, 0, 0, 0, 0, 0,
        8, 0, 7, 0, 1, 0, 0, 0, 7, 0, 1, 0, 1, 2, 3, 0,
        12, 0, 8, 0, 2, 0, 0, 0, 0, 0, 0, 0] zeroNetem)) \<noteq> None"
proof -
  let ?pre = "[\<lparr> attr_Type = tcaNetemEcn, attr_Data = [1, 0, 0, 0] \<rparr>]"
  have ok1: "netemRecordOk \<lparr> attr_Type = tcaNetemEcn, attr_Data = [1, 0, 0, 0] \<rparr>" by code_simp
  have ok: "\<forall>r \<in> set ?pre. netemRecordOk r" using ok1 by simp
  let ?corr_d = "[0, 0, 0, 0, 0, 0, 0, 0, 0, 0, 0, 0, 0, 0, 0, 0, 0, 0, 0, 0, 0, 0, 0, 0,
        8, 0, 7, 0, 1, 0, 0, 0, 7, 0, 1, 0, 1, 2, 3, 0 :: byte]"
  let ?corr_a = "\<lparr> attr_Type = tcaNetemCorr, attr_Data = [1, 2, 3] \<rparr>"
  have corr_l: "24 \<le> length ?corr_d" by simp
  have corr_n: "NewAttributeDecoder LittleEndian (drop 24 ?corr_d) = Inr (?pre @ ?corr_a # [])"
    by code_simp
  have corr_t: "ad_Type ?corr_a = tcaNetemCorr" by code_simp
  have corr_f: "fst (unmarshalStruct NetemCorrLayout LittleEndian (attr_Data ?corr_a) zeroNetemCorr) \<noteq> None"
    by code_simp
  note corr_i = malformed_block_present_when_reached [OF corr_l corr_n ok, where info = zeroNetem]
  have corr_c: "Corr (snd (unmarshalNetem LittleEndian ?corr_d zeroNetem)) \<noteq> None"
    using corr_i corr_t corr_f by blast
  have corr_e: "unmarshalNetem LittleEndian ?corr_d zeroNetem
      = (None, (flowInfo (forNext (netemCase LittleEndian None) ?pre
           (zeroNetem\<lparr>Qopt := unpack NetemQoptLayout LittleEndian (take 24 ?corr_d)\<rparr>)))\<lparr>Corr := Some zeroNetemCorr\<rparr>)"
    using corr_i corr_t corr_f by blast
  have corr_v: "(flowInfo (forNext (netemCase LittleEndian None) ?pre
           (zeroNetem\<lparr>Qopt := unpack NetemQoptLayout LittleEndian (take 24 ?corr_d)\<rparr>)))\<lparr>Corr := Some zeroNetemCorr\<rparr>
      = zeroNetem\<lparr>Ecn := Some 1, Corr := Some zeroNetemCorr\<rparr>"
    by code_simp
  have corr_r: "unmarshalNetem LittleEndian ?corr_d zeroNetem
      = (None, zeroNetem\<lparr>Ecn := Some 1, Corr := Some zeroNetemCorr\<rparr>)"
    unfolding corr_e corr_v by (rule refl)
  let ?reorder_d = "[0, 0, 0, 0, 0, 0, 0, 0, 0, 0, 0, 0, 0, 0, 0, 0, 0, 0, 0, 0, 0, 0, 0, 0,
        8, 0, 7, 0, 1, 0, 0, 0, 7, 0, 3, 0, 1, 2, 3, 0 :: byte]"
  let ?reorder_a = "\<lparr> attr_Type = tcaNetemReorder, attr_Data = [1, 2, 3] \<rparr>"
  have reorder_l: "24 \<le> length ?reorder_d" by simp
  have reorder_n: "NewAttributeDecoder LittleEndian (drop 24 ?reorder_d) = Inr (?pre @ ?reorder_a # [])"
    by code_simp
  have reorder_t: "ad_Type ?reorder_a = tcaNetemReorder" by code_simp
  have reorder_f: "fst (unmarshalStruct NetemReorderLayout LittleEndian (attr_Data ?reorder_a) zeroNetemReorder) \<noteq> None"
    by code_simp
  note reorder_i = malformed_block_present_when_reached [OF reorder_l reorder_n ok, where info = zeroNetem]
  have reorder_c: "Reorder (snd (unmarshalNetem LittleEndian ?reorder_d zeroNetem)) \<noteq> None"
    using reorder_i reorder_t reorder_f by blast
  have reorder_e: "unmarshalNetem LittleEndian ?reorder_d zeroNetem
      = (None, (flowInfo (forNext (netemCase LittleEndian None) ?pre
           (zeroNetem\<lparr>Qopt := unpack NetemQoptLayout LittleEndian (take 24 ?reorder_d)\<rparr>)))\<lparr>Reorder := Some zeroNetemReorder\<rparr>)"
    using reorder_i reorder_t reorder_f by blast
  have reorder_v: "(flowInfo (forNext (netemCase LittleEndian None) ?pre
           (zeroNetem\<lparr>Qopt := unpack NetemQoptLayout LittleEndian (take 24 ?reorder_d)\<rparr>)))\<lparr>Reorder := Some zeroNetemReorder\<rparr>
      = zeroNetem\<lparr>Ecn := Some 1, Reorder := Some zeroNetemReorder\<rparr>"
    by code_simp
  have reorder_r: "unmarshalNetem LittleEndian ?reorder_d zeroNetem
      = (None, zeroNetem\<lparr>Ecn := Some 1, Reorder := Some zeroNetemReorder\<rparr>)"
    unfolding reorder_e reorder_v by (rule refl)
  let ?corrupt_d = "[0, 0, 0, 0, 0, 0, 0, 0, 0, 0, 0, 0, 0, 0, 0, 0, 0, 0, 0, 0, 0, 0, 0, 0,
        8, 0, 7, 0, 1, 0, 0, 0, 7, 0, 4, 0, 1, 2, 3, 0 :: byte]"
  let ?corrupt_a = "\<lparr> attr_Type = tcaNetemCorrupt, attr_Data = [1, 2, 3] \<rparr>"
  have corrupt_l: "24 \<le> length ?corrupt_d" by simp
  have corrupt_n: "NewAttributeDecoder LittleEndian (drop 24 ?corrupt_d) = Inr (?pre @ ?corrupt_a # [])"
    by code_simp
  have corrupt_t: "ad_Type ?corrupt_a = tcaNetemCorrupt" by code_simp
  have corrupt_f: "fst (unmarshalStruct NetemCorruptLayout LittleEndian (attr_Data ?corrupt_a) zeroNetemCorrupt) \<noteq> None"
    by code_simp
  note corrupt_i = malformed_block_present_when_reached [OF corrupt_l corrupt_n ok, where info = zeroNetem]
  have corrupt_c: "Corrupt (snd (unmarshalNetem LittleEndian ?corrupt_d zeroNetem)) \<noteq> None"
    using corrupt_i corrupt_t corrupt_f by blast
  have corrupt_e: "unmarshalNetem LittleEndian ?corrupt_d zeroNetem
      = (None, (flowInfo (forNext (netemCase LittleEndian None) ?pre
           (zeroNetem\<lparr>Qopt := unpack NetemQoptLayout LittleEndian (take 24 ?corrupt_d)\<rparr>)))\<lparr>Corrupt := Some zeroNetemCorrupt\<rparr>)"
    using corrupt_i corrupt_t corrupt_f by blast
  have corrupt_v: "(flowInfo (forNext (netemCase LittleEndian None) ?pre
           (zeroNetem\<lparr>Qopt := unpack NetemQoptLayout LittleEndian (take 24 ?corrupt_d)\<rparr>)))\<lparr>Corrupt := Some zeroNetemCorrupt\<rparr>
      = zeroNetem\<lparr>Ecn := Some 1, Corrupt := Some zeroNetemCorrupt\<rparr>"
    by code_simp
  have corrupt_r: "unmarshalNetem LittleEndian ?corrupt_d zeroNetem
      = (None, zeroNetem\<lparr>Ecn := Some 1, Corrupt := Some zeroNetemCorrupt\<rparr>)"
    unfolding corrupt_e corrupt_v by (rule refl)
  let ?rate_d = "[0, 0, 0, 0, 0, 0, 0, 0, 0, 0, 0, 0, 0, 0, 0, 0, 0, 0, 0, 0, 0, 0, 0, 0,
        8, 0, 7, 0, 1, 0, 0, 0, 7, 0, 6, 0, 1, 2, 3, 0 :: byte]"
  let ?rate_a = "\<lparr> attr_Type = tcaNetemRate, attr_Data = [1, 2, 3] \<rparr>"
  have rate_l: "24 \<le> length ?rate_d" by simp
  have rate_n: "NewAttributeDecoder LittleEndian (drop 24 ?rate_d) = Inr (?pre @ ?rate_a # [])"
    by code_simp
  have rate_t: "ad_Type ?rate_a = tcaNetemRate" by code_simp
  have rate_f: "fst (unmarshalStruct NetemRateLayout LittleEndian (attr_Data ?rate_a) zeroNetemRate) \<noteq> None"
    by code_simp
  note rate_i = malformed_block_present_when_reached [OF rate_l rate_n ok, where info = zeroNetem]
  have rate_c: "Rate (snd (unmarshalNetem LittleEndian ?rate_d zeroNetem)) \<noteq> None"
    using rate_i rate_t rate_f by blast
  have rate_e: "unmarshalNetem LittleEndian ?rate_d zeroNetem
      = (None, (flowInfo (forNext (netemCase LittleEndian None) ?pre
           (zeroNetem\<lparr>Qopt := unpack NetemQoptLayout LittleEndian (take 24 ?rate_d)\<rparr>)))\<lparr>Rate := Some zeroNetemRate\<rparr>)"
    using rate_i rate_t rate_f by blast
  have rate_v: "(flowInfo (forNext (netemCase LittleEndian None) ?pre
           (zeroNetem\<lparr>Qopt := unpack NetemQoptLayout LittleEndian (take 24 ?rate_d)\<rparr>)))\<lparr>Rate := Some zeroNetemRate\<rparr>
      = zeroNetem\<lparr>Ecn := Some 1, Rate := Some zeroNetemRate\<rparr>"
    by code_simp
  have rate_r: "unmarshalNetem LittleEndian ?rate_d zeroNetem
      = (None, zeroNetem\<lparr>Ecn := Some 1, Rate := Some zeroNetemRate\<rparr>)"
    unfolding rate_e rate_v by (rule refl)
  let ?slot_d = "[0, 0, 0, 0, 0, 0, 0, 0, 0, 0, 0, 0, 0, 0, 0, 0, 0, 0, 0, 0, 0, 0, 0, 0,
        8, 0, 7, 0, 1, 0, 0, 0, 7, 0, 12, 0, 1, 2, 3, 0 :: byte]"
  let ?slot_a = "\<lparr> attr_Type = tcaNetemSlot, attr_Data = [1, 2, 3] \<rparr>"
  have slot_l: "24 \<le> length ?slot_d" by simp
  have slot_n: "NewAttributeDecoder LittleEndian (drop 24 ?slot_d) = Inr (?pre @ ?slot_a # [])"
    by code_simp
  have slot_t: "ad_Type ?slot_a = tcaNetemSlot" by code_simp
  have slot_f: "fst (unmarshalStruct NetemSlotLayout LittleEndian (attr_Data ?slot_a) zeroNetemSlot) \<noteq> None"
    by code_simp
  note slot_i = malformed_block_present_when_reached [OF slot_l slot_n ok, where info = zeroNetem]
  have slot_c: "Slot (snd (unmarshalNetem LittleEndian ?slot_d zeroNetem)) \<noteq> None"
    using slot_i slot_t slot_f by blast
  have slot_e: "unmarshalNetem LittleEndian ?slot_d zeroNetem
      = (None, (flowInfo (forNext (netemCase LittleEndian None) ?pre
           (zeroNetem\<lparr>Qopt := unpack NetemQoptLayout LittleEndian (take 24 ?slot_d)\<rparr>)))\<lparr>Slot := Some zeroNetemSlot\<rparr>)"
    using slot_i slot_t slot_f by blast
  have slot_v: "(flowInfo (forNext (netemCase LittleEndian None) ?pre
           (zeroNetem\<lparr>Qopt := unpack NetemQoptLayout LittleEndian (take 24 ?slot_d)\<rparr>)))\<lparr>Slot := Some zeroNetemSlot\<rparr>
      = zeroNetem\<lparr>Ecn := Some 1, Slot := Some zeroNetemSlot\<rparr>"
    by code_simp
  have slot_r: "unmarshalNetem LittleEndian ?slot_d zeroNetem
      = (None, zeroNetem\<lparr>Ecn := Some 1, Slot := Some zeroNetemSlot\<rparr>)"
    unfolding slot_e slot_v by (rule refl)
  let ?corr_p_d = "[0, 0, 0, 0, 0, 0, 0, 0, 0, 0, 0, 0, 0, 0, 0, 0, 0, 0, 0, 0, 0, 0, 0, 0,
        8, 0, 7, 0, 1, 0, 0, 0, 7, 0, 1, 0, 1, 2, 3, 0,
        12, 0, 8, 0, 2, 0, 0, 0, 0, 0, 0, 0 :: byte]"
  let ?corr_p_a = "\<lparr> attr_Type = tcaNetemCorr, attr_Data = [1, 2, 3] \<rparr>"
  have corr_p_l: "24 \<le> length ?corr_p_d" by simp
  have corr_p_n: "NewAttributeDecoder LittleEndian (drop 24 ?corr_p_d) = Inr (?pre @ ?corr_p_a # [\<lparr> attr_Type = tcaNetemRate64, attr_Data = [2, 0, 0, 0, 0, 0, 0, 0] \<rparr>])"
    by code_simp
  have corr_p_t: "ad_Type ?corr_p_a = tcaNetemCorr" by code_simp
  have corr_p_f: "fst (unmarshalStruct NetemCorrLayout LittleEndian (attr_Data ?corr_p_a) zeroNetemCorr) \<noteq> None"
    by code_simp
  note corr_p_i = malformed_block_present_when_reached [OF corr_p_l corr_p_n ok, where info = zeroNetem]
  have corr_p_c: "Corr (snd (unmarshalNetem LittleEndian ?corr_p_d zeroNetem)) \<noteq> None"
    using corr_p_i corr_p_t corr_p_f by blast
  show ?thesis
    by (intro conjI)
      (rule ok1
        corr_l
        corr_n
        corr_t
        corr_f
        corr_c
        corr_r
        reorder_l
        reorder_n
        reorder_t
        reorder_f
        reorder_c
        reorder_r
        corrupt_l
        corrupt_n
        corrupt_t
        corrupt_f
        corrupt_c
        corrupt_r
        rate_l
        rate_n
        rate_t
        rate_f
        rate_c
        rate_r
        slot_l
        slot_n
        slot_t
        slot_f
        slot_c
        slot_r
        corr_p_l
        corr_p_n
        corr_p_t
        corr_p_f
        corr_p_c)+
qed

end
